theory Spec2Isabelle
  imports Complex_Main "HOL-Library.Word" "HOL-Library.AList"
begin

section \<open>Dial parameter selection and replay: data model\<close>

text \<open>
  The development embeds \<^verbatim>\<open>psiphon/dialParameters.go\<close>. Go structs are records, pointers
  that may be nil are options, \<^verbatim>\<open>(value, error)\<close> returns are sums, and every call of the
  seed/RNG service, of the tactics coin flips and of the other external collaborators is an
  explicit input holding the outcome of that call.
\<close>

type_synonym bytes = "8 word list"

text \<open>\<^verbatim>\<open>prng.Seed\<close> is an opaque byte block; \<^verbatim>\<open>*prng.Seed\<close> is \<open>Seed option\<close>.\<close>

type_synonym Seed = bytes

text \<open>
  \<^verbatim>\<open>time.Time\<close> is the number of nanoseconds since the zero Time, so \<^verbatim>\<open>IsZero\<close> is
  equality with 0, \<^verbatim>\<open>Before\<close> is \<open><\<close> and \<^verbatim>\<open>Add\<close> is \<open>+\<close>. \<^verbatim>\<open>time.Duration\<close> is a
  number of nanoseconds.
\<close>

type_synonym Time = int
type_synonym Duration = int

definition IsZero :: "Time \<Rightarrow> bool" where
  "IsZero t = (t = 0)"

definition Before :: "Time \<Rightarrow> Time \<Rightarrow> bool" where
  "Before t u = (t < u)"

definition Add :: "Time \<Rightarrow> Duration \<Rightarrow> Time" where
  "Add t d = t + d"

datatype error = Error string

text \<open>
  The three ways \<^verbatim>\<open>MakeDialParameters\<close> ends: \<^verbatim>\<open>(dialParams, nil)\<close>, the silent skip
  \<^verbatim>\<open>(nil, nil)\<close> and \<^verbatim>\<open>(nil, err)\<close>; \<open>Panic\<close> is a nil pointer dereference.
\<close>

datatype 'a result = Return 'a | Skip | Fail error | Panic

text \<open>\<^verbatim>\<open>http.Header\<close>, a \<^verbatim>\<open>map[string][]string\<close>, as an association list with one entry per key.\<close>

type_synonym Header = "(string \<times> string list) list"

text \<open>\<^verbatim>\<open>transforms.Spec\<close> is a list of string pairs; a nil spec is \<open>None\<close>.\<close>

type_synonym Spec = "(string \<times> string) list"

text \<open>\<^verbatim>\<open>bpf.RawInstruction\<close>: \<^verbatim>\<open>Op uint16; Jt, Jf uint8; K uint32\<close>.\<close>

type_synonym RawInstruction = "16 word \<times> 8 word \<times> 8 word \<times> 32 word"

text \<open>Opaque handles of the external collaborators.\<close>

datatype Resolver = ResolverRef nat
datatype ResolveParameters = ResolveParametersRef nat
datatype FragmentorConfig = FragmentorConfigRef nat
datatype DeviceBinder = DeviceBinderRef nat
datatype IPv6Synthesizer = IPv6SynthesizerRef nat
datatype ErrorCallback = ErrorCallbackRef nat
datatype MetricsSource = MetricsSourceRef nat

record ObfuscatorSeedTransformerParameters =
  TransformName :: string
  TransformSpec :: "Spec option"
  TransformSeed :: "Seed option"

record OSSHPrefixSpec =
  ps_Name :: string
  ps_Spec :: "Spec option"
  ps_Seed :: "Seed option"

record OSSHPrefixSplitConfig =
  sc_Seed :: "Seed option"
  sc_MinDelay :: Duration
  sc_MaxDelay :: Duration

record HTTPTransformerParameters =
  ProtocolTransformName :: string
  ProtocolTransformSpec :: "Spec option"
  ProtocolTransformSeed :: "Seed option"

text \<open>
  \<^verbatim>\<open>protocol.ServerEntry\<close>: the fields the engine reads. Its methods are not part of the
  embedded file and are carried as fields holding their results.
\<close>

record ServerEntry =
  IpAddress :: string
  se_FrontingProviderID :: string
  LocalSource :: string
  MeekServerPort :: int
  MeekFrontingDisableSNI :: bool
  MeekCookieEncryptionPublicKey :: string
  MeekObfuscatedKey :: string
  MeekFrontingAddressesRegex :: string
  MeekFrontingAddresses :: "string list"
  MeekFrontingHosts :: "string list"
  se_MeekFrontingHost :: string
  LimitQUICVersions :: "string list"
  DisableObfuscatedQUICTransforms :: bool
  DisableOSSHTransforms :: bool
  DisableOSSHPrefix :: bool
  DisableHTTPTransforms :: bool
  ConfigurationVersion :: "64 word"
  LocalTimestamp :: string
  GetDialPortNumber :: "string \<Rightarrow> error + int"
  GetDiagnosticID :: string
  ProtocolUsesLegacyPassthrough :: "string \<Rightarrow> bool"
  SupportsOnlyQUICv1 :: bool
  SupportsProtocol :: "string \<Rightarrow> bool"

text \<open>
  The read-only tactics snapshot \<^verbatim>\<open>parameters.ParametersAccessor\<close>: its typed getters, by
  parameter name. \<^verbatim>\<open>WeightedCoinFlip\<close> is random and is an input of each call site instead.
\<close>

record ParametersAccessor =
  Tag :: string
  p_Bool :: "string \<Rightarrow> bool"
  p_Int :: "string \<Rightarrow> int"
  p_Float :: "string \<Rightarrow> real"
  p_Duration :: "string \<Rightarrow> Duration"
  p_String :: "string \<Rightarrow> string"
  p_Strings :: "string \<Rightarrow> string list"
  p_TunnelProtocols :: "string \<Rightarrow> string list"
  p_LabeledTunnelProtocols :: "string \<Rightarrow> string \<Rightarrow> string list"
  p_QUICVersions :: "string \<Rightarrow> string list"
  p_LabeledQUICVersions :: "string \<Rightarrow> string \<Rightarrow> string list"
  p_ConjureTransports :: "string \<Rightarrow> string list"
  p_HTTPHeaders :: "string \<Rightarrow> Header"
  p_RegexStrings :: "string \<Rightarrow> string list"
  p_BPFProgram :: "string \<Rightarrow> bool \<times> string \<times> RawInstruction list"

text \<open>
  \<^verbatim>\<open>Config\<close>. \<open>Get\<close> is \<^verbatim>\<open>config.GetParameters().Get()\<close> and \<open>GetCustom\<close> is
  \<^verbatim>\<open>config.GetParameters().GetCustom(multiplier)\<close>.
\<close>

record Config =
  GetNetworkID :: string
  Get :: ParametersAccessor
  GetCustom :: "real \<Rightarrow> ParametersAccessor"
  GetResolver :: "Resolver option"
  UseUpstreamProxy :: bool
  UpstreamProxyURL :: string
  CustomHeaders :: Header
  DisableReplay :: bool
  DisableSystemRootCAs :: bool
  TrustedCACertificatesFilename :: string
  deviceBinder :: "DeviceBinder option"
  cfg_IPv6Synthesizer :: "IPv6Synthesizer option"
  dialParametersHash :: bytes

text \<open>
  \<^verbatim>\<open>DialConfig\<close>. The closure \<^verbatim>\<open>ResolveIP\<close> is the triple it captures (resolver, network ID
  and resolve parameters); the closure \<^verbatim>\<open>ResolvedIPCallback\<close> is whether it is set.
\<close>

record DialConfig =
  dc_DiagnosticID :: string
  dc_UpstreamProxyURL :: string
  dc_CustomHeaders :: Header
  dc_BPFProgramInstructions :: "RawInstruction list"
  dc_DeviceBinder :: "DeviceBinder option"
  dc_IPv6Synthesizer :: "IPv6Synthesizer option"
  dc_ResolveIP :: "Resolver option \<times> string \<times> ResolveParameters option"
  dc_TrustedCACertificatesFilename :: string
  dc_FragmentorConfig :: "FragmentorConfig option"
  dc_UpstreamProxyErrorCallback :: "ErrorCallback option"
  dc_ResolvedIPCallback :: bool

datatype MeekMode = MeekModeRelay | MeekModeObfuscatedRoundTrip | MeekModePlaintextRoundTrip

text \<open>
  \<^verbatim>\<open>MeekConfig\<close>. Its field \<^verbatim>\<open>Parameters\<close>, the handle \<^verbatim>\<open>config.GetParameters()\<close>, is the
  configuration itself and is not repeated here.
\<close>

record MeekConfig =
  mc_DiagnosticID :: string
  mc_DialAddress :: string
  mc_UseQUIC :: bool
  mc_QUICVersion :: string
  mc_QUICClientHelloSeed :: "Seed option"
  mc_QUICDisablePathMTUDiscovery :: bool
  mc_UseHTTPS :: bool
  mc_TLSProfile :: string
  mc_TLSFragmentClientHello :: bool
  mc_LegacyPassthrough :: bool
  mc_NoDefaultTLSSessionID :: bool
  mc_RandomizedTLSProfileSeed :: "Seed option"
  mc_UseObfuscatedSessionTickets :: bool
  mc_SNIServerName :: string
  mc_AddPsiphonFrontingHeader :: bool
  mc_VerifyServerName :: string
  mc_VerifyPins :: "string list"
  mc_DisableSystemRootCAs :: bool
  mc_HostHeader :: string
  mc_TransformedHostName :: bool
  mc_ClientTunnelProtocol :: string
  mc_MeekCookieEncryptionPublicKey :: string
  mc_MeekObfuscatedKey :: string
  mc_MeekObfuscatorPaddingSeed :: "Seed option"
  mc_NetworkLatencyMultiplier :: real
  mc_HTTPTransformerParameters :: "HTTPTransformerParameters option"
  mc_Mode :: MeekMode

text \<open>
  \<^verbatim>\<open>DialParameters\<close>, field by field. \<^verbatim>\<open>MeekResolvedIPAddress\<close> is an \<^verbatim>\<open>atomic.Value\<close>:
  \<open>None\<close> before the first \<^verbatim>\<open>Store\<close>. A nil byte slice and an empty one are the same list
  (\<^verbatim>\<open>bytes.Equal\<close> does not tell them apart).
\<close>

record DialParameters =
  ServerEntry :: "ServerEntry option"
  NetworkID :: string
  IsReplay :: bool
  CandidateNumber :: int
  EstablishedTunnelsCount :: int
  IsExchanged :: bool
  LastUsedTimestamp :: Time
  LastUsedConfigStateHash :: bytes
  LastUsedServerEntryHash :: bytes
  NetworkLatencyMultiplier :: real
  TunnelProtocol :: string
  DirectDialAddress :: string
  DialPortNumber :: string
  UpstreamProxyType :: string
  UpstreamProxyCustomHeaderNames :: "string list option"
  BPFProgramName :: string
  BPFProgramInstructions :: "RawInstruction list"
  SelectedSSHClientVersion :: bool
  SSHClientVersion :: string
  SSHKEXSeed :: "Seed option"
  ObfuscatorPaddingSeed :: "Seed option"
  OSSHObfuscatorSeedTransformerParameters :: "ObfuscatorSeedTransformerParameters option"
  OSSHPrefixSpec :: "OSSHPrefixSpec option"
  OSSHPrefixSplitConfig :: "OSSHPrefixSplitConfig option"
  FragmentorSeed :: "Seed option"
  FrontingProviderID :: string
  MeekFrontingDialAddress :: string
  MeekFrontingHost :: string
  MeekDialAddress :: string
  MeekTransformedHostName :: bool
  MeekSNIServerName :: string
  MeekVerifyServerName :: string
  MeekVerifyPins :: "string list"
  MeekHostHeader :: string
  MeekObfuscatorPaddingSeed :: "Seed option"
  MeekTLSPaddingSize :: int
  MeekResolvedIPAddress :: "string option"
  TLSOSSHTransformedSNIServerName :: bool
  TLSOSSHSNIServerName :: string
  TLSOSSHObfuscatorPaddingSeed :: "Seed option"
  SelectedUserAgent :: bool
  UserAgent :: string
  SelectedTLSProfile :: bool
  TLSProfile :: string
  NoDefaultTLSSessionID :: bool
  TLSVersion :: string
  RandomizedTLSProfileSeed :: "Seed option"
  TLSFragmentClientHello :: bool
  QUICVersion :: string
  QUICDialSNIAddress :: string
  QUICClientHelloSeed :: "Seed option"
  ObfuscatedQUICPaddingSeed :: "Seed option"
  ObfuscatedQUICNonceTransformerParameters :: "ObfuscatorSeedTransformerParameters option"
  QUICDisablePathMTUDiscovery :: bool
  ConjureCachedRegistrationTTL :: Duration
  ConjureAPIRegistration :: bool
  ConjureAPIRegistrarBidirectionalURL :: string
  ConjureAPIRegistrarDelay :: Duration
  ConjureDecoyRegistration :: bool
  ConjureDecoyRegistrarDelay :: Duration
  ConjureDecoyRegistrarWidth :: int
  ConjureTransport :: string
  ConjureSTUNServerAddress :: string
  ConjureDTLSEmptyInitialPacket :: bool
  LivenessTestSeed :: "Seed option"
  APIRequestPaddingSeed :: "Seed option"
  HoldOffTunnelDuration :: Duration
  DialConnMetrics :: "MetricsSource option"
  DialConnNoticeMetrics :: "MetricsSource option"
  ObfuscatedSSHConnMetrics :: "MetricsSource option"
  DialDuration :: Duration
  resolver :: "Resolver option"
  ResolveParameters :: "ResolveParameters option"
  HTTPTransformerParameters :: "HTTPTransformerParameters option"
  dialConfig :: "DialConfig option"
  meekConfig :: "MeekConfig option"

text \<open>The zero value \<^verbatim>\<open>&DialParameters{}\<close>.\<close>

definition DialParameters_zero :: DialParameters where
  "DialParameters_zero = \<lparr>
     ServerEntry = None, NetworkID = [], IsReplay = False, CandidateNumber = 0,
     EstablishedTunnelsCount = 0, IsExchanged = False, LastUsedTimestamp = 0,
     LastUsedConfigStateHash = [], LastUsedServerEntryHash = [],
     NetworkLatencyMultiplier = 0, TunnelProtocol = [], DirectDialAddress = [],
     DialPortNumber = [], UpstreamProxyType = [], UpstreamProxyCustomHeaderNames = None,
     BPFProgramName = [], BPFProgramInstructions = [], SelectedSSHClientVersion = False,
     SSHClientVersion = [], SSHKEXSeed = None, ObfuscatorPaddingSeed = None,
     OSSHObfuscatorSeedTransformerParameters = None, OSSHPrefixSpec = None,
     OSSHPrefixSplitConfig = None, FragmentorSeed = None, FrontingProviderID = [],
     MeekFrontingDialAddress = [], MeekFrontingHost = [], MeekDialAddress = [],
     MeekTransformedHostName = False, MeekSNIServerName = [], MeekVerifyServerName = [],
     MeekVerifyPins = [], MeekHostHeader = [], MeekObfuscatorPaddingSeed = None,
     MeekTLSPaddingSize = 0, MeekResolvedIPAddress = None,
     TLSOSSHTransformedSNIServerName = False, TLSOSSHSNIServerName = [],
     TLSOSSHObfuscatorPaddingSeed = None, SelectedUserAgent = False, UserAgent = [],
     SelectedTLSProfile = False, TLSProfile = [], NoDefaultTLSSessionID = False,
     TLSVersion = [], RandomizedTLSProfileSeed = None, TLSFragmentClientHello = False,
     QUICVersion = [], QUICDialSNIAddress = [], QUICClientHelloSeed = None,
     ObfuscatedQUICPaddingSeed = None, ObfuscatedQUICNonceTransformerParameters = None,
     QUICDisablePathMTUDiscovery = False, ConjureCachedRegistrationTTL = 0,
     ConjureAPIRegistration = False, ConjureAPIRegistrarBidirectionalURL = [],
     ConjureAPIRegistrarDelay = 0, ConjureDecoyRegistration = False,
     ConjureDecoyRegistrarDelay = 0, ConjureDecoyRegistrarWidth = 0, ConjureTransport = [],
     ConjureSTUNServerAddress = [], ConjureDTLSEmptyInitialPacket = False,
     LivenessTestSeed = None, APIRequestPaddingSeed = None, HoldOffTunnelDuration = 0,
     DialConnMetrics = None, DialConnNoticeMetrics = None, ObfuscatedSSHConnMetrics = None,
     DialDuration = 0, resolver = None, ResolveParameters = None,
     HTTPTransformerParameters = None, dialConfig = None, meekConfig = None \<rparr>"

text \<open>
  What survives the JSON round trip through the store: the fields tagged \<^verbatim>\<open>json:"-"\<close> and
  the unexported ones come back as zero values.
\<close>

definition persisted :: "DialParameters \<Rightarrow> DialParameters" where
  "persisted d = d\<lparr> ServerEntry := None, NetworkID := [], IsReplay := False,
     CandidateNumber := 0, EstablishedTunnelsCount := 0, UpstreamProxyType := [],
     UpstreamProxyCustomHeaderNames := None, MeekResolvedIPAddress := None,
     DialConnMetrics := None, DialConnNoticeMetrics := None,
     ObfuscatedSSHConnMetrics := None, DialDuration := 0, resolver := None,
     dialConfig := None, meekConfig := None \<rparr>"

text \<open>The calls made to the store adapter, in order.\<close>

datatype StoreCall =
  SetDialParameters string string DialParameters
  | DeleteDialParameters string string


section \<open>External collaborators\<close>

text \<open>
  The package \<^verbatim>\<open>protocol\<close> is not part of the embedded file: its constants, tables and
  predicates are parameters.
\<close>

record Protocol =
  TUNNEL_PROTOCOL_SSH :: string
  TUNNEL_PROTOCOL_OBFUSCATED_SSH :: string
  TUNNEL_PROTOCOL_TLS_OBFUSCATED_SSH :: string
  TUNNEL_PROTOCOL_UNFRONTED_MEEK :: string
  TUNNEL_PROTOCOL_UNFRONTED_MEEK_HTTPS :: string
  TUNNEL_PROTOCOL_UNFRONTED_MEEK_SESSION_TICKET :: string
  TUNNEL_PROTOCOL_FRONTED_MEEK :: string
  TUNNEL_PROTOCOL_FRONTED_MEEK_HTTP :: string
  TUNNEL_PROTOCOL_QUIC_OBFUSCATED_SSH :: string
  TUNNEL_PROTOCOL_FRONTED_MEEK_QUIC_OBFUSCATED_SSH :: string
  TUNNEL_PROTOCOL_TAPDANCE_OBFUSCATED_SSH :: string
  TUNNEL_PROTOCOL_CONJURE_OBFUSCATED_SSH :: string
  QUIC_VERSION_V1 :: string
  QUIC_VERSION_RANDOMIZED_V1 :: string
  QUIC_VERSION_OBFUSCATED_V1 :: string
  QUIC_VERSION_DECOY_V1 :: string
  SupportedTunnelProtocols :: "string list"
  SupportedTLSProfiles :: "string list"
  SupportedQUICVersions :: "string list"
  SupportedQUICv1Versions :: "string list"
  SupportedConjureTransports :: "string list"
  TunnelProtocolUsesTCP :: "string \<Rightarrow> bool"
  TunnelProtocolUsesMeek :: "string \<Rightarrow> bool"
  TunnelProtocolUsesFrontedMeek :: "string \<Rightarrow> bool"
  TunnelProtocolUsesMeekHTTP :: "string \<Rightarrow> bool"
  TunnelProtocolUsesMeekHTTPS :: "string \<Rightarrow> bool"
  TunnelProtocolUsesFrontedMeekQUIC :: "string \<Rightarrow> bool"
  TunnelProtocolUsesQUIC :: "string \<Rightarrow> bool"
  TunnelProtocolUsesTLSOSSH :: "string \<Rightarrow> bool"
  TunnelProtocolUsesConjure :: "string \<Rightarrow> bool"
  TunnelProtocolRequiresTLS12SessionTickets :: "string \<Rightarrow> bool"
  TunnelProtocolRequiresTLS13Support :: "string \<Rightarrow> bool"
  TunnelProtocolSupportsUpstreamProxy :: "string \<Rightarrow> bool"
  AllowServerEntrySourceWithUpstreamProxy :: "string \<Rightarrow> bool"
  ConjureTransportUsesSTUN :: "string \<Rightarrow> bool"
  QUICVersionHasRandomizedClientHello :: "string \<Rightarrow> bool"
  QUICVersionUsesPathMTUDiscovery :: "string \<Rightarrow> bool"
  QUICVersionIsObfuscated :: "string \<Rightarrow> bool"

text \<open>
  The rest of the world one composition reads: the platform, the standard library
  (\<open>ParseIP s\<close> is \<^verbatim>\<open>net.ParseIP(s) != nil\<close>, \<open>SplitHostPort\<close> gives the host part,
  \<open>SafeParseURL\<close> the scheme), the clock and the store's \<^verbatim>\<open>GetDialParameters\<close>.
\<close>

record World =
  protocol :: Protocol
  ClientBPFEnabled :: bool
  ParseIP :: "string \<Rightarrow> bool"
  SplitHostPort :: "string \<Rightarrow> string"
  SafeParseURL :: "string \<Rightarrow> error + string"
  md5 :: "bytes \<Rightarrow> bytes"
  Now :: Time
  GetDialParameters :: "string \<Rightarrow> string \<Rightarrow> error + DialParameters option"

text \<open>Modelled from the spec: \<^verbatim>\<open>common.Contains\<close>, membership of a string in a list.\<close>

definition Contains :: "string list \<Rightarrow> string \<Rightarrow> bool" where
  "Contains list target = (target \<in> set list)"

text \<open>
  Modelled from the spec: \<^verbatim>\<open>prng.Intn\<close>, the seed/RNG service's uniform integer choice
  in \<open>[0, n)\<close>; \<open>r\<close> is the raw draw. Every call site guards \<open>n > 0\<close>.
\<close>

definition Intn :: "nat \<Rightarrow> nat \<Rightarrow> nat" where
  "Intn r n = r mod n"

text \<open>\<^verbatim>\<open>net.JoinHostPort\<close>: a host containing a colon is bracketed.\<close>

definition JoinHostPort :: "string \<Rightarrow> string \<Rightarrow> string" where
  "JoinHostPort host port =
     (if CHR '':'' \<in> set host then ''['' @ host @ '']:'' @ port else host @ '':'' @ port)"

text \<open>\<^verbatim>\<open>strconv.Itoa\<close>.\<close>

fun digits :: "nat \<Rightarrow> string" where
  "digits n = (if n < 10 then [char_of (48 + n)] else digits (n div 10) @ [char_of (48 + n mod 10)])"

declare digits.simps [simp del]

definition Itoa :: "int \<Rightarrow> string" where
  "Itoa i = (if i < 0 then CHR ''-'' # digits (nat (- i)) else digits (nat i))"

text \<open>\<^verbatim>\<open>binary.BigEndian.PutUint64\<close> and \<^verbatim>\<open>[]byte(s)\<close>.\<close>

definition PutUint64 :: "64 word \<Rightarrow> bytes" where
  "PutUint64 v = map (\<lambda>i. ucast (drop_bit (8 * i) v)) [7, 6, 5, 4, 3, 2, 1, 0]"

definition bytes_of :: "string \<Rightarrow> bytes" where
  "bytes_of s = map of_char s"

section \<open>Lifecycle: Succeeded and Failed\<close>

text \<open>
  Both return the store calls they make; \<open>None\<close> is the nil dereference of
  \<^verbatim>\<open>dialParams.ServerEntry\<close>. Failures of the store are only logged.
\<close>

definition Succeeded :: "DialParameters \<Rightarrow> StoreCall list option" where
  "Succeeded dialParams =
     (if IsZero (LastUsedTimestamp dialParams) then Some []
      else case ServerEntry dialParams of
             None \<Rightarrow> None
           | Some se \<Rightarrow> Some [SetDialParameters (IpAddress se) (NetworkID dialParams) dialParams])"

text \<open>
  \<open>coinRetain\<close> is the outcome of
  \<^verbatim>\<open>WeightedCoinFlip(parameters.ReplayRetainFailedProbability)\<close>, flipped only for a replay.
\<close>

definition Failed :: "bool \<Rightarrow> DialParameters \<Rightarrow> StoreCall list option" where
  "Failed coinRetain dialParams =
     (if IsReplay dialParams \<and> \<not> coinRetain
      then case ServerEntry dialParams of
             None \<Rightarrow> None
           | Some se \<Rightarrow> Some [DeleteDialParameters (IpAddress se) (NetworkID dialParams)]
      else Some [])"

definition getTLSVersionForMetrics :: "string \<Rightarrow> bool \<Rightarrow> string" where
  "getTLSVersionForMetrics tlsVersion noDefaultTLSSessionID =
     (if noDefaultTLSSessionID then tlsVersion @ ''-no_def_id'' else tlsVersion)"

section \<open>State hashes and exchanged dial parameters\<close>

definition getDialStateHashes ::
  "World \<Rightarrow> Config \<Rightarrow> ParametersAccessor \<Rightarrow> ServerEntry \<Rightarrow> bytes \<times> bytes" where
  "getDialStateHashes W config p serverEntry =
     (let clientStateHash = md5 W (dialParametersHash config @ bytes_of (Tag p));
          serverEntryHash = md5 W (PutUint64 (ConfigurationVersion serverEntry)
                                     @ bytes_of (LocalTimestamp serverEntry))
      in (clientStateHash, serverEntryHash))"

record ExchangedDialParameters =
  ex_TunnelProtocol :: string

definition NewExchangedDialParameters :: "DialParameters \<Rightarrow> ExchangedDialParameters" where
  "NewExchangedDialParameters dialParams = \<lparr> ex_TunnelProtocol = TunnelProtocol dialParams \<rparr>"

definition Validate :: "Protocol \<Rightarrow> ExchangedDialParameters \<Rightarrow> ServerEntry \<Rightarrow> error option" where
  "Validate P dialParams serverEntry =
     (if \<not> Contains (SupportedTunnelProtocols P) (ex_TunnelProtocol dialParams)
      then Some (Error (''unknown tunnel protocol: '' @ ex_TunnelProtocol dialParams))
      else if \<not> SupportsProtocol serverEntry (ex_TunnelProtocol dialParams)
      then Some (Error (''unsupported tunnel protocol: '' @ ex_TunnelProtocol dialParams))
      else None)"

definition Exchanged_MakeDialParameters ::
  "World \<Rightarrow> ExchangedDialParameters \<Rightarrow> Config \<Rightarrow> ParametersAccessor \<Rightarrow> ServerEntry
     \<Rightarrow> DialParameters" where
  "Exchanged_MakeDialParameters W dialParams config p serverEntry =
     (let (configStateHash, serverEntryHash) = getDialStateHashes W config p serverEntry
      in DialParameters_zero\<lparr>
           IsExchanged := True,
           LastUsedTimestamp := Now W,
           LastUsedConfigStateHash := configStateHash,
           LastUsedServerEntryHash := serverEntryHash,
           TunnelProtocol := ex_TunnelProtocol dialParams \<rparr>)"

section \<open>Parameter sub-selectors\<close>

text \<open>
  Each selector takes the outcomes of the random and external calls it makes: coin flips
  (\<^verbatim>\<open>WeightedCoinFlip\<close>), raw draws for \<^verbatim>\<open>prng.Intn\<close>, results of \<^verbatim>\<open>prng.NewSeed\<close>,
  \<^verbatim>\<open>regen.GenerateString\<close>, \<^verbatim>\<open>specs.Select\<close> and the canned values. Where the source
  passes the tactics accessor and parameter names only to say which coin is flipped and
  which specs are searched, the outcome itself is the argument. Wrapping an error with
  \<^verbatim>\<open>errors.Trace\<close> keeps the error.
\<close>

definition selectFrontingParameters ::
  "(string \<Rightarrow> error + string) \<Rightarrow> nat \<Rightarrow> nat \<Rightarrow> ServerEntry \<Rightarrow> error + (string \<times> string)" where
  "selectFrontingParameters regen rAddress rHost serverEntry =
     (case (if length (MeekFrontingAddressesRegex serverEntry) > 0
            then regen (MeekFrontingAddressesRegex serverEntry)
            else if length (MeekFrontingAddresses serverEntry) = 0
            then Inl (Error ''MeekFrontingAddresses is empty'')
            else Inr (MeekFrontingAddresses serverEntry
                        ! Intn rAddress (length (MeekFrontingAddresses serverEntry)))) of
        Inl err \<Rightarrow> Inl err
      | Inr frontingDialHost \<Rightarrow>
          (let frontingHost =
                 (if length (MeekFrontingHosts serverEntry) > 0
                  then MeekFrontingHosts serverEntry
                         ! Intn rHost (length (MeekFrontingHosts serverEntry))
                  else se_MeekFrontingHost serverEntry)
           in Inr (frontingDialHost, frontingHost)))"

text \<open>
  The loop of \<^verbatim>\<open>selectQUICVersion\<close> over the supported versions; each \<^verbatim>\<open>continue\<close> is a
  branch that leaves the accumulated \<open>quicVersions\<close> as it is.
\<close>

fun selectQUICVersion_loop ::
  "Protocol \<Rightarrow> bool \<Rightarrow> ServerEntry \<Rightarrow> string list \<Rightarrow> string list \<Rightarrow> string list
     \<Rightarrow> string list \<Rightarrow> string list" where
  "selectQUICVersion_loop P isFronted serverEntry limitQUICVersions disableQUICVersions
       [] quicVersions = quicVersions"
| "selectQUICVersion_loop P isFronted serverEntry limitQUICVersions disableQUICVersions
       (quicVersion # rest) quicVersions =
     (if length limitQUICVersions > 0 \<and> \<not> Contains limitQUICVersions quicVersion
      then selectQUICVersion_loop P isFronted serverEntry limitQUICVersions
             disableQUICVersions rest quicVersions
      else if length (LimitQUICVersions serverEntry) > 0
               \<and> \<not> Contains (LimitQUICVersions serverEntry) quicVersion
      then selectQUICVersion_loop P isFronted serverEntry limitQUICVersions
             disableQUICVersions rest quicVersions
      else if isFronted \<and> QUICVersionIsObfuscated P quicVersion
      then selectQUICVersion_loop P isFronted serverEntry limitQUICVersions
             disableQUICVersions rest quicVersions
      else if Contains disableQUICVersions quicVersion
      then selectQUICVersion_loop P isFronted serverEntry limitQUICVersions
             disableQUICVersions rest quicVersions
      else selectQUICVersion_loop P isFronted serverEntry limitQUICVersions
             disableQUICVersions rest (quicVersions @ [quicVersion]))"

definition selectQUICVersion ::
  "Protocol \<Rightarrow> nat \<Rightarrow> bool \<Rightarrow> ServerEntry \<Rightarrow> ParametersAccessor \<Rightarrow> string" where
  "selectQUICVersion P rChoice isFronted serverEntry p =
     (let limitQUICVersions = p_QUICVersions p ''LimitQUICVersions'';
          disableQUICVersions =
            (if isFronted
             then if se_FrontingProviderID serverEntry = []
                  then [QUIC_VERSION_V1 P, QUIC_VERSION_RANDOMIZED_V1 P,
                        QUIC_VERSION_OBFUSCATED_V1 P, QUIC_VERSION_DECOY_V1 P]
                  else p_LabeledQUICVersions p ''DisableFrontingProviderQUICVersions''
                         (se_FrontingProviderID serverEntry)
             else []);
          supportedQUICVersions =
            (if SupportsOnlyQUICv1 serverEntry then SupportedQUICv1Versions P
             else SupportedQUICVersions P);
          quicVersions = selectQUICVersion_loop P isFronted serverEntry limitQUICVersions
                           disableQUICVersions supportedQUICVersions []
      in if length quicVersions = 0 then []
         else quicVersions ! Intn rChoice (length quicVersions))"

text \<open>
  \<open>headers[k]\<close> is a lookup in the association list; an assignment \<open>headers[k] = v\<close>
  replaces the entry of \<open>k\<close> or adds one.
\<close>

definition selectUserAgentIfUnset :: "bool \<Rightarrow> string \<Rightarrow> Header \<Rightarrow> bool \<times> string" where
  "selectUserAgentIfUnset coinPick cannedUserAgent headers =
     (if map_of headers ''User-Agent'' = None
      then (True, if coinPick then cannedUserAgent else [])
      else (False, []))"

text \<open>
  The two \<^verbatim>\<open>range\<close> loops of \<^verbatim>\<open>makeDialCustomHeaders\<close>, each copying every entry of its
  source into \<open>dialCustomHeaders\<close>.
\<close>

fun copyHeaders :: "Header \<Rightarrow> Header \<Rightarrow> Header" where
  "copyHeaders [] dialCustomHeaders = dialCustomHeaders"
| "copyHeaders ((k, v) # rest) dialCustomHeaders =
     copyHeaders rest (AList.update k v dialCustomHeaders)"

definition makeDialCustomHeaders :: "Config \<Rightarrow> ParametersAccessor \<Rightarrow> Header" where
  "makeDialCustomHeaders config p =
     (let dialCustomHeaders = copyHeaders (CustomHeaders config) [];
          additionalCustomHeaders = p_HTTPHeaders p ''AdditionalCustomHeaders''
      in copyHeaders additionalCustomHeaders dialCustomHeaders)"

record HostNameDraw =
  hn_coinCustom :: bool
  hn_choice :: nat
  hn_regen :: "string \<Rightarrow> error + string"
  hn_GetHostName :: string

definition selectHostName :: "HostNameDraw \<Rightarrow> string \<Rightarrow> ParametersAccessor \<Rightarrow> string" where
  "selectHostName D tunnelProtocol p =
     (let limitProtocols = p_TunnelProtocols p ''CustomHostNameLimitProtocols''
      in if length limitProtocols > 0 \<and> \<not> Contains limitProtocols tunnelProtocol
         then hn_GetHostName D
         else if \<not> hn_coinCustom D then hn_GetHostName D
         else let regexStrings = p_RegexStrings p ''CustomHostNameRegexes''
              in if length regexStrings = 0 then hn_GetHostName D
                 else case hn_regen D (regexStrings ! Intn (hn_choice D) (length regexStrings)) of
                        Inl err \<Rightarrow> hn_GetHostName D
                      | Inr hostName \<Rightarrow> hostName)"

record HTTPTransformerDraw =
  ht_coinFronted :: bool
  ht_coinDirect :: bool
  ht_Select :: "string \<Rightarrow> string \<times> Spec option"
  ht_NewSeed :: "error + Seed"

definition makeHTTPTransformerParameters ::
  "HTTPTransformerDraw \<Rightarrow> ParametersAccessor \<Rightarrow> string \<Rightarrow> bool
     \<Rightarrow> error + HTTPTransformerParameters" where
  "makeHTTPTransformerParameters D p frontingProviderID isFronted =
     (let params = \<lparr> ProtocolTransformName = [], ProtocolTransformSpec = None,
                      ProtocolTransformSeed = None \<rparr>;
          (useTransform, scope) =
            (if isFronted
             then if ht_coinFronted D then (True, frontingProviderID) else (False, [])
             else if ht_coinDirect D then (True, []) else (False, []))
      in if useTransform
         then case ht_Select D scope of
                (name, None) \<Rightarrow> Inr params
              | (name, Some spec) \<Rightarrow>
                  (case ht_NewSeed D of
                     Inl err \<Rightarrow> Inl err
                   | Inr seed \<Rightarrow>
                       Inr (params\<lparr> ProtocolTransformName := name,
                                    ProtocolTransformSpec := Some spec,
                                    ProtocolTransformSeed := Some seed \<rparr>))
         else Inr params)"

record SeedTransformerDraw =
  st_coin :: bool
  st_NewSeed :: "error + Seed"
  st_Select :: "string \<times> Spec option"

definition makeSeedTransformerParameters ::
  "SeedTransformerDraw \<Rightarrow> error + ObfuscatorSeedTransformerParameters" where
  "makeSeedTransformerParameters D =
     (let empty = \<lparr> TransformName = [], TransformSpec = None, TransformSeed = None \<rparr>
      in if \<not> st_coin D then Inr empty
         else case st_NewSeed D of
                Inl err \<Rightarrow> Inl err
              | Inr seed \<Rightarrow>
                  (case st_Select D of
                     (name, None) \<Rightarrow> Inr empty
                   | (name, Some spec) \<Rightarrow>
                       Inr \<lparr> TransformName = name, TransformSpec = Some spec,
                             TransformSeed = Some seed \<rparr>))"

record PrefixSpecDraw =
  px_coin :: bool
  px_Select :: "string \<Rightarrow> string \<times> Spec option"
  px_NewSeed :: "error + Seed"

definition makeOSSHPrefixSpecParameters :: "PrefixSpecDraw \<Rightarrow> string \<Rightarrow> error + OSSHPrefixSpec" where
  "makeOSSHPrefixSpecParameters D dialPortNumber =
     (let empty = \<lparr> ps_Name = [], ps_Spec = None, ps_Seed = None \<rparr>
      in if \<not> px_coin D then Inr empty
         else case px_Select D dialPortNumber of
                (name, None) \<Rightarrow> Inr empty
              | (name, Some spec) \<Rightarrow>
                  (case px_NewSeed D of
                     Inl err \<Rightarrow> Inl err
                   | Inr seed \<Rightarrow>
                       Inr \<lparr> ps_Name = name, ps_Spec = Some spec, ps_Seed = Some seed \<rparr>))"

definition makeOSSHPrefixSplitConfig ::
  "error + Seed \<Rightarrow> ParametersAccessor \<Rightarrow> error + OSSHPrefixSplitConfig" where
  "makeOSSHPrefixSplitConfig newSeed p =
     (let minDelay = p_Duration p ''OSSHPrefixSplitMinDelay'';
          maxDelay = p_Duration p ''OSSHPrefixSplitMaxDelay''
      in case newSeed of
           Inl err \<Rightarrow> Inl err
         | Inr seed \<Rightarrow>
             Inr \<lparr> sc_Seed = Some seed, sc_MinDelay = minDelay, sc_MaxDelay = maxDelay \<rparr>)"

definition selectConjureTransport :: "Protocol \<Rightarrow> nat \<Rightarrow> ParametersAccessor \<Rightarrow> string" where
  "selectConjureTransport P rChoice p =
     (let limitConjureTransports = p_ConjureTransports p ''ConjureLimitTransports'';
          transports = filter (\<lambda>transport. \<not> (length limitConjureTransports > 0
                                  \<and> \<not> Contains limitConjureTransports transport))
                         (SupportedConjureTransports P)
      in if length transports = 0 then []
         else transports ! Intn rChoice (length transports))"

section \<open>The parameter composer, MakeDialParameters\<close>

text \<open>
  The outcomes of the random and external calls of one composition, one field per call
  site: \<open>d_coin...\<close> are \<^verbatim>\<open>p.WeightedCoinFlip\<close> results, \<open>d_seed...\<close> are
  \<^verbatim>\<open>prng.NewSeed\<close> results, \<open>d_choice...\<close> are raw draws for \<^verbatim>\<open>prng.Intn\<close>,
  \<open>d_Period...\<close> are \<^verbatim>\<open>prng.Period\<close> and the other fields are named after the function
  called.
\<close>

record Draws =
  d_ExpFloat64Range :: "real \<Rightarrow> real \<Rightarrow> real \<Rightarrow> real"
  d_coinRestrictFrontingProviderIDs :: bool
  d_coinBPFClientTCP :: bool
  d_GetSSHClientVersion :: string
  d_seedSSHKEX :: "error + Seed"
  d_seedObfuscatorPadding :: "error + Seed"
  d_seedMeekObfuscatorPadding :: "error + Seed"
  d_seedTLSOSSHObfuscatorPadding :: "error + Seed"
  d_seedFragmentor :: "error + Seed"
  d_coinConjureDecoyRegistrar :: bool
  d_SelectParameters :: "error + (string \<times> string \<times> string \<times> string \<times> string list \<times> string)"
  d_coinConjureTransformHostName :: bool
  d_hostNameConjure :: HostNameDraw
  d_PeriodConjureAPI :: "Duration \<Rightarrow> Duration \<Rightarrow> Duration"
  d_PeriodConjureDecoy :: "Duration \<Rightarrow> Duration \<Rightarrow> Duration"
  d_choiceConjureTransport :: nat
  d_choiceSTUNServer :: nat
  d_coinConjureDTLSEmptyInitialPacket :: bool
  d_SelectTLSProfile :: "bool \<Rightarrow> bool \<Rightarrow> bool \<Rightarrow> string \<Rightarrow> error + (string \<times> string \<times> Seed option)"
  d_coinNoDefaultTLSSessionID :: bool
  d_regenFrontingAddress :: "string \<Rightarrow> error + string"
  d_choiceFrontingAddress :: nat
  d_choiceFrontingHost :: nat
  d_coinTransformMeekHTTPS :: bool
  d_hostNameMeekSNI :: HostNameDraw
  d_hostNameMeekHost :: HostNameDraw
  d_coinTransformTLSOSSH :: bool
  d_hostNameTLSOSSH :: HostNameDraw
  d_coinTransformMeekHTTP :: bool
  d_hostNameMeekHTTP :: HostNameDraw
  d_hostNameQUIC :: HostNameDraw
  d_choiceQUICVersion :: nat
  d_seedQUICClientHello :: "error + Seed"
  d_coinQUICDisablePathMTUDiscovery :: bool
  d_seedObfuscatedQUICPadding :: "error + Seed"
  d_QUICNonceTransformer :: SeedTransformerDraw
  d_seedLivenessTest :: "error + Seed"
  d_seedAPIRequestPadding :: "error + Seed"
  d_MakeResolveParameters :: "string \<Rightarrow> string \<Rightarrow> error + ResolveParameters"
  d_coinHoldOffTunnel :: bool
  d_PeriodHoldOff :: "Duration \<Rightarrow> Duration \<Rightarrow> Duration"
  d_OSSHSeedTransformer :: SeedTransformerDraw
  d_OSSHPrefix :: PrefixSpecDraw
  d_seedOSSHPrefixSplit :: "error + Seed"
  d_HTTPTransformer :: HTTPTransformerDraw
  d_coinTLSFragmentClientHello :: bool
  d_coinPickUserAgent :: bool
  d_GetUserAgent :: string
  d_NewUpstreamConfig :: "FragmentorConfig option"

subsection \<open>Replay arbitration (lines 221 to 315)\<close>

text \<open>
  \<open>currentState\<close> is \<open>(currentTimestamp, configStateHash, serverEntryHash)\<close>: set only
  when the TTL is positive, zero values otherwise.
\<close>

definition currentState :: "World \<Rightarrow> Config \<Rightarrow> ServerEntry \<Rightarrow> Time \<times> bytes \<times> bytes" where
  "currentState W config serverEntry =
     (let p = Get config; ttl = p_Duration p ''ReplayDialParametersTTL''
      in if ttl > 0 then (Now W, getDialStateHashes W config p serverEntry)
         else (0, [], []))"

text \<open>The condition of lines 257 to 294 under which the stored record is deleted.\<close>

definition replayInvalid :: "World \<Rightarrow> Config \<Rightarrow> ServerEntry \<Rightarrow> DialParameters \<Rightarrow> bool" where
  "replayInvalid W config serverEntry dialParams =
     (let p = Get config;
          ttl = p_Duration p ''ReplayDialParametersTTL'';
          replayIgnoreChangedConfigState = p_Bool p ''ReplayIgnoreChangedConfigState'';
          (currentTimestamp, configStateHash, serverEntryHash) = currentState W config serverEntry
      in ttl \<le> 0
         \<or> Before (LastUsedTimestamp dialParams) (Add currentTimestamp (- ttl))
         \<or> (\<not> replayIgnoreChangedConfigState
              \<and> LastUsedConfigStateHash dialParams \<noteq> configStateHash)
         \<or> LastUsedServerEntryHash dialParams \<noteq> serverEntryHash
         \<or> (TLSProfile dialParams \<noteq> []
              \<and> \<not> Contains (SupportedTLSProfiles (protocol W)) (TLSProfile dialParams))
         \<or> (QUICVersion dialParams \<noteq> []
              \<and> \<not> Contains (SupportedQUICVersions (protocol W)) (QUICVersion dialParams))
         \<or> (ConjureAPIRegistration dialParams
              \<and> ConjureAPIRegistrarBidirectionalURL dialParams = []))"

text \<open>
  The store calls made and the value of \<open>dialParams\<close> at line 316 (\<open>None\<close> is nil). A
  failing \<^verbatim>\<open>GetDialParameters\<close> is only logged and counts as no record.
\<close>

definition replayArbitration ::
  "World \<Rightarrow> Config \<Rightarrow> (ServerEntry \<Rightarrow> string \<Rightarrow> bool) \<Rightarrow> ServerEntry
     \<Rightarrow> StoreCall list \<times> DialParameters option" where
  "replayArbitration W config canReplay serverEntry =
     (let networkID = GetNetworkID config
      in case (case GetDialParameters W (IpAddress serverEntry) networkID of
                 Inl err \<Rightarrow> None
               | Inr found \<Rightarrow> found) of
           None \<Rightarrow> ([], None)
         | Some dialParams \<Rightarrow>
             if replayInvalid W config serverEntry dialParams
             then ([DeleteDialParameters (IpAddress serverEntry) networkID], None)
             else if DisableReplay config \<or> \<not> canReplay serverEntry (TunnelProtocol dialParams)
             then ([], None)
             else ([], Some dialParams))"

subsection \<open>Identity, latency multiplier, tunnel protocol (lines 333 to 428)\<close>

definition initialize ::
  "World \<Rightarrow> Config \<Rightarrow> ServerEntry \<Rightarrow> int \<Rightarrow> int \<Rightarrow> bool \<Rightarrow> DialParameters option
     \<Rightarrow> DialParameters result" where
  "initialize W config serverEntry candidateNumber establishedTunnelsCount isReplay stored =
     (let dialParams = (case stored of None \<Rightarrow> DialParameters_zero | Some found \<Rightarrow> found);
          dialParams = dialParams\<lparr> resolver := GetResolver config \<rparr>;
          (currentTimestamp, configStateHash, serverEntryHash) = currentState W config serverEntry
      in if resolver dialParams = None then Fail (Error ''missing resolver'')
         else Return (dialParams\<lparr>
                IsExchanged := False,
                ServerEntry := Some serverEntry,
                NetworkID := GetNetworkID config,
                IsReplay := isReplay,
                CandidateNumber := candidateNumber,
                EstablishedTunnelsCount := establishedTunnelsCount,
                LastUsedTimestamp := currentTimestamp,
                LastUsedConfigStateHash := configStateHash,
                LastUsedServerEntryHash := serverEntryHash \<rparr>))"

definition selectNetworkLatencyMultiplier ::
  "Draws \<Rightarrow> ParametersAccessor \<Rightarrow> bool \<Rightarrow> DialParameters \<Rightarrow> DialParameters" where
  "selectNetworkLatencyMultiplier D p isReplay dialParams =
     (let networkLatencyMultiplierMin = p_Float p ''NetworkLatencyMultiplierMin'';
          networkLatencyMultiplierMax = p_Float p ''NetworkLatencyMultiplierMax''
      in if \<not> isReplay
            \<or> (NetworkLatencyMultiplier dialParams \<noteq> 0
                \<and> (NetworkLatencyMultiplier dialParams < networkLatencyMultiplierMin
                    \<or> NetworkLatencyMultiplier dialParams > networkLatencyMultiplierMax))
         then dialParams\<lparr> NetworkLatencyMultiplier :=
                d_ExpFloat64Range D networkLatencyMultiplierMin networkLatencyMultiplierMax
                  (p_Float p ''NetworkLatencyMultiplierLambda'') \<rparr>
         else dialParams)"

definition selectTunnelProtocol ::
  "(ServerEntry \<Rightarrow> string \<times> bool) \<Rightarrow> ServerEntry \<Rightarrow> bool \<Rightarrow> bool \<Rightarrow> DialParameters
     \<Rightarrow> DialParameters result" where
  "selectTunnelProtocol selectProtocol serverEntry isReplay isExchanged dialParams =
     (if \<not> isReplay \<and> \<not> isExchanged
      then case selectProtocol serverEntry of
             (selectedProtocol, ok) \<Rightarrow>
               if \<not> ok then Skip
               else Return (dialParams\<lparr> TunnelProtocol := selectedProtocol \<rparr>)
      else Return dialParams)"

subsection \<open>Skips for restricted fronting providers and upstream proxies (lines 430 to 484)\<close>

definition restrictFrontingProvider ::
  "World \<Rightarrow> Draws \<Rightarrow> ParametersAccessor \<Rightarrow> DialParameters \<Rightarrow> DialParameters result" where
  "restrictFrontingProvider W D p dialParams =
     (if TunnelProtocolUsesFrontedMeek (protocol W) (TunnelProtocol dialParams)
      then case ServerEntry dialParams of
             None \<Rightarrow> Panic
           | Some se \<Rightarrow>
               if Contains (p_Strings p ''RestrictFrontingProviderIDs'') (se_FrontingProviderID se)
               then if d_coinRestrictFrontingProviderIDs D then Skip else Return dialParams
               else Return dialParams
      else Return dialParams)"

definition checkUpstreamProxy ::
  "World \<Rightarrow> Config \<Rightarrow> ParametersAccessor \<Rightarrow> DialParameters \<Rightarrow> DialParameters result" where
  "checkUpstreamProxy W config p dialParams =
     (if UseUpstreamProxy config
      then if \<not> TunnelProtocolSupportsUpstreamProxy (protocol W) (TunnelProtocol dialParams)
           then Skip
           else case ServerEntry dialParams of
                  None \<Rightarrow> Panic
                | Some se \<Rightarrow>
                    (let source = LocalSource se
                     in if \<not> AllowServerEntrySourceWithUpstreamProxy (protocol W) source
                           \<and> \<not> p_Bool p ''UpstreamProxyAllowAllServerEntrySources''
                        then Skip
                        else Return dialParams)
      else Return dialParams)"

subsection \<open>BPF, SSH, padding and fragmentor seeds (lines 486 to 534)\<close>

text \<open>A failing \<^verbatim>\<open>prng.NewSeed\<close> ends the composition with its error.\<close>

definition withSeed ::
  "error + Seed \<Rightarrow> (Seed option \<Rightarrow> DialParameters result) \<Rightarrow> DialParameters result" where
  "withSeed newSeed k = (case newSeed of Inl err \<Rightarrow> Fail err | Inr seed \<Rightarrow> k (Some seed))"

definition selectBPF ::
  "World \<Rightarrow> Draws \<Rightarrow> Config \<Rightarrow> ParametersAccessor \<Rightarrow> bool \<Rightarrow> DialParameters
     \<Rightarrow> DialParameters result" where
  "selectBPF W D config p isReplay dialParams =
     (if (\<not> isReplay \<or> \<not> p_Bool (Get config) ''ReplayBPF'')
         \<and> ClientBPFEnabled W
         \<and> TunnelProtocolUsesTCP (protocol W) (TunnelProtocol dialParams)
      then if d_coinBPFClientTCP D
           then case p_BPFProgram p ''BPFClientTCPProgram'' of
                  (ok, name, rawInstructions) \<Rightarrow>
                    if ok
                    then Return (dialParams\<lparr> BPFProgramName := name,
                                              BPFProgramInstructions := rawInstructions \<rparr>)
                    else Return (dialParams\<lparr> BPFProgramName := [],
                                              BPFProgramInstructions := [] \<rparr>)
           else Return dialParams
      else Return dialParams)"

definition selectSSH ::
  "Draws \<Rightarrow> Config \<Rightarrow> bool \<Rightarrow> DialParameters \<Rightarrow> DialParameters result" where
  "selectSSH D config isReplay dialParams =
     (if \<not> isReplay \<or> \<not> p_Bool (Get config) ''ReplaySSH''
      then withSeed (d_seedSSHKEX D) (\<lambda>seed.
             Return (dialParams\<lparr> SelectedSSHClientVersion := True,
                                  SSHClientVersion := d_GetSSHClientVersion D,
                                  SSHKEXSeed := seed \<rparr>))
      else Return dialParams)"

definition selectObfuscatorPadding ::
  "World \<Rightarrow> Draws \<Rightarrow> Config \<Rightarrow> bool \<Rightarrow> DialParameters \<Rightarrow> DialParameters result" where
  "selectObfuscatorPadding W D config isReplay dialParams =
     (if \<not> isReplay \<or> \<not> p_Bool (Get config) ''ReplayObfuscatorPadding''
      then withSeed (d_seedObfuscatorPadding D) (\<lambda>seed.
             let dialParams = dialParams\<lparr> ObfuscatorPaddingSeed := seed \<rparr>
             in if TunnelProtocolUsesMeek (protocol W) (TunnelProtocol dialParams)
                then withSeed (d_seedMeekObfuscatorPadding D) (\<lambda>seed.
                       Return (dialParams\<lparr> MeekObfuscatorPaddingSeed := seed \<rparr>))
                else if TunnelProtocolUsesTLSOSSH (protocol W) (TunnelProtocol dialParams)
                then withSeed (d_seedTLSOSSHObfuscatorPadding D) (\<lambda>seed.
                       Return (dialParams\<lparr> TLSOSSHObfuscatorPaddingSeed := seed \<rparr>))
                else Return dialParams)
      else Return dialParams)"

definition selectFragmentorSeed ::
  "Draws \<Rightarrow> Config \<Rightarrow> bool \<Rightarrow> DialParameters \<Rightarrow> DialParameters result" where
  "selectFragmentorSeed D config isReplay dialParams =
     (if \<not> isReplay \<or> \<not> p_Bool (Get config) ''ReplayFragmentor''
      then withSeed (d_seedFragmentor D) (\<lambda>seed.
             Return (dialParams\<lparr> FragmentorSeed := seed \<rparr>))
      else Return dialParams)"

subsection \<open>Conjure registration and transport (lines 536 to 644)\<close>

definition selectConjureRegistration ::
  "World \<Rightarrow> Draws \<Rightarrow> Config \<Rightarrow> ParametersAccessor \<Rightarrow> bool \<Rightarrow> DialParameters
     \<Rightarrow> DialParameters result" where
  "selectConjureRegistration W D config p isReplay dialParams =
     (if (\<not> isReplay \<or> \<not> p_Bool (Get config) ''ReplayConjureRegistration'')
         \<and> TunnelProtocolUsesConjure (protocol W) (TunnelProtocol dialParams)
      then
        let apiURL = p_String p ''ConjureAPIRegistrarBidirectionalURL'';
            decoyWidth = p_Int p ''ConjureDecoyRegistrarWidth'';
            dialParams = dialParams\<lparr>
              ConjureCachedRegistrationTTL := p_Duration p ''ConjureCachedRegistrationTTL'',
              ConjureAPIRegistration := apiURL \<noteq> [],
              ConjureDecoyRegistration := decoyWidth \<noteq> 0 \<rparr>;
            dialParams =
              (if ConjureAPIRegistration dialParams \<and> ConjureDecoyRegistration dialParams
               then if d_coinConjureDecoyRegistrar D
                    then dialParams\<lparr> ConjureAPIRegistration := False \<rparr>
                    else dialParams
               else dialParams)
        in if ConjureAPIRegistration dialParams
           then
             case d_SelectParameters D of
               Inl err \<Rightarrow> Fail err
             | Inr (frontingProviderID, dialAddress, sniServerName, verifyServerName,
                    verifyPins, host) \<Rightarrow>
                 let dialParams = dialParams\<lparr>
                       ConjureAPIRegistrarBidirectionalURL := apiURL,
                       FrontingProviderID := frontingProviderID,
                       MeekFrontingDialAddress := dialAddress,
                       MeekSNIServerName := sniServerName,
                       MeekVerifyServerName := verifyServerName,
                       MeekVerifyPins := verifyPins,
                       MeekFrontingHost := host \<rparr>
                 in if DisableSystemRootCAs config
                    then Fail (Error
                           ''TLS certificates must be verified in Conjure API registration'')
                    else
                      let dialParams = dialParams\<lparr>
                            MeekDialAddress :=
                              JoinHostPort (MeekFrontingDialAddress dialParams) ''443'',
                            MeekHostHeader := MeekFrontingHost dialParams \<rparr>;
                          dialParams =
                            (if MeekSNIServerName dialParams \<noteq> []
                             then if d_coinConjureTransformHostName D
                                  then dialParams\<lparr>
                                         MeekSNIServerName :=
                                           selectHostName (d_hostNameConjure D)
                                             (TunnelProtocol dialParams) p,
                                         MeekTransformedHostName := True \<rparr>
                                  else dialParams
                             else dialParams);
                          minDelay = p_Duration p ''ConjureAPIRegistrarMinDelay'';
                          maxDelay = p_Duration p ''ConjureAPIRegistrarMaxDelay''
                      in Return (dialParams\<lparr> ConjureAPIRegistrarDelay :=
                                   d_PeriodConjureAPI D minDelay maxDelay \<rparr>)
           else if ConjureDecoyRegistration dialParams
           then
             let minDelay = p_Duration p ''ConjureDecoyRegistrarMinDelay'';
                 maxDelay = p_Duration p ''ConjureDecoyRegistrarMaxDelay''
             in Return (dialParams\<lparr>
                  ConjureDecoyRegistrarWidth := decoyWidth,
                  ConjureAPIRegistrarDelay := d_PeriodConjureDecoy D minDelay maxDelay \<rparr>)
           else Fail (Error ''no Conjure registrar configured'')
      else Return dialParams)"

definition selectConjureTransportStep ::
  "World \<Rightarrow> Draws \<Rightarrow> Config \<Rightarrow> ParametersAccessor \<Rightarrow> bool \<Rightarrow> DialParameters
     \<Rightarrow> DialParameters result" where
  "selectConjureTransportStep W D config p isReplay dialParams =
     (if (\<not> isReplay \<or> \<not> p_Bool (Get config) ''ReplayConjureTransport'')
         \<and> TunnelProtocolUsesConjure (protocol W) (TunnelProtocol dialParams)
      then
        let dialParams = dialParams\<lparr> ConjureTransport :=
              selectConjureTransport (protocol W) (d_choiceConjureTransport D) p \<rparr>
        in if ConjureTransportUsesSTUN (protocol W) (ConjureTransport dialParams)
           then
             let stunServerAddresses = p_Strings p ''ConjureSTUNServerAddresses''
             in if length stunServerAddresses = 0
                then Fail (Error (''no Conjure STUN servers addresses configured for transport ''
                                    @ ConjureTransport dialParams))
                else Return (dialParams\<lparr>
                       ConjureSTUNServerAddress :=
                         stunServerAddresses
                           ! Intn (d_choiceSTUNServer D) (length stunServerAddresses),
                       ConjureDTLSEmptyInitialPacket :=
                         d_coinConjureDTLSEmptyInitialPacket D \<rparr>)
           else Return dialParams
      else Return dialParams)"

subsection \<open>TLS profile, fronting and host names (lines 646 to 746)\<close>

definition usingTLS_of :: "World \<Rightarrow> DialParameters \<Rightarrow> bool" where
  "usingTLS_of W dialParams =
     (TunnelProtocolUsesMeekHTTPS (protocol W) (TunnelProtocol dialParams)
      \<or> TunnelProtocolUsesTLSOSSH (protocol W) (TunnelProtocol dialParams)
      \<or> ConjureAPIRegistration dialParams)"

definition selectTLSProfileStep ::
  "World \<Rightarrow> Draws \<Rightarrow> Config \<Rightarrow> ServerEntry \<Rightarrow> bool \<Rightarrow> bool \<Rightarrow> DialParameters
     \<Rightarrow> DialParameters result" where
  "selectTLSProfileStep W D config serverEntry isReplay usingTLS dialParams =
     (if (\<not> isReplay \<or> \<not> p_Bool (Get config) ''ReplayTLSProfile'') \<and> usingTLS
      then
        let dialParams = dialParams\<lparr> SelectedTLSProfile := True \<rparr>;
            requireTLS12SessionTickets =
              TunnelProtocolRequiresTLS12SessionTickets (protocol W) (TunnelProtocol dialParams);
            requireTLS13Support =
              TunnelProtocolRequiresTLS13Support (protocol W) (TunnelProtocol dialParams);
            isFronted = (TunnelProtocolUsesFrontedMeek (protocol W) (TunnelProtocol dialParams)
                         \<or> ConjureAPIRegistration dialParams)
        in case d_SelectTLSProfile D requireTLS12SessionTickets requireTLS13Support isFronted
                  (se_FrontingProviderID serverEntry) of
             Inl err \<Rightarrow> Fail err
           | Inr (tlsProfile, tlsVersion, seed) \<Rightarrow>
               let dialParams = dialParams\<lparr> TLSProfile := tlsProfile,
                                             TLSVersion := tlsVersion,
                                             RandomizedTLSProfileSeed := seed \<rparr>
               in if TLSProfile dialParams = []
                     \<and> (requireTLS12SessionTickets \<or> requireTLS13Support)
                  then Fail (Error ''required TLS profile not found'')
                  else Return (dialParams\<lparr> NoDefaultTLSSessionID :=
                                 d_coinNoDefaultTLSSessionID D \<rparr>)
      else Return dialParams)"

definition selectFronting ::
  "World \<Rightarrow> Draws \<Rightarrow> Config \<Rightarrow> ServerEntry \<Rightarrow> bool \<Rightarrow> DialParameters
     \<Rightarrow> DialParameters result" where
  "selectFronting W D config serverEntry isReplay dialParams =
     (if (\<not> isReplay \<or> \<not> p_Bool (Get config) ''ReplayFronting'')
         \<and> TunnelProtocolUsesFrontedMeek (protocol W) (TunnelProtocol dialParams)
      then
        let dialParams = dialParams\<lparr> FrontingProviderID := se_FrontingProviderID serverEntry \<rparr>
        in case selectFrontingParameters (d_regenFrontingAddress D)
                  (d_choiceFrontingAddress D) (d_choiceFrontingHost D) serverEntry of
             Inl err \<Rightarrow> Fail err
           | Inr (frontingDialHost, frontingHost) \<Rightarrow>
               Return (dialParams\<lparr> MeekFrontingDialAddress := frontingDialHost,
                                    MeekFrontingHost := frontingHost \<rparr>)
      else Return dialParams)"

definition selectHostNames ::
  "World \<Rightarrow> Draws \<Rightarrow> Config \<Rightarrow> ParametersAccessor \<Rightarrow> ServerEntry \<Rightarrow> bool \<Rightarrow> DialParameters
     \<Rightarrow> DialParameters result" where
  "selectHostNames W D config p serverEntry isReplay dialParams =
     (if \<not> isReplay \<or> \<not> p_Bool (Get config) ''ReplayHostname''
      then
        if TunnelProtocolUsesMeekHTTPS (protocol W) (TunnelProtocol dialParams)
           \<or> TunnelProtocolUsesFrontedMeekQUIC (protocol W) (TunnelProtocol dialParams)
        then
          let hostname =
                (if d_coinTransformMeekHTTPS D
                 then selectHostName (d_hostNameMeekSNI D) (TunnelProtocol dialParams) p
                 else selectHostName (d_hostNameMeekHost D) (TunnelProtocol dialParams) p);
              dialParams =
                (if d_coinTransformMeekHTTPS D
                 then dialParams\<lparr> MeekSNIServerName := hostname,
                                   MeekTransformedHostName := True \<rparr>
                 else dialParams\<lparr> MeekSNIServerName := [] \<rparr>)
          in if MeekServerPort serverEntry = 443
             then Return (dialParams\<lparr> MeekHostHeader := hostname \<rparr>)
             else Return (dialParams\<lparr> MeekHostHeader :=
                            JoinHostPort hostname (Itoa (MeekServerPort serverEntry)) \<rparr>)
        else if TunnelProtocolUsesTLSOSSH (protocol W) (TunnelProtocol dialParams)
        then
          if d_coinTransformTLSOSSH D
          then Return (dialParams\<lparr>
                 TLSOSSHSNIServerName :=
                   selectHostName (d_hostNameTLSOSSH D) (TunnelProtocol dialParams) p,
                 TLSOSSHTransformedSNIServerName := True \<rparr>)
          else Return (dialParams\<lparr> TLSOSSHSNIServerName := [] \<rparr>)
        else if TunnelProtocolUsesMeekHTTP (protocol W) (TunnelProtocol dialParams)
        then
          let hostname =
                (if d_coinTransformMeekHTTP D
                 then selectHostName (d_hostNameMeekHTTP D) (TunnelProtocol dialParams) p
                 else IpAddress serverEntry);
              dialParams =
                (if d_coinTransformMeekHTTP D
                 then dialParams\<lparr> MeekTransformedHostName := True \<rparr>
                 else dialParams)
          in if MeekServerPort serverEntry = 80
             then Return (dialParams\<lparr> MeekHostHeader := hostname \<rparr>)
             else Return (dialParams\<lparr> MeekHostHeader :=
                            JoinHostPort hostname (Itoa (MeekServerPort serverEntry)) \<rparr>)
        else if TunnelProtocolUsesQUIC (protocol W) (TunnelProtocol dialParams)
        then Return (dialParams\<lparr> QUICDialSNIAddress :=
                       selectHostName (d_hostNameQUIC D) (TunnelProtocol dialParams) p \<rparr>)
        else Return dialParams
      else Return dialParams)"

subsection \<open>QUIC version and obfuscated QUIC (lines 748 to 807)\<close>

definition selectQUICVersionStep ::
  "World \<Rightarrow> Draws \<Rightarrow> Config \<Rightarrow> ParametersAccessor \<Rightarrow> ServerEntry \<Rightarrow> bool \<Rightarrow> DialParameters
     \<Rightarrow> DialParameters result" where
  "selectQUICVersionStep W D config p serverEntry isReplay dialParams =
     (if (\<not> isReplay \<or> \<not> p_Bool (Get config) ''ReplayQUICVersion'')
         \<and> TunnelProtocolUsesQUIC (protocol W) (TunnelProtocol dialParams)
      then
        let isFronted = TunnelProtocolUsesFrontedMeekQUIC (protocol W) (TunnelProtocol dialParams);
            dialParams = dialParams\<lparr> QUICVersion :=
              selectQUICVersion (protocol W) (d_choiceQUICVersion D) isFronted serverEntry p \<rparr>
        in if QUICVersion dialParams = [] then Skip
           else
             let finish = (\<lambda>dialParams. Return (dialParams\<lparr> QUICDisablePathMTUDiscovery :=
                             (QUICVersionUsesPathMTUDiscovery (protocol W) (QUICVersion dialParams)
                              \<and> d_coinQUICDisablePathMTUDiscovery D) \<rparr>))
             in if QUICVersionHasRandomizedClientHello (protocol W) (QUICVersion dialParams)
                then withSeed (d_seedQUICClientHello D) (\<lambda>seed.
                       finish (dialParams\<lparr> QUICClientHelloSeed := seed \<rparr>))
                else finish dialParams
      else Return dialParams)"

definition selectObfuscatedQUICPadding ::
  "World \<Rightarrow> Draws \<Rightarrow> Config \<Rightarrow> bool \<Rightarrow> DialParameters \<Rightarrow> DialParameters result" where
  "selectObfuscatedQUICPadding W D config isReplay dialParams =
     (if (\<not> isReplay \<or> \<not> p_Bool (Get config) ''ReplayObfuscatedQUIC'')
         \<and> QUICVersionIsObfuscated (protocol W) (QUICVersion dialParams)
      then withSeed (d_seedObfuscatedQUICPadding D) (\<lambda>seed.
             Return (dialParams\<lparr> ObfuscatedQUICPaddingSeed := seed \<rparr>))
      else Return dialParams)"

definition selectObfuscatedQUICNonceTransformer ::
  "World \<Rightarrow> Draws \<Rightarrow> Config \<Rightarrow> ServerEntry \<Rightarrow> bool \<Rightarrow> DialParameters
     \<Rightarrow> DialParameters result" where
  "selectObfuscatedQUICNonceTransformer W D config serverEntry isReplay dialParams =
     (if QUICVersionIsObfuscated (protocol W) (QUICVersion dialParams)
      then
        if DisableObfuscatedQUICTransforms serverEntry
        then Return (dialParams\<lparr> ObfuscatedQUICNonceTransformerParameters := None \<rparr>)
        else if \<not> isReplay \<or> \<not> p_Bool (Get config) ''ReplayObfuscatedQUICNonceTransformer''
        then case makeSeedTransformerParameters (d_QUICNonceTransformer D) of
               Inl err \<Rightarrow> Fail err
             | Inr params \<Rightarrow>
                 if TransformSpec params \<noteq> None
                 then Return (dialParams\<lparr>
                        ObfuscatedQUICNonceTransformerParameters := Some params \<rparr>)
                 else Return (dialParams\<lparr>
                        ObfuscatedQUICNonceTransformerParameters := None \<rparr>)
        else Return dialParams
      else Return dialParams)"

subsection \<open>Seeds, resolve parameters, hold-off (lines 809 to 864)\<close>

definition selectLivenessTestSeed ::
  "Draws \<Rightarrow> Config \<Rightarrow> bool \<Rightarrow> DialParameters \<Rightarrow> DialParameters result" where
  "selectLivenessTestSeed D config isReplay dialParams =
     (if \<not> isReplay \<or> \<not> p_Bool (Get config) ''ReplayLivenessTest''
      then withSeed (d_seedLivenessTest D) (\<lambda>seed.
             Return (dialParams\<lparr> LivenessTestSeed := seed \<rparr>))
      else Return dialParams)"

definition selectAPIRequestPaddingSeed ::
  "Draws \<Rightarrow> Config \<Rightarrow> bool \<Rightarrow> DialParameters \<Rightarrow> DialParameters result" where
  "selectAPIRequestPaddingSeed D config isReplay dialParams =
     (if \<not> isReplay \<or> \<not> p_Bool (Get config) ''ReplayAPIRequestPadding''
      then withSeed (d_seedAPIRequestPadding D) (\<lambda>seed.
             Return (dialParams\<lparr> APIRequestPaddingSeed := seed \<rparr>))
      else Return dialParams)"

definition selectResolveParameters ::
  "World \<Rightarrow> Draws \<Rightarrow> Config \<Rightarrow> bool \<Rightarrow> DialParameters \<Rightarrow> DialParameters result" where
  "selectResolveParameters W D config isReplay dialParams =
     (let useResolver =
            ((TunnelProtocolUsesFrontedMeek (protocol W) (TunnelProtocol dialParams)
              \<or> ConjureAPIRegistration dialParams)
             \<and> \<not> ParseIP W (MeekFrontingDialAddress dialParams))
      in if (\<not> isReplay \<or> \<not> p_Bool (Get config) ''ReplayResolveParameters'') \<and> useResolver
         then case d_MakeResolveParameters D (FrontingProviderID dialParams)
                     (MeekFrontingDialAddress dialParams) of
                Inl err \<Rightarrow> Fail err
              | Inr params \<Rightarrow> Return (dialParams\<lparr> ResolveParameters := Some params \<rparr>)
         else Return dialParams)"

definition selectHoldOffTunnel ::
  "World \<Rightarrow> Draws \<Rightarrow> Config \<Rightarrow> ParametersAccessor \<Rightarrow> bool \<Rightarrow> DialParameters
     \<Rightarrow> DialParameters result" where
  "selectHoldOffTunnel W D config p isReplay dialParams =
     (if \<not> isReplay \<or> \<not> p_Bool (Get config) ''ReplayHoldOffTunnel''
      then
        if Contains (p_TunnelProtocols p ''HoldOffTunnelProtocols'') (TunnelProtocol dialParams)
           \<or> (TunnelProtocolUsesFrontedMeek (protocol W) (TunnelProtocol dialParams)
               \<and> Contains (p_Strings p ''HoldOffTunnelFrontingProviderIDs'')
                    (FrontingProviderID dialParams))
        then if d_coinHoldOffTunnel D
             then Return (dialParams\<lparr> HoldOffTunnelDuration :=
                            d_PeriodHoldOff D (p_Duration p ''HoldOffTunnelMinDuration'')
                              (p_Duration p ''HoldOffTunnelMaxDuration'') \<rparr>)
             else Return dialParams
        else Return dialParams
      else Return dialParams)"

subsection \<open>OSSH seed transform and prefix, HTTP transformer (lines 866 to 951)\<close>

definition selectOSSHSeedTransformer ::
  "Draws \<Rightarrow> Config \<Rightarrow> ServerEntry \<Rightarrow> bool \<Rightarrow> DialParameters \<Rightarrow> DialParameters result" where
  "selectOSSHSeedTransformer D config serverEntry isReplay dialParams =
     (if DisableOSSHTransforms serverEntry
      then Return (dialParams\<lparr> OSSHObfuscatorSeedTransformerParameters := None \<rparr>)
      else if \<not> isReplay \<or> \<not> p_Bool (Get config) ''ReplayOSSHSeedTransformerParameters''
      then case makeSeedTransformerParameters (d_OSSHSeedTransformer D) of
             Inl err \<Rightarrow> Fail err
           | Inr params \<Rightarrow>
               if TransformSpec params \<noteq> None
               then Return (dialParams\<lparr>
                      OSSHObfuscatorSeedTransformerParameters := Some params \<rparr>)
               else Return (dialParams\<lparr>
                      OSSHObfuscatorSeedTransformerParameters := None \<rparr>)
      else Return dialParams)"

definition selectOSSHPrefix ::
  "Draws \<Rightarrow> Config \<Rightarrow> ParametersAccessor \<Rightarrow> ServerEntry \<Rightarrow> bool \<Rightarrow> DialParameters
     \<Rightarrow> DialParameters result" where
  "selectOSSHPrefix D config p serverEntry isReplay dialParams =
     (if DisableOSSHPrefix serverEntry
      then Return (dialParams\<lparr> OSSHPrefixSpec := None, OSSHPrefixSplitConfig := None \<rparr>)
      else if \<not> isReplay \<or> \<not> p_Bool (Get config) ''ReplayOSSHPrefix''
      then case GetDialPortNumber serverEntry (TunnelProtocol dialParams) of
             Inl err \<Rightarrow> Fail err
           | Inr dialPortNumber \<Rightarrow>
               (case makeOSSHPrefixSpecParameters (d_OSSHPrefix D) (Itoa dialPortNumber) of
                  Inl err \<Rightarrow> Fail err
                | Inr prefixSpec \<Rightarrow>
                    (case makeOSSHPrefixSplitConfig (d_seedOSSHPrefixSplit D) p of
                       Inl err \<Rightarrow> Fail err
                     | Inr splitConfig \<Rightarrow>
                         if ps_Spec prefixSpec \<noteq> None
                         then Return (dialParams\<lparr> OSSHPrefixSpec := Some prefixSpec,
                                                   OSSHPrefixSplitConfig := Some splitConfig \<rparr>)
                         else Return (dialParams\<lparr> OSSHPrefixSpec := None,
                                                   OSSHPrefixSplitConfig := None \<rparr>)))
      else Return dialParams)"

text \<open>The prefix supersedes the seed transform (lines 921 to 926).\<close>

definition supersedeSeedTransform :: "DialParameters \<Rightarrow> DialParameters" where
  "supersedeSeedTransform dialParams =
     (if OSSHPrefixSpec dialParams \<noteq> None
      then dialParams\<lparr> OSSHObfuscatorSeedTransformerParameters := None \<rparr>
      else dialParams)"

definition selectOSSH ::
  "World \<Rightarrow> Draws \<Rightarrow> Config \<Rightarrow> ParametersAccessor \<Rightarrow> ServerEntry \<Rightarrow> bool \<Rightarrow> DialParameters
     \<Rightarrow> DialParameters result" where
  "selectOSSH W D config p serverEntry isReplay dialParams =
     (if TunnelProtocol dialParams = TUNNEL_PROTOCOL_OBFUSCATED_SSH (protocol W)
      then case selectOSSHSeedTransformer D config serverEntry isReplay dialParams of
             Return dialParams \<Rightarrow>
               (case selectOSSHPrefix D config p serverEntry isReplay dialParams of
                  Return dialParams \<Rightarrow> Return (supersedeSeedTransform dialParams)
                | Skip \<Rightarrow> Skip
                | Fail err \<Rightarrow> Fail err
                | Panic \<Rightarrow> Panic)
           | Skip \<Rightarrow> Skip
           | Fail err \<Rightarrow> Fail err
           | Panic \<Rightarrow> Panic
      else Return dialParams)"

definition selectHTTPTransformer ::
  "World \<Rightarrow> Draws \<Rightarrow> Config \<Rightarrow> ServerEntry \<Rightarrow> bool \<Rightarrow> DialParameters
     \<Rightarrow> DialParameters result" where
  "selectHTTPTransformer W D config serverEntry isReplay dialParams =
     (if TunnelProtocolUsesMeekHTTP (protocol W) (TunnelProtocol dialParams)
      then
        if DisableHTTPTransforms serverEntry
        then Return (dialParams\<lparr> HTTPTransformerParameters := None \<rparr>)
        else if \<not> isReplay \<or> \<not> p_Bool (Get config) ''ReplayHTTPTransformerParameters''
        then
          let isFronted = TunnelProtocolUsesFrontedMeek (protocol W) (TunnelProtocol dialParams)
          in case makeHTTPTransformerParameters (d_HTTPTransformer D) (Get config)
                    (se_FrontingProviderID serverEntry) isFronted of
               Inl err \<Rightarrow> Fail err
             | Inr params \<Rightarrow>
                 if ProtocolTransformSpec params \<noteq> None
                 then Return (dialParams\<lparr> HTTPTransformerParameters := Some params \<rparr>)
                 else Return (dialParams\<lparr> HTTPTransformerParameters := None \<rparr>)
        else Return dialParams
      else Return dialParams)"

subsection \<open>Dial addresses and SNI (lines 953 to 1055)\<close>

text \<open>The \<^verbatim>\<open>switch\<close> on the tunnel protocol: the first matching case, in the source's order.\<close>

definition setDialAddress ::
  "World \<Rightarrow> ServerEntry \<Rightarrow> DialParameters \<Rightarrow> DialParameters result" where
  "setDialAddress W serverEntry dialParams =
     (case GetDialPortNumber serverEntry (TunnelProtocol dialParams) of
        Inl err \<Rightarrow> Fail err
      | Inr dialPortNumber \<Rightarrow>
          let P = protocol W;
              dialParams = dialParams\<lparr> DialPortNumber := Itoa dialPortNumber \<rparr>;
              tunnelProtocol = TunnelProtocol dialParams
          in if tunnelProtocol \<in> set [TUNNEL_PROTOCOL_SSH P, TUNNEL_PROTOCOL_OBFUSCATED_SSH P,
                  TUNNEL_PROTOCOL_TAPDANCE_OBFUSCATED_SSH P,
                  TUNNEL_PROTOCOL_CONJURE_OBFUSCATED_SSH P,
                  TUNNEL_PROTOCOL_QUIC_OBFUSCATED_SSH P,
                  TUNNEL_PROTOCOL_TLS_OBFUSCATED_SSH P]
             then Return (dialParams\<lparr> DirectDialAddress :=
                    JoinHostPort (IpAddress serverEntry) (DialPortNumber dialParams) \<rparr>)
             else if tunnelProtocol \<in> set [TUNNEL_PROTOCOL_FRONTED_MEEK P,
                  TUNNEL_PROTOCOL_FRONTED_MEEK_QUIC_OBFUSCATED_SSH P]
             then
               let dialParams = dialParams\<lparr>
                     MeekDialAddress := JoinHostPort (MeekFrontingDialAddress dialParams)
                                          (DialPortNumber dialParams),
                     MeekHostHeader := MeekFrontingHost dialParams \<rparr>
               in if MeekFrontingDisableSNI serverEntry
                  then Return (dialParams\<lparr> MeekSNIServerName := [],
                                            MeekTransformedHostName := False \<rparr>)
                  else if \<not> MeekTransformedHostName dialParams
                  then Return (dialParams\<lparr> MeekSNIServerName :=
                                 MeekFrontingDialAddress dialParams \<rparr>)
                  else Return dialParams
             else if tunnelProtocol = TUNNEL_PROTOCOL_FRONTED_MEEK_HTTP P
             then Return (dialParams\<lparr>
                    MeekDialAddress := JoinHostPort (MeekFrontingDialAddress dialParams)
                                         (DialPortNumber dialParams),
                    MeekHostHeader := MeekFrontingHost dialParams,
                    MeekTransformedHostName := False \<rparr>)
             else if tunnelProtocol = TUNNEL_PROTOCOL_UNFRONTED_MEEK P
             then Return (dialParams\<lparr> MeekDialAddress :=
                    JoinHostPort (IpAddress serverEntry) (DialPortNumber dialParams) \<rparr>)
             else if tunnelProtocol \<in> set [TUNNEL_PROTOCOL_UNFRONTED_MEEK_HTTPS P,
                  TUNNEL_PROTOCOL_UNFRONTED_MEEK_SESSION_TICKET P]
             then
               let dialParams = dialParams\<lparr> MeekDialAddress :=
                     JoinHostPort (IpAddress serverEntry) (DialPortNumber dialParams) \<rparr>
               in if \<not> MeekTransformedHostName dialParams
                  then Return (dialParams\<lparr> MeekSNIServerName := IpAddress serverEntry \<rparr>)
                  else Return dialParams
             else Fail (Error (''unknown tunnel protocol: '' @ TunnelProtocol dialParams)))"

definition checkMeekDialAddress ::
  "World \<Rightarrow> ParametersAccessor \<Rightarrow> DialParameters \<Rightarrow> DialParameters result" where
  "checkMeekDialAddress W p dialParams =
     (if TunnelProtocolUsesMeek (protocol W) (TunnelProtocol dialParams)
      then
        let host = SplitHostPort W (MeekDialAddress dialParams)
        in if p_Bool p ''MeekDialDomainsOnly'' \<and> ParseIP W host then Skip
           else if ParseIP W (MeekSNIServerName dialParams)
           then Return (dialParams\<lparr> MeekSNIServerName := [] \<rparr>)
           else Return dialParams
      else Return dialParams)"

definition selectTLSFragmentClientHello ::
  "World \<Rightarrow> Draws \<Rightarrow> Config \<Rightarrow> ParametersAccessor \<Rightarrow> bool \<Rightarrow> bool \<Rightarrow> DialParameters
     \<Rightarrow> DialParameters result" where
  "selectTLSFragmentClientHello W D config p isReplay usingTLS dialParams =
     (if (\<not> isReplay \<or> \<not> p_Bool (Get config) ''ReplayTLSFragmentClientHello'') \<and> usingTLS
      then
        let limitProtocols = p_TunnelProtocols p ''TLSFragmentClientHelloLimitProtocols''
        in if length limitProtocols = 0 \<or> Contains limitProtocols (TunnelProtocol dialParams)
           then
             let usingSNI =
                   (if TLSOSSHSNIServerName dialParams \<noteq> []
                    then \<not> ParseIP W (TLSOSSHSNIServerName dialParams)
                    else if MeekSNIServerName dialParams \<noteq> []
                    then \<not> ParseIP W (MeekSNIServerName dialParams)
                    else False)
             in if usingSNI
                then Return (dialParams\<lparr> TLSFragmentClientHello :=
                               d_coinTLSFragmentClientHello D \<rparr>)
                else Return dialParams
           else Return dialParams
      else Return dialParams)"

subsection \<open>User agent, custom headers, DialConfig and MeekConfig (lines 1057 to 1208)\<close>

definition setUpstreamProxyType :: "World \<Rightarrow> Config \<Rightarrow> DialParameters \<Rightarrow> DialParameters" where
  "setUpstreamProxyType W config dialParams =
     (if UseUpstreamProxy config
      then case SafeParseURL W (UpstreamProxyURL config) of
             Inl err \<Rightarrow> dialParams
           | Inr scheme \<Rightarrow> dialParams\<lparr> UpstreamProxyType := scheme \<rparr>
      else dialParams)"

text \<open>
  Lines 1067 to 1081: the updated record together with the local \<open>dialCustomHeaders\<close>.
  \<^verbatim>\<open>Header.Set\<close> stores a one-element list under the key.
\<close>

definition selectUserAgent ::
  "World \<Rightarrow> Draws \<Rightarrow> Config \<Rightarrow> ParametersAccessor \<Rightarrow> bool \<Rightarrow> DialParameters
     \<Rightarrow> DialParameters \<times> Header" where
  "selectUserAgent W D config p isReplay dialParams =
     (let dialCustomHeaders = makeDialCustomHeaders config p
      in if TunnelProtocolUsesMeek (protocol W) (TunnelProtocol dialParams)
            \<or> UpstreamProxyType dialParams = ''http''
            \<or> ConjureAPIRegistration dialParams
         then
           let dialParams =
                 (if \<not> isReplay \<or> \<not> p_Bool (Get config) ''ReplayUserAgent''
                  then case selectUserAgentIfUnset (d_coinPickUserAgent D) (d_GetUserAgent D)
                              dialCustomHeaders of
                         (selected, userAgent) \<Rightarrow>
                           dialParams\<lparr> SelectedUserAgent := selected, UserAgent := userAgent \<rparr>
                  else dialParams)
           in if SelectedUserAgent dialParams
              then (dialParams,
                    AList.update ''User-Agent'' [UserAgent dialParams] dialCustomHeaders)
              else (dialParams, dialCustomHeaders)
         else (dialParams, dialCustomHeaders))"

text \<open>
  Lines 1086 to 1094. Go ranges over the map in an unspecified order; the names are taken
  in the order of the association list.
\<close>

definition setUpstreamProxyCustomHeaderNames ::
  "Config \<Rightarrow> Header \<Rightarrow> DialParameters \<Rightarrow> DialParameters" where
  "setUpstreamProxyCustomHeaderNames config dialCustomHeaders dialParams =
     (if length (CustomHeaders config) > 0
      then dialParams\<lparr> UpstreamProxyCustomHeaderNames :=
             Some (filter (\<lambda>name. \<not> (name = ''User-Agent'' \<and> SelectedUserAgent dialParams))
                     (map fst dialCustomHeaders)) \<rparr>
      else dialParams)"

definition makeConfigs ::
  "World \<Rightarrow> Draws \<Rightarrow> Config \<Rightarrow> ErrorCallback option \<Rightarrow> ParametersAccessor \<Rightarrow> ServerEntry
     \<Rightarrow> bool \<Rightarrow> bool \<Rightarrow> Header \<Rightarrow> DialParameters \<Rightarrow> DialParameters" where
  "makeConfigs W D config upstreamProxyErrorCallback p serverEntry isTactics usingTLS
       dialCustomHeaders dialParams =
     (let fragmentorConfig =
            (if \<not> p_Bool p ''OSSHPrefixEnableFragmentor'' \<and> OSSHPrefixSpec dialParams \<noteq> None
             then None
             else d_NewUpstreamConfig D);
          usesMeekConfig = (TunnelProtocolUsesMeek (protocol W) (TunnelProtocol dialParams)
                            \<or> ConjureAPIRegistration dialParams);
          dialParams = dialParams\<lparr>
            dialConfig := Some \<lparr>
              dc_DiagnosticID = GetDiagnosticID serverEntry,
              dc_UpstreamProxyURL = UpstreamProxyURL config,
              dc_CustomHeaders = dialCustomHeaders,
              dc_BPFProgramInstructions = BPFProgramInstructions dialParams,
              dc_DeviceBinder = deviceBinder config,
              dc_IPv6Synthesizer = cfg_IPv6Synthesizer config,
              dc_ResolveIP = (resolver dialParams, GetNetworkID config,
                              ResolveParameters dialParams),
              dc_TrustedCACertificatesFilename = TrustedCACertificatesFilename config,
              dc_FragmentorConfig = fragmentorConfig,
              dc_UpstreamProxyErrorCallback = upstreamProxyErrorCallback,
              dc_ResolvedIPCallback = usesMeekConfig \<rparr>,
            MeekResolvedIPAddress := Some [] \<rparr>
      in if usesMeekConfig
         then
           let addPsiphonFrontingHeader =
                 (if FrontingProviderID dialParams \<noteq> []
                  then Contains
                         (p_LabeledTunnelProtocols p ''AddFrontingProviderPsiphonFrontingHeader''
                            (FrontingProviderID dialParams))
                         (TunnelProtocol dialParams)
                  else False)
           in dialParams\<lparr> meekConfig := Some \<lparr>
                mc_DiagnosticID = GetDiagnosticID serverEntry,
                mc_DialAddress = MeekDialAddress dialParams,
                mc_UseQUIC = TunnelProtocolUsesFrontedMeekQUIC (protocol W)
                               (TunnelProtocol dialParams),
                mc_QUICVersion = QUICVersion dialParams,
                mc_QUICClientHelloSeed = QUICClientHelloSeed dialParams,
                mc_QUICDisablePathMTUDiscovery = QUICDisablePathMTUDiscovery dialParams,
                mc_UseHTTPS = usingTLS,
                mc_TLSProfile = TLSProfile dialParams,
                mc_TLSFragmentClientHello = TLSFragmentClientHello dialParams,
                mc_LegacyPassthrough =
                  ProtocolUsesLegacyPassthrough serverEntry (TunnelProtocol dialParams),
                mc_NoDefaultTLSSessionID = NoDefaultTLSSessionID dialParams,
                mc_RandomizedTLSProfileSeed = RandomizedTLSProfileSeed dialParams,
                mc_UseObfuscatedSessionTickets =
                  (TunnelProtocol dialParams
                     = TUNNEL_PROTOCOL_UNFRONTED_MEEK_SESSION_TICKET (protocol W)),
                mc_SNIServerName = MeekSNIServerName dialParams,
                mc_AddPsiphonFrontingHeader = addPsiphonFrontingHeader,
                mc_VerifyServerName = MeekVerifyServerName dialParams,
                mc_VerifyPins = MeekVerifyPins dialParams,
                mc_DisableSystemRootCAs = DisableSystemRootCAs config,
                mc_HostHeader = MeekHostHeader dialParams,
                mc_TransformedHostName = MeekTransformedHostName dialParams,
                mc_ClientTunnelProtocol = TunnelProtocol dialParams,
                mc_MeekCookieEncryptionPublicKey = MeekCookieEncryptionPublicKey serverEntry,
                mc_MeekObfuscatedKey = MeekObfuscatedKey serverEntry,
                mc_MeekObfuscatorPaddingSeed = MeekObfuscatorPaddingSeed dialParams,
                mc_NetworkLatencyMultiplier = NetworkLatencyMultiplier dialParams,
                mc_HTTPTransformerParameters = HTTPTransformerParameters dialParams,
                mc_Mode = (if isTactics then MeekModeObfuscatedRoundTrip
                           else if ConjureAPIRegistration dialParams
                           then MeekModePlaintextRoundTrip
                           else MeekModeRelay) \<rparr> \<rparr>
         else dialParams)"

definition finalize ::
  "World \<Rightarrow> Draws \<Rightarrow> Config \<Rightarrow> ErrorCallback option \<Rightarrow> ParametersAccessor \<Rightarrow> ServerEntry
     \<Rightarrow> bool \<Rightarrow> bool \<Rightarrow> bool \<Rightarrow> DialParameters \<Rightarrow> DialParameters" where
  "finalize W D config upstreamProxyErrorCallback p serverEntry isTactics isReplay usingTLS
       dialParams =
     (case selectUserAgent W D config p isReplay (setUpstreamProxyType W config dialParams) of
        (dialParams, dialCustomHeaders) \<Rightarrow>
          makeConfigs W D config upstreamProxyErrorCallback p serverEntry isTactics usingTLS
            dialCustomHeaders
            (setUpstreamProxyCustomHeaderNames config dialCustomHeaders dialParams))"

subsection \<open>The composition\<close>

text \<open>Statements run in sequence: the first skip, error or panic ends the function.\<close>

definition andThen :: "'a result \<Rightarrow> ('a \<Rightarrow> 'b result) \<Rightarrow> 'b result" where
  "andThen r k = (case r of Return x \<Rightarrow> k x | Skip \<Rightarrow> Skip | Fail err \<Rightarrow> Fail err | Panic \<Rightarrow> Panic)"

fun run_steps :: "('a \<Rightarrow> 'a result) list \<Rightarrow> 'a \<Rightarrow> 'a result" where
  "run_steps [] x = Return x"
| "run_steps (step # steps) x = andThen (step x) (run_steps steps)"

text \<open>Lines 430 to 644, with the tactics snapshot \<open>p\<close> taken at line 413.\<close>

definition stepsBeforeTLS ::
  "World \<Rightarrow> Draws \<Rightarrow> Config \<Rightarrow> ParametersAccessor \<Rightarrow> bool
     \<Rightarrow> (DialParameters \<Rightarrow> DialParameters result) list" where
  "stepsBeforeTLS W D config p isReplay =
     [restrictFrontingProvider W D p,
      checkUpstreamProxy W config p,
      selectBPF W D config p isReplay,
      selectSSH D config isReplay,
      selectObfuscatorPadding W D config isReplay,
      selectFragmentorSeed D config isReplay,
      selectConjureRegistration W D config p isReplay,
      selectConjureTransportStep W D config p isReplay]"

text \<open>Lines 650 to 746.\<close>

definition stepsBeforeQUIC ::
  "World \<Rightarrow> Draws \<Rightarrow> Config \<Rightarrow> ParametersAccessor \<Rightarrow> ServerEntry \<Rightarrow> bool \<Rightarrow> bool
     \<Rightarrow> (DialParameters \<Rightarrow> DialParameters result) list" where
  "stepsBeforeQUIC W D config p serverEntry isReplay usingTLS =
     [selectTLSProfileStep W D config serverEntry isReplay usingTLS,
      selectFronting W D config serverEntry isReplay,
      selectHostNames W D config p serverEntry isReplay]"

text \<open>Lines 775 to 1055.\<close>

definition stepsAfterQUIC ::
  "World \<Rightarrow> Draws \<Rightarrow> Config \<Rightarrow> ParametersAccessor \<Rightarrow> ServerEntry \<Rightarrow> bool \<Rightarrow> bool
     \<Rightarrow> (DialParameters \<Rightarrow> DialParameters result) list" where
  "stepsAfterQUIC W D config p serverEntry isReplay usingTLS =
     [selectObfuscatedQUICPadding W D config isReplay,
      selectObfuscatedQUICNonceTransformer W D config serverEntry isReplay,
      selectLivenessTestSeed D config isReplay,
      selectAPIRequestPaddingSeed D config isReplay,
      selectResolveParameters W D config isReplay,
      selectHoldOffTunnel W D config p isReplay,
      selectOSSH W D config p serverEntry isReplay,
      selectHTTPTransformer W D config serverEntry isReplay,
      setDialAddress W serverEntry,
      checkMeekDialAddress W p,
      selectTLSFragmentClientHello W D config p isReplay usingTLS]"

text \<open>
  The composition up to the QUIC version selection of line 748: the record reaching it and
  the local \<open>usingTLS\<close>.
\<close>

definition composeBeforeQUIC ::
  "World \<Rightarrow> Draws \<Rightarrow> Config \<Rightarrow> ParametersAccessor \<Rightarrow> ServerEntry \<Rightarrow> bool \<Rightarrow> DialParameters
     \<Rightarrow> (bool \<times> DialParameters) result" where
  "composeBeforeQUIC W D config p serverEntry isReplay dialParams =
     andThen (run_steps (stepsBeforeTLS W D config p isReplay) dialParams) (\<lambda>dialParams.
       let usingTLS = usingTLS_of W dialParams
       in andThen (run_steps (stepsBeforeQUIC W D config p serverEntry isReplay usingTLS)
                     dialParams)
            (\<lambda>dialParams. Return (usingTLS, dialParams)))"

text \<open>Lines 430 to 1208.\<close>

definition composeRest ::
  "World \<Rightarrow> Draws \<Rightarrow> Config \<Rightarrow> ErrorCallback option \<Rightarrow> ParametersAccessor \<Rightarrow> ServerEntry
     \<Rightarrow> bool \<Rightarrow> bool \<Rightarrow> DialParameters \<Rightarrow> DialParameters result" where
  "composeRest W D config upstreamProxyErrorCallback p serverEntry isTactics isReplay dialParams =
     andThen (composeBeforeQUIC W D config p serverEntry isReplay dialParams)
       (\<lambda>(usingTLS, dialParams).
          andThen (selectQUICVersionStep W D config p serverEntry isReplay dialParams)
            (\<lambda>dialParams.
               andThen (run_steps (stepsAfterQUIC W D config p serverEntry isReplay usingTLS)
                          dialParams)
                 (\<lambda>dialParams.
                    Return (finalize W D config upstreamProxyErrorCallback p serverEntry
                              isTactics isReplay usingTLS dialParams))))"

text \<open>
  Lines 333 to 1208, from the value of \<open>dialParams\<close> left by the arbitration. The flag
  \<open>isReplay\<close> is the one of line 358, after the exchanged case has reset it.
\<close>

definition compose ::
  "World \<Rightarrow> Draws \<Rightarrow> Config \<Rightarrow> ErrorCallback option \<Rightarrow> (ServerEntry \<Rightarrow> string \<times> bool)
     \<Rightarrow> ServerEntry \<Rightarrow> bool \<Rightarrow> int \<Rightarrow> int \<Rightarrow> DialParameters option
     \<Rightarrow> DialParameters result" where
  "compose W D config upstreamProxyErrorCallback selectProtocol serverEntry isTactics
       candidateNumber establishedTunnelsCount stored =
     (let isExchanged = (case stored of None \<Rightarrow> False | Some found \<Rightarrow> IsExchanged found);
          isReplay = (stored \<noteq> None \<and> \<not> isExchanged)
      in andThen (initialize W config serverEntry candidateNumber establishedTunnelsCount
                    isReplay stored)
           (\<lambda>dialParams.
              let dialParams = selectNetworkLatencyMultiplier D (Get config) isReplay dialParams;
                  p = GetCustom config (NetworkLatencyMultiplier dialParams)
              in andThen (selectTunnelProtocol selectProtocol serverEntry isReplay isExchanged
                            dialParams)
                   (composeRest W D config upstreamProxyErrorCallback p serverEntry isTactics
                      isReplay)))"

text \<open>\<^verbatim>\<open>MakeDialParameters\<close>: the store calls it makes and what it returns.\<close>

definition MakeDialParameters ::
  "World \<Rightarrow> Draws \<Rightarrow> Config \<Rightarrow> ErrorCallback option \<Rightarrow> (ServerEntry \<Rightarrow> string \<Rightarrow> bool)
     \<Rightarrow> (ServerEntry \<Rightarrow> string \<times> bool) \<Rightarrow> ServerEntry \<Rightarrow> bool \<Rightarrow> int \<Rightarrow> int
     \<Rightarrow> StoreCall list \<times> DialParameters result" where
  "MakeDialParameters W D config upstreamProxyErrorCallback canReplay selectProtocol serverEntry
       isTactics candidateNumber establishedTunnelsCount =
     (case replayArbitration W config canReplay serverEntry of
        (calls, stored) \<Rightarrow>
          (calls, compose W D config upstreamProxyErrorCallback selectProtocol serverEntry
                    isTactics candidateNumber establishedTunnelsCount stored))"

section \<open>Properties stated by the specification\<close>

text \<open>
  Replay eligibility in the specification's words. Conditions (1) to (7): the TTL is
  positive; the record has not expired; the server-entry hash is unchanged; the config-state
  hash is unchanged or changes are ignored; a stored TLS profile is supported; a stored QUIC
  version is supported; the record is not a legacy Conjure registration without the
  bidirectional URL.
\<close>

definition replayConditions1to7 ::
  "World \<Rightarrow> Config \<Rightarrow> ServerEntry \<Rightarrow> DialParameters \<Rightarrow> bool" where
  "replayConditions1to7 W config serverEntry R =
     (let p = Get config;
          ttl = p_Duration p ''ReplayDialParametersTTL'';
          currentConfigStateHash = fst (getDialStateHashes W config p serverEntry);
          currentServerEntryHash = snd (getDialStateHashes W config p serverEntry)
      in ttl > 0
         \<and> Now W - LastUsedTimestamp R \<le> ttl
         \<and> LastUsedServerEntryHash R = currentServerEntryHash
         \<and> (LastUsedConfigStateHash R = currentConfigStateHash
            \<or> p_Bool p ''ReplayIgnoreChangedConfigState'')
         \<and> (TLSProfile R = [] \<or> TLSProfile R \<in> set (SupportedTLSProfiles (protocol W)))
         \<and> (QUICVersion R = [] \<or> QUICVersion R \<in> set (SupportedQUICVersions (protocol W)))
         \<and> \<not> (ConjureAPIRegistration R \<and> ConjureAPIRegistrarBidirectionalURL R = []))"

text \<open>Conditions (8) and (9) added: replay is not disabled and the controller permits it.\<close>

definition replayEligible ::
  "World \<Rightarrow> Config \<Rightarrow> (ServerEntry \<Rightarrow> string \<Rightarrow> bool) \<Rightarrow> ServerEntry \<Rightarrow> DialParameters
     \<Rightarrow> bool" where
  "replayEligible W config canReplay serverEntry R =
     (replayConditions1to7 W config serverEntry R
      \<and> \<not> DisableReplay config
      \<and> canReplay serverEntry (TunnelProtocol R))"

text \<open>
  The QUIC versions that survive the filters, in the specification's words: the supported
  versions (the v1 ones for a v1-only server entry) that are in the tactics limit list when
  it is set, in the server entry's limit list when it is set and, when fronted, neither
  obfuscated nor in the disable set.
\<close>

definition quicVersionSurvivors ::
  "Protocol \<Rightarrow> bool \<Rightarrow> ServerEntry \<Rightarrow> ParametersAccessor \<Rightarrow> string list" where
  "quicVersionSurvivors P isFronted serverEntry p =
     filter (\<lambda>v. (p_QUICVersions p ''LimitQUICVersions'' = []
                    \<or> v \<in> set (p_QUICVersions p ''LimitQUICVersions''))
                 \<and> (LimitQUICVersions serverEntry = []
                    \<or> v \<in> set (LimitQUICVersions serverEntry))
                 \<and> (isFronted \<longrightarrow>
                      \<not> QUICVersionIsObfuscated P v
                      \<and> v \<notin> set (if se_FrontingProviderID serverEntry = []
                                  then [QUIC_VERSION_V1 P, QUIC_VERSION_RANDOMIZED_V1 P,
                                        QUIC_VERSION_OBFUSCATED_V1 P, QUIC_VERSION_DECOY_V1 P]
                                  else p_LabeledQUICVersions p
                                         ''DisableFrontingProviderQUICVersions''
                                         (se_FrontingProviderID serverEntry))))
       (if SupportsOnlyQUICv1 serverEntry then SupportedQUICv1Versions P
        else SupportedQUICVersions P)"

text \<open>The combination of two header sources in which the second takes precedence.\<close>

definition overrideHeaders :: "Header \<Rightarrow> Header \<Rightarrow> string \<Rightarrow> string list option" where
  "overrideHeaders base overriding k =
     (case map_of overriding k of Some v \<Rightarrow> Some v | None \<Rightarrow> map_of base k)"

text \<open>The mutual exclusion of the OSSH prefix and the OSSH seed transform.\<close>

definition osshExclusive :: "DialParameters \<Rightarrow> bool" where
  "osshExclusive dialParams =
     (OSSHPrefixSpec dialParams \<noteq> None
        \<longrightarrow> OSSHObfuscatorSeedTransformerParameters dialParams = None)"

text \<open>
  The records the store can hold: those imported from an exchange (the partially
  initialized record of \<^verbatim>\<open>ExchangedDialParameters.MakeDialParameters\<close>) and those that
  \<^verbatim>\<open>Succeeded\<close> persisted for a record returned by \<^verbatim>\<open>MakeDialParameters\<close>, itself run on
  a store holding such records.
\<close>

inductive stored_record :: "DialParameters \<Rightarrow> bool" where
  imported:
    "stored_record (persisted (Exchanged_MakeDialParameters W exchanged config p serverEntry))"
| succeeded:
    "\<lbrakk> \<forall>ip nid R. GetDialParameters W ip nid = Inr (Some R) \<longrightarrow> stored_record R;
       MakeDialParameters W D config upstreamProxyErrorCallback canReplay selectProtocol
         serverEntry isTactics candidateNumber establishedTunnelsCount
         = (calls, Return dialParams);
       Succeeded dialParams = Some [SetDialParameters ip' nid' dialParams] \<rbrakk>
     \<Longrightarrow> stored_record (persisted dialParams)"

text \<open>A step that leaves an observation of the record as it is.\<close>

definition keeps :: "(DialParameters \<Rightarrow> 'a) \<Rightarrow> (DialParameters \<Rightarrow> DialParameters result) \<Rightarrow> bool" where
  "keeps f step = (\<forall>d d'. step d = Return d' \<longrightarrow> f d' = f d)"

text \<open>Fields that nothing changes after the tunnel protocol is selected at line 427.\<close>

definition identityFields ::
  "DialParameters \<Rightarrow> string \<times> bool \<times> bool \<times> real \<times> Time \<times> ServerEntry option \<times> string" where
  "identityFields d =
     (TunnelProtocol d, IsReplay d, IsExchanged d, NetworkLatencyMultiplier d,
      LastUsedTimestamp d, ServerEntry d, NetworkID d)"

definition osshFields ::
  "DialParameters \<Rightarrow> OSSHPrefixSpec option \<times> ObfuscatorSeedTransformerParameters option" where
  "osshFields d = (OSSHPrefixSpec d, OSSHObfuscatorSeedTransformerParameters d)"

text \<open>
  The composition up to line 747, just before the QUIC version is selected: the tactics
  snapshot, \<open>isReplay\<close>, \<open>usingTLS\<close> and the record at that point.
\<close>

definition beforeQUIC ::
  "World \<Rightarrow> Draws \<Rightarrow> Config \<Rightarrow> (ServerEntry \<Rightarrow> string \<times> bool) \<Rightarrow> ServerEntry \<Rightarrow> int \<Rightarrow> int
     \<Rightarrow> DialParameters option \<Rightarrow> (ParametersAccessor \<times> bool \<times> bool \<times> DialParameters) result" where
  "beforeQUIC W D config selectProtocol serverEntry candidateNumber establishedTunnelsCount
       stored =
     (let isExchanged = (case stored of None \<Rightarrow> False | Some found \<Rightarrow> IsExchanged found);
          isReplay = (stored \<noteq> None \<and> \<not> isExchanged)
      in andThen (initialize W config serverEntry candidateNumber establishedTunnelsCount
                    isReplay stored)
           (\<lambda>dialParams.
              let dialParams = selectNetworkLatencyMultiplier D (Get config) isReplay dialParams;
                  p = GetCustom config (NetworkLatencyMultiplier dialParams)
              in andThen (selectTunnelProtocol selectProtocol serverEntry isReplay isExchanged
                            dialParams)
                   (\<lambda>dialParams.
                      andThen (composeBeforeQUIC W D config p serverEntry isReplay dialParams)
                        (\<lambda>(usingTLS, dialParams).
                           Return (p, isReplay, usingTLS, dialParams)))))"

text \<open>The identity fields together with the OSSH prefix and seed-transform fields.\<close>

definition frameFields ::
  "DialParameters \<Rightarrow> (string \<times> bool \<times> bool \<times> real \<times> Time \<times> ServerEntry option \<times> string)
     \<times> (OSSHPrefixSpec option \<times> ObfuscatorSeedTransformerParameters option)" where
  "frameFields d = (identityFields d, osshFields d)"

text \<open>The statements of lines 775 to 864 and of lines 930 to 1010, on either side of the OSSH block.\<close>

definition stepsBeforeOSSH ::
  "World \<Rightarrow> Draws \<Rightarrow> Config \<Rightarrow> ParametersAccessor \<Rightarrow> ServerEntry \<Rightarrow> bool
     \<Rightarrow> (DialParameters \<Rightarrow> DialParameters result) list" where
  "stepsBeforeOSSH W D config p serverEntry isReplay =
     [selectObfuscatedQUICPadding W D config isReplay,
      selectObfuscatedQUICNonceTransformer W D config serverEntry isReplay,
      selectLivenessTestSeed D config isReplay,
      selectAPIRequestPaddingSeed D config isReplay,
      selectResolveParameters W D config isReplay,
      selectHoldOffTunnel W D config p isReplay]"

definition stepsToDialAddress ::
  "World \<Rightarrow> Draws \<Rightarrow> Config \<Rightarrow> ServerEntry \<Rightarrow> bool
     \<Rightarrow> (DialParameters \<Rightarrow> DialParameters result) list" where
  "stepsToDialAddress W D config serverEntry isReplay =
     [selectHTTPTransformer W D config serverEntry isReplay,
      setDialAddress W serverEntry]"

text \<open>
  An IP literal: a non-empty string that \<^verbatim>\<open>net.ParseIP\<close> accepts (it rejects the empty string).
\<close>

definition isIPLiteral :: "World \<Rightarrow> string \<Rightarrow> bool" where
  "isIPLiteral W s = (s \<noteq> [] \<and> ParseIP W s)"

text \<open>The custom headers that the returned record hands to the dialers in its \<^verbatim>\<open>DialConfig\<close>.\<close>

definition customHeadersOf :: "DialParameters \<Rightarrow> Header" where
  "customHeadersOf dialParams =
     (case dialConfig dialParams of None \<Rightarrow> [] | Some dc \<Rightarrow> dc_CustomHeaders dc)"

text \<open>
  The record carries a selected User-Agent that the composer sets in the dial headers
  (lines 1069 to 1079).
\<close>

definition userAgentSet :: "World \<Rightarrow> DialParameters \<Rightarrow> bool" where
  "userAgentSet W dialParams =
     ((TunnelProtocolUsesMeek (protocol W) (TunnelProtocol dialParams)
       \<or> UpstreamProxyType dialParams = ''http''
       \<or> ConjureAPIRegistration dialParams)
      \<and> SelectedUserAgent dialParams)"

text \<open>An observation of the returned record, when there is one.\<close>

definition mapResult :: "('a \<Rightarrow> 'b) \<Rightarrow> 'a result \<Rightarrow> 'b result" where
  "mapResult f r =
     (case r of Return x \<Rightarrow> Return (f x) | Skip \<Rightarrow> Skip | Fail err \<Rightarrow> Fail err | Panic \<Rightarrow> Panic)"

text \<open>
  What a replay retains of the stored record, subject to the replay-X tactics flags: a
  group of fields is observed only when its flag is set (and, for the transformer and
  prefix fields, the server entry does not opt out). Each group holds the fields that only
  the statement gated by that flag writes; the fronting fields are also written by the
  Conjure registration. The tunnel protocol and the two fields that the composer never
  writes are retained whatever the flags. The meek SNI, Host header and transformed host
  name flag are written by several blocks (host name selection, fronting, Conjure
  registration, the blanking of an IP literal) and are not part of the observation.
\<close>

definition retainedIf :: "bool \<Rightarrow> 'a \<Rightarrow> 'a option" where
  "retainedIf flag x = (if flag then Some x else None)"



section \<open>A concrete environment for the examples\<close>

text \<open>
  The names of the tunnel protocols, QUIC versions, TLS profiles and Conjure transports as
  the repository's package \<^verbatim>\<open>protocol\<close> spells them, with its classification of the
  tunnel protocols. It is used only to evaluate the composer on explicit inputs.
\<close>

definition example_protocol :: Protocol where
  "example_protocol = \<lparr>
     TUNNEL_PROTOCOL_SSH = ''SSH'',
     TUNNEL_PROTOCOL_OBFUSCATED_SSH = ''OSSH'',
     TUNNEL_PROTOCOL_TLS_OBFUSCATED_SSH = ''TLS-OSSH'',
     TUNNEL_PROTOCOL_UNFRONTED_MEEK = ''UNFRONTED-MEEK-OSSH'',
     TUNNEL_PROTOCOL_UNFRONTED_MEEK_HTTPS = ''UNFRONTED-MEEK-HTTPS-OSSH'',
     TUNNEL_PROTOCOL_UNFRONTED_MEEK_SESSION_TICKET = ''UNFRONTED-MEEK-SESSION-TICKET-OSSH'',
     TUNNEL_PROTOCOL_FRONTED_MEEK = ''FRONTED-MEEK-OSSH'',
     TUNNEL_PROTOCOL_FRONTED_MEEK_HTTP = ''FRONTED-MEEK-HTTP-OSSH'',
     TUNNEL_PROTOCOL_QUIC_OBFUSCATED_SSH = ''QUIC-OSSH'',
     TUNNEL_PROTOCOL_FRONTED_MEEK_QUIC_OBFUSCATED_SSH = ''FRONTED-MEEK-QUIC-OSSH'',
     TUNNEL_PROTOCOL_TAPDANCE_OBFUSCATED_SSH = ''TAPDANCE-OSSH'',
     TUNNEL_PROTOCOL_CONJURE_OBFUSCATED_SSH = ''CONJURE-OSSH'',
     QUIC_VERSION_V1 = ''QUICv1'',
     QUIC_VERSION_RANDOMIZED_V1 = ''RANDOMIZED-QUICv1'',
     QUIC_VERSION_OBFUSCATED_V1 = ''OBFUSCATED-QUICv1'',
     QUIC_VERSION_DECOY_V1 = ''DECOY-QUICv1'',
     SupportedTunnelProtocols =
       [''SSH'', ''OSSH'', ''TLS-OSSH'', ''UNFRONTED-MEEK-OSSH'', ''UNFRONTED-MEEK-HTTPS-OSSH'',
        ''UNFRONTED-MEEK-SESSION-TICKET-OSSH'', ''FRONTED-MEEK-OSSH'',
        ''FRONTED-MEEK-HTTP-OSSH'', ''QUIC-OSSH'', ''FRONTED-MEEK-QUIC-OSSH'',
        ''TAPDANCE-OSSH'', ''CONJURE-OSSH''],
     SupportedTLSProfiles = [''Chrome-120'', ''Firefox-105'', ''iOS-14'', ''Randomized-v2''],
     SupportedQUICVersions =
       [''gQUICv39'', ''gQUICv43'', ''gQUICv44'', ''OBFUSCATED'', ''QUICv1'',
        ''RANDOMIZED-QUICv1'', ''OBFUSCATED-QUICv1'', ''DECOY-QUICv1''],
     SupportedQUICv1Versions =
       [''QUICv1'', ''RANDOMIZED-QUICv1'', ''OBFUSCATED-QUICv1'', ''DECOY-QUICv1''],
     SupportedConjureTransports = [''Min-OSSH'', ''Prefix-OSSH'', ''DTLS-OSSH''],
     TunnelProtocolUsesTCP = (\<lambda>t. t \<notin> set [''QUIC-OSSH'', ''FRONTED-MEEK-QUIC-OSSH'']),
     TunnelProtocolUsesMeek = (\<lambda>t. t \<in> set [''UNFRONTED-MEEK-OSSH'',
        ''UNFRONTED-MEEK-HTTPS-OSSH'', ''UNFRONTED-MEEK-SESSION-TICKET-OSSH'',
        ''FRONTED-MEEK-OSSH'', ''FRONTED-MEEK-HTTP-OSSH'', ''FRONTED-MEEK-QUIC-OSSH'']),
     TunnelProtocolUsesFrontedMeek = (\<lambda>t. t \<in> set [''FRONTED-MEEK-OSSH'',
        ''FRONTED-MEEK-HTTP-OSSH'', ''FRONTED-MEEK-QUIC-OSSH'']),
     TunnelProtocolUsesMeekHTTP = (\<lambda>t. t \<in> set [''UNFRONTED-MEEK-OSSH'',
        ''FRONTED-MEEK-HTTP-OSSH'']),
     TunnelProtocolUsesMeekHTTPS = (\<lambda>t. t \<in> set [''FRONTED-MEEK-OSSH'',
        ''UNFRONTED-MEEK-HTTPS-OSSH'', ''UNFRONTED-MEEK-SESSION-TICKET-OSSH'']),
     TunnelProtocolUsesFrontedMeekQUIC = (\<lambda>t. t = ''FRONTED-MEEK-QUIC-OSSH''),
     TunnelProtocolUsesQUIC = (\<lambda>t. t \<in> set [''QUIC-OSSH'', ''FRONTED-MEEK-QUIC-OSSH'']),
     TunnelProtocolUsesTLSOSSH = (\<lambda>t. t = ''TLS-OSSH''),
     TunnelProtocolUsesConjure = (\<lambda>t. t = ''CONJURE-OSSH''),
     TunnelProtocolRequiresTLS12SessionTickets =
       (\<lambda>t. t = ''UNFRONTED-MEEK-SESSION-TICKET-OSSH''),
     TunnelProtocolRequiresTLS13Support = (\<lambda>t. t = ''TLS-OSSH''),
     TunnelProtocolSupportsUpstreamProxy = (\<lambda>t. t \<notin> set [''QUIC-OSSH'',
        ''FRONTED-MEEK-QUIC-OSSH'', ''TAPDANCE-OSSH'', ''CONJURE-OSSH'']),
     AllowServerEntrySourceWithUpstreamProxy = (\<lambda>s. s \<in> set [''EMBEDDED'', ''REMOTE'']),
     ConjureTransportUsesSTUN = (\<lambda>t. t = ''DTLS-OSSH''),
     QUICVersionHasRandomizedClientHello = (\<lambda>v. v = ''RANDOMIZED-QUICv1''),
     QUICVersionUsesPathMTUDiscovery = (\<lambda>v. v \<in> set [''QUICv1'', ''RANDOMIZED-QUICv1'',
        ''OBFUSCATED-QUICv1'', ''DECOY-QUICv1'']),
     QUICVersionIsObfuscated = (\<lambda>v. v \<in> set [''OBFUSCATED'', ''OBFUSCATED-QUICv1'',
        ''DECOY-QUICv1'']) \<rparr>"

text \<open>
  A recogniser of dotted-decimal IPv4 literals, standing for \<^verbatim>\<open>net.ParseIP\<close> in the
  examples; the two agree on every string without a colon.
\<close>

fun splitOn :: "char \<Rightarrow> string \<Rightarrow> string list" where
  "splitOn c [] = [[]]"
| "splitOn c (x # xs) =
     (if x = c then [] # splitOn c xs
      else case splitOn c xs of [] \<Rightarrow> [[x]] | w # ws \<Rightarrow> (x # w) # ws)"

definition isDecimalOctet :: "string \<Rightarrow> bool" where
  "isDecimalOctet s =
     (s \<noteq> [] \<and> length s \<le> 3
      \<and> list_all (\<lambda>ch. 48 \<le> (of_char ch :: nat) \<and> (of_char ch :: nat) \<le> 57) s
      \<and> (length s > 1 \<longrightarrow> hd s \<noteq> CHR ''0'')
      \<and> foldl (\<lambda>acc ch. 10 * acc + ((of_char ch :: nat) - 48)) 0 s \<le> 255)"

definition isIPv4 :: "string \<Rightarrow> bool" where
  "isIPv4 s = (length (splitOn CHR ''.'' s) = 4 \<and> list_all isDecimalOctet (splitOn CHR ''.'' s))"

text \<open>
  Tactics with every replay flag set, a TTL of one day and nothing else configured; a
  client configuration; a server entry dialled on port 443; a world whose store is empty;
  and draws in which every coin flip fails and every seed is drawn.
\<close>

definition example_params :: ParametersAccessor where
  "example_params = \<lparr>
     Tag = ''tactics-1'',
     p_Bool = (\<lambda>name. name \<in> set [''ReplayBPF'', ''ReplaySSH'', ''ReplayObfuscatorPadding'',
        ''ReplayFragmentor'', ''ReplayTLSProfile'', ''ReplayTLSFragmentClientHello'',
        ''ReplayFronting'', ''ReplayHostname'', ''ReplayQUICVersion'', ''ReplayObfuscatedQUIC'',
        ''ReplayObfuscatedQUICNonceTransformer'', ''ReplayConjureRegistration'',
        ''ReplayConjureTransport'', ''ReplayLivenessTest'', ''ReplayUserAgent'',
        ''ReplayAPIRequestPadding'', ''ReplayHoldOffTunnel'', ''ReplayResolveParameters'',
        ''ReplayHTTPTransformerParameters'', ''ReplayOSSHSeedTransformerParameters'',
        ''ReplayOSSHPrefix'']),
     p_Int = (\<lambda>name. 0),
     p_Float = (\<lambda>name. 1),
     p_Duration = (\<lambda>name. if name = ''ReplayDialParametersTTL'' then 86400000000000 else 0),
     p_String = (\<lambda>name. []),
     p_Strings = (\<lambda>name. []),
     p_TunnelProtocols = (\<lambda>name. []),
     p_LabeledTunnelProtocols = (\<lambda>name label. []),
     p_QUICVersions = (\<lambda>name. []),
     p_LabeledQUICVersions = (\<lambda>name label. []),
     p_ConjureTransports = (\<lambda>name. []),
     p_HTTPHeaders = (\<lambda>name. []),
     p_RegexStrings = (\<lambda>name. []),
     p_BPFProgram = (\<lambda>name. (False, [], [])) \<rparr>"

definition example_config :: Config where
  "example_config = \<lparr>
     GetNetworkID = ''WIFI-home'',
     Get = example_params,
     GetCustom = (\<lambda>multiplier. example_params),
     GetResolver = Some (ResolverRef 0),
     UseUpstreamProxy = False,
     UpstreamProxyURL = [],
     CustomHeaders = [],
     DisableReplay = False,
     DisableSystemRootCAs = False,
     TrustedCACertificatesFilename = [],
     deviceBinder = None,
     cfg_IPv6Synthesizer = None,
     dialParametersHash = [1, 2, 3] \<rparr>"

definition example_serverEntry :: ServerEntry where
  "example_serverEntry = \<lparr>
     IpAddress = ''192.0.2.10'',
     se_FrontingProviderID = [],
     LocalSource = ''EMBEDDED'',
     MeekServerPort = 443,
     MeekFrontingDisableSNI = False,
     MeekCookieEncryptionPublicKey = [],
     MeekObfuscatedKey = [],
     MeekFrontingAddressesRegex = [],
     MeekFrontingAddresses = [],
     MeekFrontingHosts = [],
     se_MeekFrontingHost = [],
     LimitQUICVersions = [],
     DisableObfuscatedQUICTransforms = False,
     DisableOSSHTransforms = False,
     DisableOSSHPrefix = False,
     DisableHTTPTransforms = False,
     ConfigurationVersion = 1,
     LocalTimestamp = ''2024-01-01T00:00:00Z'',
     GetDialPortNumber = (\<lambda>tunnelProtocol. Inr 443),
     GetDiagnosticID = ''se-1'',
     ProtocolUsesLegacyPassthrough = (\<lambda>tunnelProtocol. False),
     SupportsOnlyQUICv1 = False,
     SupportsProtocol = (\<lambda>tunnelProtocol. True) \<rparr>"

definition example_world :: World where
  "example_world = \<lparr>
     protocol = example_protocol,
     ClientBPFEnabled = False,
     ParseIP = isIPv4,
     SplitHostPort = takeWhile (\<lambda>ch. ch \<noteq> CHR '':''),
     SafeParseURL = (\<lambda>url. Inl (Error ''no URL'')),
     md5 = take 16,
     Now = 1000000000000000000,
     GetDialParameters = (\<lambda>ip nid. Inr None) \<rparr>"

definition example_hostNameDraw :: HostNameDraw where
  "example_hostNameDraw = \<lparr>
     hn_coinCustom = False, hn_choice = 0, hn_regen = (\<lambda>regex. Inl (Error ''regen'')),
     hn_GetHostName = ''www.example.org'' \<rparr>"

definition example_seedTransformerDraw :: SeedTransformerDraw where
  "example_seedTransformerDraw = \<lparr>
     st_coin = False, st_NewSeed = Inr [7], st_Select = ([], None) \<rparr>"

definition example_draws :: Draws where
  "example_draws = \<lparr>
     d_ExpFloat64Range = (\<lambda>lo hi lambda. lo),
     d_coinRestrictFrontingProviderIDs = False,
     d_coinBPFClientTCP = False,
     d_GetSSHClientVersion = ''SSH-2.0-OpenSSH_8.9'',
     d_seedSSHKEX = Inr [1],
     d_seedObfuscatorPadding = Inr [2],
     d_seedMeekObfuscatorPadding = Inr [3],
     d_seedTLSOSSHObfuscatorPadding = Inr [4],
     d_seedFragmentor = Inr [5],
     d_coinConjureDecoyRegistrar = False,
     d_SelectParameters = Inl (Error ''no fronting specs''),
     d_coinConjureTransformHostName = False,
     d_hostNameConjure = example_hostNameDraw,
     d_PeriodConjureAPI = (\<lambda>lo hi. lo),
     d_PeriodConjureDecoy = (\<lambda>lo hi. lo),
     d_choiceConjureTransport = 0,
     d_choiceSTUNServer = 0,
     d_coinConjureDTLSEmptyInitialPacket = False,
     d_SelectTLSProfile = (\<lambda>tickets tls13 fronted providerID.
        Inr (''Chrome-120'', ''TLSv1.3'', None)),
     d_coinNoDefaultTLSSessionID = False,
     d_regenFrontingAddress = (\<lambda>regex. Inl (Error ''regen'')),
     d_choiceFrontingAddress = 0,
     d_choiceFrontingHost = 0,
     d_coinTransformMeekHTTPS = False,
     d_hostNameMeekSNI = example_hostNameDraw,
     d_hostNameMeekHost = example_hostNameDraw,
     d_coinTransformTLSOSSH = False,
     d_hostNameTLSOSSH = example_hostNameDraw,
     d_coinTransformMeekHTTP = False,
     d_hostNameMeekHTTP = example_hostNameDraw,
     d_hostNameQUIC = example_hostNameDraw,
     d_choiceQUICVersion = 0,
     d_seedQUICClientHello = Inr [6],
     d_coinQUICDisablePathMTUDiscovery = False,
     d_seedObfuscatedQUICPadding = Inr [8],
     d_QUICNonceTransformer = example_seedTransformerDraw,
     d_seedLivenessTest = Inr [9],
     d_seedAPIRequestPadding = Inr [10],
     d_MakeResolveParameters = (\<lambda>providerID address. Inr (ResolveParametersRef 0)),
     d_coinHoldOffTunnel = False,
     d_PeriodHoldOff = (\<lambda>lo hi. lo),
     d_OSSHSeedTransformer = example_seedTransformerDraw,
     d_OSSHPrefix = \<lparr> px_coin = False, px_Select = (\<lambda>scope. ([], None)),
                       px_NewSeed = Inr [11] \<rparr>,
     d_seedOSSHPrefixSplit = Inr [12],
     d_HTTPTransformer = \<lparr> ht_coinFronted = False, ht_coinDirect = False,
                             ht_Select = (\<lambda>scope. ([], None)), ht_NewSeed = Inr [13] \<rparr>,
     d_coinTLSFragmentClientHello = False,
     d_coinPickUserAgent = True,
     d_GetUserAgent = ''Mozilla/5.0'',
     d_NewUpstreamConfig = None \<rparr>"

text \<open>
  The composer on the example inputs, for a given world, draws, configuration and server
  entry, with a controller that permits replay and picks the given tunnel protocol.
\<close>

definition example_run ::
  "World \<Rightarrow> Draws \<Rightarrow> Config \<Rightarrow> ServerEntry \<Rightarrow> string
     \<Rightarrow> StoreCall list \<times> DialParameters result" where
  "example_run W D config serverEntry tunnelProtocol =
     MakeDialParameters W D config None (\<lambda>serverEntry replayProtocol. True)
       (\<lambda>serverEntry. (tunnelProtocol, True)) serverEntry False 0 0"

text \<open>The example world with one record in the store, under the example server and network.\<close>

definition example_store :: "DialParameters \<Rightarrow> World" where
  "example_store R = example_world\<lparr> GetDialParameters :=
     (\<lambda>ip nid. if ip = ''192.0.2.10'' \<and> nid = ''WIFI-home'' then Inr (Some R) else Inr None) \<rparr>"

text \<open>
  A record persisted thirty minutes ago for plain unfronted meek, with the state hashes of
  the example configuration and a selected User-Agent; and the same record a long time ago.
\<close>

definition example_stored :: DialParameters where
  "example_stored = DialParameters_zero\<lparr>
     LastUsedTimestamp := 999998200000000000,
     LastUsedConfigStateHash :=
       fst (getDialStateHashes example_world example_config example_params example_serverEntry),
     LastUsedServerEntryHash :=
       snd (getDialStateHashes example_world example_config example_params example_serverEntry),
     TunnelProtocol := ''UNFRONTED-MEEK-OSSH'',
     SelectedUserAgent := True,
     UserAgent := ''UA-stored'' \<rparr>"

definition example_expired :: DialParameters where
  "example_expired = example_stored\<lparr> LastUsedTimestamp := 1 \<rparr>"

text \<open>The record of an exchange import for OSSH, as the store returns it.\<close>

definition example_exchanged :: DialParameters where
  "example_exchanged =
     persisted (Exchanged_MakeDialParameters example_world \<lparr> ex_TunnelProtocol = ''OSSH'' \<rparr>
                  example_config example_params example_serverEntry)"

text \<open>
  Newer tactics that add a User-Agent to the custom headers and ignore changes of the
  config state; the stored record predates them.
\<close>

definition example_params_userAgent :: ParametersAccessor where
  "example_params_userAgent = example_params\<lparr>
     Tag := ''tactics-2'',
     p_Bool := (\<lambda>name. name = ''ReplayIgnoreChangedConfigState'' \<or> p_Bool example_params name),
     p_HTTPHeaders := (\<lambda>name. if name = ''AdditionalCustomHeaders''
                               then [(''User-Agent'', [''UA-tactics''])] else []) \<rparr>"

definition example_config_userAgent :: Config where
  "example_config_userAgent = example_config\<lparr>
     Get := example_params_userAgent,
     GetCustom := (\<lambda>multiplier. example_params_userAgent) \<rparr>"

text \<open>
  Conjure with API registration: the fronting spec names a domain, the host name transform
  is applied, and the tactics' custom host name pattern generates the string \<open>192.0.2.1\<close>.
\<close>

definition example_params_conjure :: ParametersAccessor where
  "example_params_conjure = example_params\<lparr>
     p_String := (\<lambda>name. if name = ''ConjureAPIRegistrarBidirectionalURL''
                          then ''https://registrar.example.com/api'' else []),
     p_RegexStrings := (\<lambda>name. if name = ''CustomHostNameRegexes''
                                then [''192[.]0[.]2[.]1''] else []) \<rparr>"

definition example_config_conjure :: Config where
  "example_config_conjure = example_config\<lparr>
     Get := example_params_conjure,
     GetCustom := (\<lambda>multiplier. example_params_conjure) \<rparr>"

definition example_draws_conjure :: Draws where
  "example_draws_conjure = example_draws\<lparr>
     d_SelectParameters := Inr (''provider-1'', ''front.example.com'', ''front.example.com'',
                                ''front.example.com'', [], ''host.example.com''),
     d_coinConjureTransformHostName := True,
     d_hostNameConjure := \<lparr>
       hn_coinCustom = True, hn_choice = 0,
       hn_regen = (\<lambda>regex. if regex = ''192[.]0[.]2[.]1'' then Inr ''192.0.2.1''
                             else Inl (Error ''regen'')),
       hn_GetHostName = ''www.example.org'' \<rparr> \<rparr>"

text \<open>Draws in which both the OSSH seed transform and the OSSH prefix are selected.\<close>

definition example_draws_ossh :: Draws where
  "example_draws_ossh = example_draws\<lparr>
     d_OSSHSeedTransformer := \<lparr> st_coin = True, st_NewSeed = Inr [21],
                                 st_Select = (''transform-1'', Some [(''a'', ''b'')]) \<rparr>,
     d_OSSHPrefix := \<lparr> px_coin = True,
                        px_Select = (\<lambda>scope. (''prefix-1'', Some [(''x'', ''y'')])),
                        px_NewSeed = Inr [22] \<rparr> \<rparr>"

text \<open>A server entry that limits QUIC to a version the client does not have.\<close>

definition example_serverEntry_noQUIC :: ServerEntry where
  "example_serverEntry_noQUIC = example_serverEntry\<lparr> LimitQUICVersions := [''nonexistent''] \<rparr>"

text \<open>
  A first composition for plain unfronted meek under the example tactics, the record that
  \<^verbatim>\<open>Succeeded\<close> persists for it, and the world thirty minutes later with that record in the
  store.
\<close>

definition example_first_run :: "DialParameters result" where
  "example_first_run =
     snd (example_run example_world example_draws example_config example_serverEntry
            ''UNFRONTED-MEEK-OSSH'')"

definition example_persisted :: DialParameters where
  "example_persisted =
     (case example_first_run of Return dp \<Rightarrow> persisted dp | _ \<Rightarrow> DialParameters_zero)"

definition example_later_world :: World where
  "example_later_world = (example_store example_persisted)\<lparr> Now := 1000001800000000000 \<rparr>"









section \<open>Sequencing and frame lemmas\<close>

lemma andThen_Return [simp]: "andThen (Return x) k = k x"
  by (simp add: andThen_def)

lemma andThen_eq_Return:
  "andThen r k = Return y \<longleftrightarrow> (\<exists>x. r = Return x \<and> k x = Return y)"
  by (cases r) (simp_all add: andThen_def)

lemma run_steps_append:
  "run_steps (xs @ ys) d = andThen (run_steps xs d) (run_steps ys)"
  by (induction xs arbitrary: d) (auto simp: andThen_def split: result.splits)

lemma run_steps_keeps:
  "list_all (keeps f) steps \<Longrightarrow> run_steps steps d = Return d' \<Longrightarrow> f d' = f d"
proof (induction steps arbitrary: d)
  case Nil
  then show ?case by simp
next
  case (Cons step steps)
  from Cons.prems(2) obtain d1 where s: "step d = Return d1" and r: "run_steps steps d1 = Return d'"
    by (auto simp: andThen_eq_Return)
  from Cons.prems(1) s have "f d1 = f d" by (simp add: keeps_def)
  moreover from Cons.prems(1) r have "f d' = f d1" by (simp add: Cons.IH)
  ultimately show ?case by simp
qed

section \<open>What each statement of the composer leaves unchanged\<close>

lemmas step_defs = restrictFrontingProvider_def checkUpstreamProxy_def selectBPF_def
  selectSSH_def selectObfuscatorPadding_def selectFragmentorSeed_def
  selectConjureRegistration_def selectConjureTransportStep_def selectTLSProfileStep_def
  selectFronting_def selectHostNames_def selectQUICVersionStep_def
  selectObfuscatedQUICPadding_def selectObfuscatedQUICNonceTransformer_def
  selectLivenessTestSeed_def selectAPIRequestPaddingSeed_def selectResolveParameters_def
  selectHoldOffTunnel_def selectHTTPTransformer_def setDialAddress_def
  checkMeekDialAddress_def selectTLSFragmentClientHello_def

lemma stepsAfterQUIC_split:
  "stepsAfterQUIC W D config p serverEntry isReplay usingTLS =
     stepsBeforeOSSH W D config p serverEntry isReplay
     @ [selectOSSH W D config p serverEntry isReplay]
     @ stepsToDialAddress W D config serverEntry isReplay
     @ [checkMeekDialAddress W p]
     @ [selectTLSFragmentClientHello W D config p isReplay usingTLS]"
  by (simp add: stepsAfterQUIC_def stepsBeforeOSSH_def stepsToDialAddress_def)

lemma keeps_frame_beforeTLS:
  "list_all (keeps frameFields) (stepsBeforeTLS W D config p isReplay)"
  unfolding stepsBeforeTLS_def list.pred_inject keeps_def frameFields_def identityFields_def osshFields_def
  by (intro conjI allI impI TrueI; (auto simp: step_defs withSeed_def Let_def split: if_splits option.splits sum.splits prod.splits)[1])

lemma keeps_frame_beforeQUIC:
  "list_all (keeps frameFields) (stepsBeforeQUIC W D config p serverEntry isReplay usingTLS)"
  unfolding stepsBeforeQUIC_def list.pred_inject keeps_def frameFields_def identityFields_def osshFields_def
  by (intro conjI allI impI TrueI; (auto simp: step_defs withSeed_def Let_def split: if_splits option.splits sum.splits prod.splits)[1])

lemma keeps_frame_QUIC:
  "keeps frameFields (selectQUICVersionStep W D config p serverEntry isReplay)"
  unfolding keeps_def frameFields_def identityFields_def osshFields_def
  by (auto simp: step_defs withSeed_def Let_def split: if_splits option.splits sum.splits prod.splits)

lemma keeps_frame_beforeOSSH:
  "list_all (keeps frameFields) (stepsBeforeOSSH W D config p serverEntry isReplay)"
  unfolding stepsBeforeOSSH_def list.pred_inject keeps_def frameFields_def identityFields_def osshFields_def
  by (intro conjI allI impI TrueI; (auto simp: step_defs makeSeedTransformerParameters_def withSeed_def Let_def split: if_splits option.splits sum.splits prod.splits)[1])

lemma keeps_frame_toDialAddress:
  "list_all (keeps frameFields) (stepsToDialAddress W D config serverEntry isReplay)"
  unfolding stepsToDialAddress_def list.pred_inject keeps_def frameFields_def identityFields_def osshFields_def
  by (intro conjI allI impI TrueI; (auto simp: step_defs withSeed_def Let_def split: if_splits option.splits sum.splits prod.splits)[1])

lemma keeps_frame_checkMeek:
  "keeps frameFields (checkMeekDialAddress W p)"
  unfolding keeps_def frameFields_def identityFields_def osshFields_def
  by (auto simp: step_defs Let_def split: if_splits)

lemma keeps_frame_TLSFragment:
  "keeps (\<lambda>d. (frameFields d, MeekSNIServerName d)) (selectTLSFragmentClientHello W D config p isReplay usingTLS)"
  unfolding keeps_def frameFields_def identityFields_def osshFields_def
  by (auto simp: step_defs Let_def split: if_splits)

lemma selectOSSH_identity:
  "keeps identityFields (selectOSSH W D config p serverEntry isReplay)"
  unfolding keeps_def identityFields_def
  by (auto simp: selectOSSH_def selectOSSHSeedTransformer_def selectOSSHPrefix_def
        supersedeSeedTransform_def Let_def split: if_splits sum.splits result.splits)

lemma selectOSSH_exclusive:
  "selectOSSH W D config p serverEntry isReplay d = Return d' \<Longrightarrow>
     (TunnelProtocol d = TUNNEL_PROTOCOL_OBFUSCATED_SSH (protocol W) \<longrightarrow> osshExclusive d')
     \<and> (TunnelProtocol d \<noteq> TUNNEL_PROTOCOL_OBFUSCATED_SSH (protocol W) \<longrightarrow> d' = d)"
  by (auto simp: selectOSSH_def supersedeSeedTransform_def osshExclusive_def
        split: if_splits result.splits)

lemma makeConfigs_fields:
  "frameFields (makeConfigs W D config cb p serverEntry isTactics usingTLS h d) = frameFields d"
  "MeekSNIServerName (makeConfigs W D config cb p serverEntry isTactics usingTLS h d) = MeekSNIServerName d"
  "SelectedUserAgent (makeConfigs W D config cb p serverEntry isTactics usingTLS h d) = SelectedUserAgent d"
  "UserAgent (makeConfigs W D config cb p serverEntry isTactics usingTLS h d) = UserAgent d"
  "UpstreamProxyType (makeConfigs W D config cb p serverEntry isTactics usingTLS h d) = UpstreamProxyType d"
  "ConjureAPIRegistration (makeConfigs W D config cb p serverEntry isTactics usingTLS h d) = ConjureAPIRegistration d"
  unfolding makeConfigs_def Let_def frameFields_def identityFields_def osshFields_def
  by (cases "TunnelProtocolUsesMeek (protocol W) (TunnelProtocol d) \<or> ConjureAPIRegistration d";
      simp split del: if_split)+

lemma makeConfigs_headers:
  "\<exists>dc. dialConfig (makeConfigs W D config cb p serverEntry isTactics usingTLS h d) = Some dc
        \<and> dc_CustomHeaders dc = h"
  unfolding makeConfigs_def Let_def
  by (cases "TunnelProtocolUsesMeek (protocol W) (TunnelProtocol d) \<or> ConjureAPIRegistration d";
      simp split del: if_split)

lemma setNames_fields:
  "frameFields (setUpstreamProxyCustomHeaderNames config h d) = frameFields d"
  "MeekSNIServerName (setUpstreamProxyCustomHeaderNames config h d) = MeekSNIServerName d"
  "SelectedUserAgent (setUpstreamProxyCustomHeaderNames config h d) = SelectedUserAgent d"
  "UserAgent (setUpstreamProxyCustomHeaderNames config h d) = UserAgent d"
  "UpstreamProxyType (setUpstreamProxyCustomHeaderNames config h d) = UpstreamProxyType d"
  "ConjureAPIRegistration (setUpstreamProxyCustomHeaderNames config h d) = ConjureAPIRegistration d"
  by (simp_all add: setUpstreamProxyCustomHeaderNames_def frameFields_def identityFields_def osshFields_def)

lemma setUpstreamProxyType_fields:
  "frameFields (setUpstreamProxyType W config d) = frameFields d"
  "MeekSNIServerName (setUpstreamProxyType W config d) = MeekSNIServerName d"
  "ConjureAPIRegistration (setUpstreamProxyType W config d) = ConjureAPIRegistration d"
  by (simp_all add: setUpstreamProxyType_def frameFields_def identityFields_def osshFields_def split: sum.splits)

lemma selectUserAgent_fields:
  "frameFields (fst (selectUserAgent W D config p isReplay d)) = frameFields d"
  "MeekSNIServerName (fst (selectUserAgent W D config p isReplay d)) = MeekSNIServerName d"
  "ConjureAPIRegistration (fst (selectUserAgent W D config p isReplay d)) = ConjureAPIRegistration d"
  "UpstreamProxyType (fst (selectUserAgent W D config p isReplay d)) = UpstreamProxyType d"
  by (simp_all add: selectUserAgent_def Let_def frameFields_def identityFields_def osshFields_def
        split: prod.splits)

lemma selectUserAgent_headers:
  "snd (selectUserAgent W D config p isReplay d) =
     (if (TunnelProtocolUsesMeek (protocol W) (TunnelProtocol d)
            \<or> UpstreamProxyType d = ''http'' \<or> ConjureAPIRegistration d)
         \<and> SelectedUserAgent (fst (selectUserAgent W D config p isReplay d))
      then AList.update ''User-Agent'' [UserAgent (fst (selectUserAgent W D config p isReplay d))]
             (makeDialCustomHeaders config p)
      else makeDialCustomHeaders config p)"
  by (simp add: selectUserAgent_def Let_def split: prod.splits)

lemma finalize_eq:
  "finalize W D config cb p serverEntry isTactics isReplay usingTLS d =
     makeConfigs W D config cb p serverEntry isTactics usingTLS
       (snd (selectUserAgent W D config p isReplay (setUpstreamProxyType W config d)))
       (setUpstreamProxyCustomHeaderNames config
          (snd (selectUserAgent W D config p isReplay (setUpstreamProxyType W config d)))
          (fst (selectUserAgent W D config p isReplay (setUpstreamProxyType W config d))))"
  by (simp add: finalize_def split: prod.splits)

lemma finalize_frame:
  "frameFields (finalize W D config cb p serverEntry isTactics isReplay usingTLS d) = frameFields d"
  "MeekSNIServerName (finalize W D config cb p serverEntry isTactics isReplay usingTLS d) = MeekSNIServerName d"
  by (simp_all add: finalize_eq makeConfigs_fields setNames_fields selectUserAgent_fields
        setUpstreamProxyType_fields)

section \<open>Facts about the composition after the tunnel protocol is selected\<close>

lemma keeps_fst: "keeps (\<lambda>d. (f d, g d)) s \<Longrightarrow> keeps f s"
  and keeps_snd: "keeps (\<lambda>d. (f d, g d)) s \<Longrightarrow> keeps g s"
  by (auto simp: keeps_def)

lemma keeps_frame_identity: "keeps frameFields s \<Longrightarrow> keeps identityFields s"
  and keeps_frame_ossh: "keeps frameFields s \<Longrightarrow> keeps osshFields s"
  by (auto simp: keeps_def frameFields_def)

lemma list_keeps_frame_identity:
  "list_all (keeps frameFields) ss \<Longrightarrow> list_all (keeps identityFields) ss"
  by (induction ss) (auto intro: keeps_frame_identity)

lemma composeBeforeQUIC_Return:
  "composeBeforeQUIC W D config p serverEntry isReplay d = Return (u, d') \<longleftrightarrow>
     (\<exists>d1. run_steps (stepsBeforeTLS W D config p isReplay) d = Return d1
          \<and> u = usingTLS_of W d1
          \<and> run_steps (stepsBeforeQUIC W D config p serverEntry isReplay u) d1 = Return d')"
  by (auto simp: composeBeforeQUIC_def andThen_eq_Return Let_def)

lemma composeRest_Return:
  "composeRest W D config cb p serverEntry isTactics isReplay d = Return d' \<longleftrightarrow>
     (\<exists>u d1 d2 d3. composeBeforeQUIC W D config p serverEntry isReplay d = Return (u, d1)
        \<and> selectQUICVersionStep W D config p serverEntry isReplay d1 = Return d2
        \<and> run_steps (stepsAfterQUIC W D config p serverEntry isReplay u) d2 = Return d3
        \<and> d' = finalize W D config cb p serverEntry isTactics isReplay u d3)"
  by (auto simp: composeRest_def andThen_eq_Return split: prod.splits)

lemma composeBeforeQUIC_frame:
  assumes "composeBeforeQUIC W D config p serverEntry isReplay d = Return (u, d')"
  shows "frameFields d' = frameFields d"
proof -
  from assms obtain d1 where
    a: "run_steps (stepsBeforeTLS W D config p isReplay) d = Return d1" and
    b: "run_steps (stepsBeforeQUIC W D config p serverEntry isReplay u) d1 = Return d'"
    by (auto simp: composeBeforeQUIC_Return)
  from run_steps_keeps [OF keeps_frame_beforeTLS a] run_steps_keeps [OF keeps_frame_beforeQUIC b]
  show ?thesis by simp
qed

lemma stepsAfterQUIC_Return:
  "run_steps (stepsAfterQUIC W D config p serverEntry isReplay u) d = Return d' \<longleftrightarrow>
     (\<exists>d1 d2 d3 d4.
        run_steps (stepsBeforeOSSH W D config p serverEntry isReplay) d = Return d1
        \<and> selectOSSH W D config p serverEntry isReplay d1 = Return d2
        \<and> run_steps (stepsToDialAddress W D config serverEntry isReplay) d2 = Return d3
        \<and> checkMeekDialAddress W p d3 = Return d4
        \<and> selectTLSFragmentClientHello W D config p isReplay u d4 = Return d')"
  by (auto simp: stepsAfterQUIC_split run_steps_append andThen_eq_Return)

lemma checkMeekDialAddress_sni:
  "checkMeekDialAddress W p d = Return d' \<Longrightarrow>
     TunnelProtocolUsesMeek (protocol W) (TunnelProtocol d') \<Longrightarrow>
     \<not> isIPLiteral W (MeekSNIServerName d')"
  by (auto simp: checkMeekDialAddress_def isIPLiteral_def Let_def split: if_splits)

lemma stepsAfterQUIC_facts:
  assumes "run_steps (stepsAfterQUIC W D config p serverEntry isReplay u) d = Return d'"
  shows "identityFields d' = identityFields d"
    and "TunnelProtocol d = TUNNEL_PROTOCOL_OBFUSCATED_SSH (protocol W) \<longrightarrow> osshExclusive d'"
    and "TunnelProtocol d \<noteq> TUNNEL_PROTOCOL_OBFUSCATED_SSH (protocol W)
           \<longrightarrow> osshFields d' = osshFields d"
    and "TunnelProtocolUsesMeek (protocol W) (TunnelProtocol d')
           \<longrightarrow> \<not> isIPLiteral W (MeekSNIServerName d')"
proof -
  from assms obtain d1 d2 d3 d4 where
    s1: "run_steps (stepsBeforeOSSH W D config p serverEntry isReplay) d = Return d1" and
    s2: "selectOSSH W D config p serverEntry isReplay d1 = Return d2" and
    s3: "run_steps (stepsToDialAddress W D config serverEntry isReplay) d2 = Return d3" and
    s4: "checkMeekDialAddress W p d3 = Return d4" and
    s5: "selectTLSFragmentClientHello W D config p isReplay u d4 = Return d'"
    by (auto simp: stepsAfterQUIC_Return)
  have f1: "frameFields d1 = frameFields d"
    by (rule run_steps_keeps [OF keeps_frame_beforeOSSH s1])
  have i2: "identityFields d2 = identityFields d1"
    using selectOSSH_identity s2 by (auto simp: keeps_def)
  have f3: "frameFields d3 = frameFields d2"
    by (rule run_steps_keeps [OF keeps_frame_toDialAddress s3])
  have f4: "frameFields d4 = frameFields d3"
    using keeps_frame_checkMeek s4 by (auto simp: keeps_def)
  have f5: "frameFields d' = frameFields d4" and sni5: "MeekSNIServerName d' = MeekSNIServerName d4"
    using keeps_frame_TLSFragment s5 by (auto simp: keeps_def)
  show "identityFields d' = identityFields d"
    using f1 i2 f3 f4 f5 by (simp add: frameFields_def)
  have tp1: "TunnelProtocol d1 = TunnelProtocol d"
    using f1 by (simp add: frameFields_def identityFields_def)
  have o: "osshFields d' = osshFields d2"
    using f3 f4 f5 by (simp add: frameFields_def)
  show "TunnelProtocol d = TUNNEL_PROTOCOL_OBFUSCATED_SSH (protocol W) \<longrightarrow> osshExclusive d'"
    using selectOSSH_exclusive [OF s2] tp1 o by (auto simp: osshExclusive_def osshFields_def)
  show "TunnelProtocol d \<noteq> TUNNEL_PROTOCOL_OBFUSCATED_SSH (protocol W)
           \<longrightarrow> osshFields d' = osshFields d"
    using selectOSSH_exclusive [OF s2] tp1 o f1 by (auto simp: frameFields_def)
  have "TunnelProtocol d' = TunnelProtocol d4"
    using f5 by (simp add: frameFields_def identityFields_def)
  then show "TunnelProtocolUsesMeek (protocol W) (TunnelProtocol d')
           \<longrightarrow> \<not> isIPLiteral W (MeekSNIServerName d')"
    using checkMeekDialAddress_sni [OF s4] sni5 by simp
qed

lemma composeRest_facts:
  assumes "composeRest W D config cb p serverEntry isTactics isReplay d = Return d'"
  shows "identityFields d' = identityFields d"
    and "TunnelProtocol d = TUNNEL_PROTOCOL_OBFUSCATED_SSH (protocol W) \<longrightarrow> osshExclusive d'"
    and "TunnelProtocol d \<noteq> TUNNEL_PROTOCOL_OBFUSCATED_SSH (protocol W)
           \<longrightarrow> osshFields d' = osshFields d"
    and "TunnelProtocolUsesMeek (protocol W) (TunnelProtocol d')
           \<longrightarrow> \<not> isIPLiteral W (MeekSNIServerName d')"
proof -
  from assms obtain u d1 d2 d3 where
    a: "composeBeforeQUIC W D config p serverEntry isReplay d = Return (u, d1)" and
    b: "selectQUICVersionStep W D config p serverEntry isReplay d1 = Return d2" and
    c: "run_steps (stepsAfterQUIC W D config p serverEntry isReplay u) d2 = Return d3" and
    e: "d' = finalize W D config cb p serverEntry isTactics isReplay u d3"
    by (auto simp: composeRest_Return)
  have f1: "frameFields d1 = frameFields d" by (rule composeBeforeQUIC_frame [OF a])
  have f2: "frameFields d2 = frameFields d1"
    using keeps_frame_QUIC b by (auto simp: keeps_def)
  have fe: "frameFields d' = frameFields d3" and se: "MeekSNIServerName d' = MeekSNIServerName d3"
    by (simp_all add: e finalize_frame)
  have tp2: "TunnelProtocol d2 = TunnelProtocol d"
    using f1 f2 by (simp add: frameFields_def identityFields_def)
  note facts = stepsAfterQUIC_facts [OF c]
  show "identityFields d' = identityFields d"
    using facts(1) f1 f2 fe by (simp add: frameFields_def)
  show "TunnelProtocol d = TUNNEL_PROTOCOL_OBFUSCATED_SSH (protocol W) \<longrightarrow> osshExclusive d'"
    using facts(2) tp2 fe by (auto simp: frameFields_def osshFields_def osshExclusive_def)
  show "TunnelProtocol d \<noteq> TUNNEL_PROTOCOL_OBFUSCATED_SSH (protocol W)
           \<longrightarrow> osshFields d' = osshFields d"
    using facts(3) tp2 fe f1 f2 by (auto simp: frameFields_def)
  have "TunnelProtocol d' = TunnelProtocol d3"
    using fe by (simp add: frameFields_def identityFields_def)
  then show "TunnelProtocolUsesMeek (protocol W) (TunnelProtocol d')
           \<longrightarrow> \<not> isIPLiteral W (MeekSNIServerName d')"
    using facts(4) se by simp
qed

section \<open>Facts about the whole composition\<close>

lemma initialize_facts:
  assumes "initialize W config serverEntry cn etc isReplay stored = Return d0"
  shows "IsReplay d0 = isReplay" and "\<not> IsExchanged d0"
    and "TunnelProtocol d0 = TunnelProtocol (case stored of None \<Rightarrow> DialParameters_zero | Some f \<Rightarrow> f)"
    and "osshFields d0 = osshFields (case stored of None \<Rightarrow> DialParameters_zero | Some f \<Rightarrow> f)"
    and "ServerEntry d0 = Some serverEntry" and "NetworkID d0 = GetNetworkID config"
    and "LastUsedTimestamp d0 = fst (currentState W config serverEntry)"
  using assms
  by (auto simp: initialize_def Let_def osshFields_def split: if_splits prod.splits)

lemma selectNetworkLatencyMultiplier_fields:
  "IsReplay (selectNetworkLatencyMultiplier D p isReplay d) = IsReplay d"
  "IsExchanged (selectNetworkLatencyMultiplier D p isReplay d) = IsExchanged d"
  "TunnelProtocol (selectNetworkLatencyMultiplier D p isReplay d) = TunnelProtocol d"
  "osshFields (selectNetworkLatencyMultiplier D p isReplay d) = osshFields d"
  "ServerEntry (selectNetworkLatencyMultiplier D p isReplay d) = ServerEntry d"
  "NetworkID (selectNetworkLatencyMultiplier D p isReplay d) = NetworkID d"
  "LastUsedTimestamp (selectNetworkLatencyMultiplier D p isReplay d) = LastUsedTimestamp d"
  by (simp_all add: selectNetworkLatencyMultiplier_def Let_def osshFields_def)

lemma selectTunnelProtocol_facts:
  assumes "selectTunnelProtocol sp serverEntry isReplay isExchanged d = Return d1"
  shows "IsReplay d1 = IsReplay d" and "IsExchanged d1 = IsExchanged d"
    and "osshFields d1 = osshFields d"
    and "NetworkLatencyMultiplier d1 = NetworkLatencyMultiplier d"
    and "ServerEntry d1 = ServerEntry d" and "NetworkID d1 = NetworkID d"
    and "LastUsedTimestamp d1 = LastUsedTimestamp d"
    and "isReplay \<or> isExchanged \<Longrightarrow> TunnelProtocol d1 = TunnelProtocol d"
    and "\<not> isReplay \<Longrightarrow> \<not> isExchanged \<Longrightarrow> TunnelProtocol d1 = fst (sp serverEntry) \<and> snd (sp serverEntry)"
  using assms
  by (auto simp: selectTunnelProtocol_def osshFields_def split: if_splits prod.splits)

lemma compose_Return:
  "compose W D config cb sp serverEntry isTactics cn etc stored = Return dp \<longleftrightarrow>
     (\<exists>d0 d1.
        initialize W config serverEntry cn etc
          (stored \<noteq> None \<and> \<not> (case stored of None \<Rightarrow> False | Some f \<Rightarrow> IsExchanged f)) stored
          = Return d0
        \<and> selectTunnelProtocol sp serverEntry
            (stored \<noteq> None \<and> \<not> (case stored of None \<Rightarrow> False | Some f \<Rightarrow> IsExchanged f))
            (case stored of None \<Rightarrow> False | Some f \<Rightarrow> IsExchanged f)
            (selectNetworkLatencyMultiplier D (Get config)
               (stored \<noteq> None \<and> \<not> (case stored of None \<Rightarrow> False | Some f \<Rightarrow> IsExchanged f)) d0)
          = Return d1
        \<and> composeRest W D config cb
            (GetCustom config (NetworkLatencyMultiplier
               (selectNetworkLatencyMultiplier D (Get config)
                  (stored \<noteq> None \<and> \<not> (case stored of None \<Rightarrow> False | Some f \<Rightarrow> IsExchanged f)) d0)))
            serverEntry isTactics
            (stored \<noteq> None \<and> \<not> (case stored of None \<Rightarrow> False | Some f \<Rightarrow> IsExchanged f)) d1
          = Return dp)"
  by (simp add: compose_def Let_def andThen_eq_Return)

lemma compose_facts:
  assumes "compose W D config cb sp serverEntry isTactics cn etc stored = Return dp"
  shows "IsReplay dp \<longleftrightarrow> (\<exists>R. stored = Some R \<and> \<not> IsExchanged R)"
    and "\<not> IsExchanged dp"
    and "\<And>R. stored = Some R \<Longrightarrow> TunnelProtocol dp = TunnelProtocol R"
    and "stored = None \<Longrightarrow> TunnelProtocol dp = fst (sp serverEntry) \<and> snd (sp serverEntry)"
    and "osshExclusive (case stored of None \<Rightarrow> DialParameters_zero | Some f \<Rightarrow> f)
           \<Longrightarrow> osshExclusive dp"
    and "TunnelProtocolUsesMeek (protocol W) (TunnelProtocol dp)
           \<Longrightarrow> \<not> isIPLiteral W (MeekSNIServerName dp)"
    and "ServerEntry dp = Some serverEntry" and "NetworkID dp = GetNetworkID config"
    and "LastUsedTimestamp dp = fst (currentState W config serverEntry)"
proof -
  define isExchanged where "isExchanged = (case stored of None \<Rightarrow> False | Some f \<Rightarrow> IsExchanged f)"
  define isReplay where "isReplay = (stored \<noteq> None \<and> \<not> isExchanged)"
  from assms obtain d0 d1 where
    i: "initialize W config serverEntry cn etc isReplay stored = Return d0" and
    t: "selectTunnelProtocol sp serverEntry isReplay isExchanged
          (selectNetworkLatencyMultiplier D (Get config) isReplay d0) = Return d1" and
    r: "composeRest W D config cb
          (GetCustom config (NetworkLatencyMultiplier
             (selectNetworkLatencyMultiplier D (Get config) isReplay d0)))
          serverEntry isTactics isReplay d1 = Return dp"
    unfolding compose_Return isReplay_def isExchanged_def by blast
  note i' = initialize_facts [OF i]
  note n' = selectNetworkLatencyMultiplier_fields [of D "Get config" isReplay d0]
  note t' = selectTunnelProtocol_facts [OF t]
  note r' = composeRest_facts [OF r]
  have id: "TunnelProtocol dp = TunnelProtocol d1" "IsReplay dp = IsReplay d1"
    "IsExchanged dp = IsExchanged d1" "ServerEntry dp = ServerEntry d1"
    "NetworkID dp = NetworkID d1" "LastUsedTimestamp dp = LastUsedTimestamp d1"
    using r'(1) by (simp_all add: identityFields_def)
  show "IsReplay dp \<longleftrightarrow> (\<exists>R. stored = Some R \<and> \<not> IsExchanged R)"
    using id(2) t'(1) n'(1) i'(1) by (cases stored) (auto simp: isReplay_def isExchanged_def)
  show "\<not> IsExchanged dp"
    using id(3) t'(2) n'(2) i'(2) by simp
  show "TunnelProtocol dp = TunnelProtocol R" if "stored = Some R" for R
    using that id(1) t'(8) n'(3) i'(3) by (auto simp: isReplay_def isExchanged_def)
  show "TunnelProtocol dp = fst (sp serverEntry) \<and> snd (sp serverEntry)" if "stored = None"
    using that id(1) t'(9) by (auto simp: isReplay_def isExchanged_def)
  show "osshExclusive dp"
    if "osshExclusive (case stored of None \<Rightarrow> DialParameters_zero | Some f \<Rightarrow> f)"
  proof (cases "TunnelProtocol d1 = TUNNEL_PROTOCOL_OBFUSCATED_SSH (protocol W)")
    case True
    then show ?thesis using r'(2) by simp
  next
    case False
    then have "osshFields dp = osshFields d1" using r'(3) by simp
    then have "osshFields dp = osshFields (case stored of None \<Rightarrow> DialParameters_zero | Some f \<Rightarrow> f)"
      using t'(3) n'(4) i'(4) by simp
    with that show ?thesis by (simp add: osshExclusive_def osshFields_def)
  qed
  show "\<not> isIPLiteral W (MeekSNIServerName dp)"
    if "TunnelProtocolUsesMeek (protocol W) (TunnelProtocol dp)"
    using that r'(4) by simp
  show "ServerEntry dp = Some serverEntry" using id(4) t'(5) n'(5) i'(5) by simp
  show "NetworkID dp = GetNetworkID config" using id(5) t'(6) n'(6) i'(6) by simp
  show "LastUsedTimestamp dp = fst (currentState W config serverEntry)"
    using id(6) t'(7) n'(7) i'(7) by simp
qed

lemma replayInvalid_iff:
  "replayInvalid W config serverEntry R \<longleftrightarrow> \<not> replayConditions1to7 W config serverEntry R"
  by (cases "p_Duration (Get config) ''ReplayDialParametersTTL'' > 0")
     (auto simp: replayInvalid_def replayConditions1to7_def currentState_def Let_def
        Before_def Add_def Contains_def split: prod.splits)

lemma replayArbitration_found:
  assumes "GetDialParameters W (IpAddress serverEntry) (GetNetworkID config) = Inr (Some R)"
  shows "replayArbitration W config canReplay serverEntry =
           (if replayConditions1to7 W config serverEntry R then []
            else [DeleteDialParameters (IpAddress serverEntry) (GetNetworkID config)],
            if replayEligible W config canReplay serverEntry R then Some R else None)"
  using assms
  by (auto simp: replayArbitration_def replayInvalid_iff replayEligible_def Let_def)

lemma replayArbitration_stored:
  "snd (replayArbitration W config canReplay serverEntry) = Some R \<Longrightarrow>
     GetDialParameters W (IpAddress serverEntry) (GetNetworkID config) = Inr (Some R)"
  by (auto simp: replayArbitration_def Let_def split: sum.splits option.splits if_splits)

lemma MakeDialParameters_eq:
  "MakeDialParameters W D config cb canReplay sp serverEntry isTactics cn etc =
     (fst (replayArbitration W config canReplay serverEntry),
      compose W D config cb sp serverEntry isTactics cn etc
        (snd (replayArbitration W config canReplay serverEntry)))"
  by (simp add: MakeDialParameters_def split: prod.splits)

lemma persisted_fields:
  "osshExclusive (persisted d) = osshExclusive d"
  "IsExchanged (persisted d) = IsExchanged d"
  by (simp_all add: persisted_def osshExclusive_def)

lemma Exchanged_MakeDialParameters_fields:
  "osshExclusive (Exchanged_MakeDialParameters W ex config p serverEntry)"
  by (simp add: Exchanged_MakeDialParameters_def osshExclusive_def DialParameters_zero_def
        split: prod.splits)

lemma stored_record_exclusive: "stored_record R \<Longrightarrow> osshExclusive R"
proof (induction rule: stored_record.induct)
  case (imported W exchanged config p serverEntry)
  show ?case by (simp add: persisted_fields Exchanged_MakeDialParameters_fields)
next
  case (succeeded W D config cb canReplay sp serverEntry isTactics cn etc calls dialParams ip' nid')
  let ?stored = "snd (replayArbitration W config canReplay serverEntry)"
  from succeeded(2) have c: "compose W D config cb sp serverEntry isTactics cn etc ?stored
      = Return dialParams"
    by (simp add: MakeDialParameters_eq)
  have "osshExclusive (case ?stored of None \<Rightarrow> DialParameters_zero | Some f \<Rightarrow> f)"
  proof (cases ?stored)
    case None
    then show ?thesis by (simp add: osshExclusive_def DialParameters_zero_def)
  next
    case (Some R)
    from replayArbitration_stored [OF Some] succeeded(1) have "osshExclusive R" by blast
    with Some show ?thesis by simp
  qed
  from compose_facts(5) [OF c this] show ?case by (simp add: persisted_fields)
qed

lemma andThen_assoc: "andThen (andThen r f) g = andThen r (\<lambda>x. andThen (f x) g)"
  by (cases r) (simp_all add: andThen_def)

lemma compose_via_beforeQUIC:
  "compose W D config cb sp serverEntry isTactics cn etc stored =
     andThen (beforeQUIC W D config sp serverEntry cn etc stored)
       (\<lambda>(p, isReplay, usingTLS, d).
          andThen (selectQUICVersionStep W D config p serverEntry isReplay d)
            (\<lambda>d. andThen (run_steps (stepsAfterQUIC W D config p serverEntry isReplay usingTLS) d)
                   (\<lambda>d. Return (finalize W D config cb p serverEntry isTactics isReplay
                                   usingTLS d))))"
  unfolding compose_def beforeQUIC_def composeRest_def Let_def andThen_assoc
  by (simp add: andThen_assoc case_prod_unfold cong: if_cong)



lemma map_of_copyHeaders:
  "map_of (copyHeaders src dst) k =
     (case map_of (rev src) k of Some v \<Rightarrow> Some v | None \<Rightarrow> map_of dst k)"
  by (induction src arbitrary: dst) (auto simp: update_conv' split: option.splits)

lemma map_of_rev_distinct:
  "distinct (map fst xs) \<Longrightarrow> map_of (rev xs) = map_of xs"
proof (induction xs)
  case Nil
  then show ?case by simp
next
  case (Cons x xs)
  obtain a b where x: "x = (a, b)" by (cases x)
  from Cons.prems x have none: "map_of xs a = None" and d: "distinct (map fst xs)"
    by (auto simp: map_of_eq_None_iff)
  have "map_of (rev (x # xs)) = map_of [x] ++ map_of (rev xs)"
    by simp
  also have "\<dots> = map_of [x] ++ map_of xs"
    using Cons.IH [OF d] by simp
  also have "\<dots> = map_of (x # xs)"
    using none by (auto simp: x map_add_def fun_eq_iff split: option.splits)
  finally show ?case .
qed

lemma makeDialCustomHeaders_override:
  assumes "distinct (map fst (CustomHeaders config))"
    and "distinct (map fst (p_HTTPHeaders p ''AdditionalCustomHeaders''))"
  shows "map_of (makeDialCustomHeaders config p) k =
           overrideHeaders (CustomHeaders config) (p_HTTPHeaders p ''AdditionalCustomHeaders'') k"
  using assms
  by (simp add: makeDialCustomHeaders_def overrideHeaders_def Let_def map_of_copyHeaders
        map_of_rev_distinct split: option.splits)

section \<open>Retention of the replayed fields\<close>

text \<open>
  On a replay every selection step leaves the fields of its replay flag as they are when
  the flag is set, so the observation \<open>replayedFields\<close> is the same before and after the
  step.
\<close>

lemma retainedIf_eq [simp]:
  "(retainedIf flag x = retainedIf flag y) = (flag \<longrightarrow> x = y)"
  by (simp add: retainedIf_def)


































section \<open>QUIC version selection and custom headers\<close>

lemma selectQUICVersion_loop_filter:
  "selectQUICVersion_loop P isFronted serverEntry limit disable versions acc =
     acc @ filter (\<lambda>v. (limit = [] \<or> v \<in> set limit)
                      \<and> (LimitQUICVersions serverEntry = []
                         \<or> v \<in> set (LimitQUICVersions serverEntry))
                      \<and> \<not> (isFronted \<and> QUICVersionIsObfuscated P v)
                      \<and> v \<notin> set disable) versions"
  by (induction versions arbitrary: acc) (auto simp: Contains_def)

lemma selectQUICVersion_survivors:
  "selectQUICVersion P r isFronted serverEntry p =
     (if quicVersionSurvivors P isFronted serverEntry p = [] then []
      else quicVersionSurvivors P isFronted serverEntry p
             ! (r mod length (quicVersionSurvivors P isFronted serverEntry p)))"
proof -
  have eq: "selectQUICVersion_loop P isFronted serverEntry (p_QUICVersions p ''LimitQUICVersions'')
        (if isFronted
             then if se_FrontingProviderID serverEntry = []
                  then [QUIC_VERSION_V1 P, QUIC_VERSION_RANDOMIZED_V1 P,
                        QUIC_VERSION_OBFUSCATED_V1 P, QUIC_VERSION_DECOY_V1 P]
                  else p_LabeledQUICVersions p ''DisableFrontingProviderQUICVersions''
                         (se_FrontingProviderID serverEntry)
             else [])
        (if SupportsOnlyQUICv1 serverEntry then SupportedQUICv1Versions P
             else SupportedQUICVersions P) [] = quicVersionSurvivors P isFronted serverEntry p"
    unfolding selectQUICVersion_loop_filter quicVersionSurvivors_def
    by (cases isFronted) (auto intro!: filter_cong)
  show ?thesis
    unfolding selectQUICVersion_def Let_def eq Intn_def by simp
qed

lemma finalize_headers:
  "dialConfig (finalize W D config cb p serverEntry isTactics isReplay u d) \<noteq> None
   \<and> customHeadersOf (finalize W D config cb p serverEntry isTactics isReplay u d) =
       (if userAgentSet W (finalize W D config cb p serverEntry isTactics isReplay u d)
        then AList.update ''User-Agent''
               [UserAgent (finalize W D config cb p serverEntry isTactics isReplay u d)]
               (makeDialCustomHeaders config p)
        else makeDialCustomHeaders config p)"
proof -
  let ?x = "setUpstreamProxyType W config d"
  let ?s = "selectUserAgent W D config p isReplay ?x"
  let ?f = "finalize W D config cb p serverEntry isTactics isReplay u d"
  obtain dc where dc: "dialConfig ?f = Some dc" "dc_CustomHeaders dc = snd ?s"
    using makeConfigs_headers [of W D config cb p serverEntry isTactics u "snd ?s"]
    by (auto simp: finalize_eq)
  have tp: "TunnelProtocol (fst ?s) = TunnelProtocol ?x"
    using selectUserAgent_fields(1) [of W D config p isReplay ?x]
    by (simp add: frameFields_def identityFields_def)
  have tpf: "TunnelProtocol ?f = TunnelProtocol (fst ?s)"
    using makeConfigs_fields(1) setNames_fields(1)
    by (simp add: finalize_eq frameFields_def identityFields_def)
  have ua: "userAgentSet W ?f \<longleftrightarrow>
      (TunnelProtocolUsesMeek (protocol W) (TunnelProtocol ?x)
         \<or> UpstreamProxyType ?x = ''http'' \<or> ConjureAPIRegistration ?x)
      \<and> SelectedUserAgent (fst ?s)"
    unfolding userAgentSet_def tpf tp
    by (simp add: finalize_eq makeConfigs_fields setNames_fields selectUserAgent_fields)
  have uaf: "UserAgent ?f = UserAgent (fst ?s)"
    by (simp add: finalize_eq makeConfigs_fields setNames_fields)
  show ?thesis
    using dc ua uaf selectUserAgent_headers [of W D config p isReplay ?x]
    by (simp add: customHeadersOf_def)
qed

lemma compose_headers:
  assumes "compose W D config cb sp serverEntry isTactics cn etc stored = Return dp"
  shows "dialConfig dp \<noteq> None"
    and "customHeadersOf dp =
       (if userAgentSet W dp
        then AList.update ''User-Agent'' [UserAgent dp]
               (makeDialCustomHeaders config (GetCustom config (NetworkLatencyMultiplier dp)))
        else makeDialCustomHeaders config (GetCustom config (NetworkLatencyMultiplier dp)))"
proof -
  from assms obtain d0 d1 isReplay isExchanged where
    t: "selectTunnelProtocol sp serverEntry isReplay isExchanged
          (selectNetworkLatencyMultiplier D (Get config) isReplay d0) = Return d1" and
    r: "composeRest W D config cb
          (GetCustom config (NetworkLatencyMultiplier
             (selectNetworkLatencyMultiplier D (Get config) isReplay d0)))
          serverEntry isTactics isReplay d1 = Return dp"
    unfolding compose_Return by blast
  have "identityFields dp = identityFields d1" by (rule composeRest_facts(1) [OF r])
  then have nlm: "NetworkLatencyMultiplier
      (selectNetworkLatencyMultiplier D (Get config) isReplay d0) = NetworkLatencyMultiplier dp"
    using selectTunnelProtocol_facts(4) [OF t] by (simp add: identityFields_def)
  from r obtain u d3 where
    f: "dp = finalize W D config cb (GetCustom config (NetworkLatencyMultiplier dp)) serverEntry
              isTactics isReplay u d3"
    unfolding composeRest_Return nlm by blast
  from finalize_headers [of W D config cb "GetCustom config (NetworkLatencyMultiplier dp)"
      serverEntry isTactics isReplay u d3]
  show "dialConfig dp \<noteq> None"
    and "customHeadersOf dp =
       (if userAgentSet W dp
        then AList.update ''User-Agent'' [UserAgent dp]
               (makeDialCustomHeaders config (GetCustom config (NetworkLatencyMultiplier dp)))
        else makeDialCustomHeaders config (GetCustom config (NetworkLatencyMultiplier dp)))"
    unfolding f [symmetric] by simp_all
qed

section \<open>The claims\<close>

subsection \<open>Replay arbitration\<close>




text \<open>
  Claim C2. When a stored record exists and fails one of the conditions (1) to (7),
  \<^verbatim>\<open>MakeDialParameters\<close> calls \<^verbatim>\<open>DeleteDialParameters\<close> for \<open>(serverIP, networkID)\<close>, and
  that is its only store call; when the record passes (1) to (7) it makes no store call, and
  if it then fails (8) \<open>DisableReplay\<close> or (9) \<open>canReplay\<close> the record is only discarded in
  memory: the composition continues as without a record.
\<close>

theorem MakeDialParameters_deletes_invalid_record:
  assumes "GetDialParameters W (IpAddress serverEntry) (GetNetworkID config) = Inr (Some R)"
  shows "(\<not> replayConditions1to7 W config serverEntry R \<longrightarrow>
            fst (MakeDialParameters W D config cb canReplay sp serverEntry isTactics cn etc)
              = [DeleteDialParameters (IpAddress serverEntry) (GetNetworkID config)])
         \<and> (replayConditions1to7 W config serverEntry R \<longrightarrow>
              fst (MakeDialParameters W D config cb canReplay sp serverEntry isTactics cn etc) = [])
         \<and> (replayConditions1to7 W config serverEntry R
              \<and> (DisableReplay config \<or> \<not> canReplay serverEntry (TunnelProtocol R)) \<longrightarrow>
              snd (MakeDialParameters W D config cb canReplay sp serverEntry isTactics cn etc)
                = compose W D config cb sp serverEntry isTactics cn etc None)"
  by (auto simp: MakeDialParameters_eq replayArbitration_found [OF assms] replayEligible_def)

theorem MakeDialParameters_deletes_invalid_record_witness:
  "fst (example_run (example_store example_expired) example_draws example_config
          example_serverEntry ''OSSH'') = [DeleteDialParameters ''192.0.2.10'' ''WIFI-home'']
   \<and> fst (example_run (example_store example_stored) example_draws example_config
            example_serverEntry ''OSSH'') = []
   \<and> fst (example_run (example_store example_stored) example_draws
            (example_config\<lparr> DisableReplay := True \<rparr>) example_serverEntry ''OSSH'') = []
   \<and> mapResult IsReplay
       (snd (example_run (example_store example_stored) example_draws
               (example_config\<lparr> DisableReplay := True \<rparr>) example_serverEntry ''OSSH''))
       = Return False"
proof -
  let ?off = "example_config\<lparr> DisableReplay := True \<rparr>"
  have g: "GetDialParameters (example_store R) (IpAddress example_serverEntry)
             (GetNetworkID example_config) = Inr (Some R)"
          "GetDialParameters (example_store R) (IpAddress example_serverEntry)
             (GetNetworkID ?off) = Inr (Some R)" for R
    by (simp_all add: example_store_def example_serverEntry_def example_config_def)
  have k: "IpAddress example_serverEntry = ''192.0.2.10''"
    "GetNetworkID example_config = ''WIFI-home''"
    by (simp_all add: example_serverEntry_def example_config_def)
  have x: "\<not> replayConditions1to7 (example_store example_expired) example_config
               example_serverEntry example_expired"
    by code_simp
  have e: "replayConditions1to7 (example_store example_stored) example_config
             example_serverEntry example_stored"
          "replayConditions1to7 (example_store example_stored) ?off
             example_serverEntry example_stored"
    by code_simp+
  have d: "DisableReplay ?off" by simp
  have r: "mapResult IsReplay
       (compose (example_store example_stored) example_draws ?off None
          (\<lambda>serverEntry. (''OSSH'', True)) example_serverEntry False 0 0 None) = Return False"
    by code_simp
  from MakeDialParameters_deletes_invalid_record [OF g(1), of example_expired example_draws
         None "\<lambda>serverEntry replayProtocol. True" "\<lambda>serverEntry. (''OSSH'', True)" False 0 0] x
  have a: "fst (example_run (example_store example_expired) example_draws example_config
          example_serverEntry ''OSSH'') = [DeleteDialParameters ''192.0.2.10'' ''WIFI-home'']"
    by (simp add: example_run_def k)
  from MakeDialParameters_deletes_invalid_record [OF g(1), of example_stored example_draws
         None "\<lambda>serverEntry replayProtocol. True" "\<lambda>serverEntry. (''OSSH'', True)" False 0 0] e(1)
  have b: "fst (example_run (example_store example_stored) example_draws example_config
            example_serverEntry ''OSSH'') = []"
    by (simp add: example_run_def)
  from MakeDialParameters_deletes_invalid_record [OF g(2), of example_stored example_draws
         None "\<lambda>serverEntry replayProtocol. True" "\<lambda>serverEntry. (''OSSH'', True)" False 0 0]
       e(2) d r
  have c: "fst (example_run (example_store example_stored) example_draws ?off
            example_serverEntry ''OSSH'') = []"
    "mapResult IsReplay
       (snd (example_run (example_store example_stored) example_draws ?off
               example_serverEntry ''OSSH'')) = Return False"
    by (simp_all add: example_run_def)
  from a b c show ?thesis by simp
qed

subsection \<open>Exchanged records\<close>



text \<open>
  Claim C4. For every record returned by \<^verbatim>\<open>MakeDialParameters\<close>, fresh, replayed or
  exchanged, if \<open>OSSHPrefixSpec\<close> is non-nil then
  \<open>OSSHObfuscatorSeedTransformerParameters\<close> is nil. The store holds the records that the
  program itself put there (\<open>stored_record\<close>).
\<close>

theorem OSSHPrefixSpec_excludes_seed_transform:
  assumes "\<forall>ip nid R. GetDialParameters W ip nid = Inr (Some R) \<longrightarrow> stored_record R"
    and "snd (MakeDialParameters W D config cb canReplay sp serverEntry isTactics cn etc)
           = Return dp"
    and "OSSHPrefixSpec dp \<noteq> None"
  shows "OSSHObfuscatorSeedTransformerParameters dp = None"
proof -
  let ?stored = "snd (replayArbitration W config canReplay serverEntry)"
  from assms(2) have c: "compose W D config cb sp serverEntry isTactics cn etc ?stored = Return dp"
    by (simp add: MakeDialParameters_eq)
  have "osshExclusive (case ?stored of None \<Rightarrow> DialParameters_zero | Some f \<Rightarrow> f)"
  proof (cases ?stored)
    case None
    then show ?thesis by (simp add: osshExclusive_def DialParameters_zero_def)
  next
    case (Some R)
    from replayArbitration_stored [OF Some] assms(1) have "stored_record R" by blast
    then have "osshExclusive R" by (rule stored_record_exclusive)
    with Some show ?thesis by simp
  qed
  from compose_facts(5) [OF c this] assms(3) show ?thesis by (simp add: osshExclusive_def)
qed

theorem OSSHPrefixSpec_excludes_seed_transform_witness:
  "stored_record example_exchanged
   \<and> mapResult (\<lambda>dp. OSSHPrefixSpec dp \<noteq> None)
       (snd (example_run (example_store example_exchanged) example_draws_ossh example_config
               example_serverEntry ''SSH'')) = Return True
   \<and> mapResult OSSHObfuscatorSeedTransformerParameters
       (snd (example_run (example_store example_exchanged) example_draws_ossh example_config
               example_serverEntry ''SSH'')) = Return None"
proof -
  have s: "stored_record example_exchanged"
    unfolding example_exchanged_def by (rule stored_record.imported)
  then have a: "\<forall>ip nid R. GetDialParameters (example_store example_exchanged) ip nid
                  = Inr (Some R) \<longrightarrow> stored_record R"
    by (simp add: example_store_def)
  have r: "mapResult (\<lambda>dp. OSSHPrefixSpec dp \<noteq> None)
       (snd (example_run (example_store example_exchanged) example_draws_ossh example_config
               example_serverEntry ''SSH'')) = Return True"
    by code_simp
  then obtain dp where
    dp: "snd (MakeDialParameters (example_store example_exchanged) example_draws_ossh
           example_config None (\<lambda>serverEntry replayProtocol. True)
           (\<lambda>serverEntry. (''SSH'', True)) example_serverEntry False 0 0) = Return dp"
    and px: "OSSHPrefixSpec dp \<noteq> None"
    by (auto simp: example_run_def mapResult_def split: result.splits)
  from OSSHPrefixSpec_excludes_seed_transform [OF a dp px] s r dp show ?thesis
    by (simp add: example_run_def mapResult_def)
qed

subsection \<open>Invariants of the returned record\<close>

text \<open>
  Claim C3 says that \<open>MeekSNIServerName\<close> is never an IP literal in a returned record, for
  every tunnel protocol including Conjure API registration. The composer blanks an IP
  literal only inside the block guarded by \<^verbatim>\<open>TunnelProtocolUsesMeek\<close> (lines 1012 to 1029),
  and the Conjure tunnel protocol is not a meek protocol: with Conjure API registration the
  SNI set at lines 578 to 600 is kept as it is. In the example the host name transform
  generates \<open>192.0.2.1\<close> from the tactics' custom pattern and the record is returned with
  that SNI.
\<close>

theorem MeekSNIServerName_IP_literal_with_Conjure:
  "mapResult MeekSNIServerName
     (snd (example_run example_world example_draws_conjure example_config_conjure
             example_serverEntry ''CONJURE-OSSH'')) = Return ''192.0.2.1''
   \<and> isIPLiteral example_world ''192.0.2.1''
   \<and> mapResult ConjureAPIRegistration
       (snd (example_run example_world example_draws_conjure example_config_conjure
               example_serverEntry ''CONJURE-OSSH'')) = Return True"
  by code_simp

text \<open>
  Claim C3, amended. For every record returned by \<^verbatim>\<open>MakeDialParameters\<close> whose tunnel
  protocol uses meek, \<open>MeekSNIServerName\<close> is not an IP literal: an SNI that would be one is
  blanked to the empty string.
\<close>

theorem MeekSNIServerName_not_IP_literal_for_meek:
  assumes "snd (MakeDialParameters W D config cb canReplay sp serverEntry isTactics cn etc)
             = Return dp"
    and "TunnelProtocolUsesMeek (protocol W) (TunnelProtocol dp)"
  shows "\<not> isIPLiteral W (MeekSNIServerName dp)"
  using assms compose_facts(6) by (simp add: MakeDialParameters_eq)

theorem MeekSNIServerName_not_IP_literal_for_meek_witness:
  "mapResult TunnelProtocol
     (snd (example_run example_world example_draws example_config example_serverEntry
             ''UNFRONTED-MEEK-HTTPS-OSSH'')) = Return ''UNFRONTED-MEEK-HTTPS-OSSH''
   \<and> TunnelProtocolUsesMeek (protocol example_world) ''UNFRONTED-MEEK-HTTPS-OSSH''
   \<and> mapResult (\<lambda>dp. isIPLiteral example_world (MeekSNIServerName dp))
       (snd (example_run example_world example_draws example_config example_serverEntry
               ''UNFRONTED-MEEK-HTTPS-OSSH'')) = Return False"
proof -
  have r: "mapResult TunnelProtocol
     (snd (example_run example_world example_draws example_config example_serverEntry
             ''UNFRONTED-MEEK-HTTPS-OSSH'')) = Return ''UNFRONTED-MEEK-HTTPS-OSSH''"
    by code_simp
  have m: "TunnelProtocolUsesMeek (protocol example_world) ''UNFRONTED-MEEK-HTTPS-OSSH''"
    by code_simp
  from r obtain dp where
    dp: "snd (MakeDialParameters example_world example_draws example_config None
           (\<lambda>serverEntry replayProtocol. True)
           (\<lambda>serverEntry. (''UNFRONTED-MEEK-HTTPS-OSSH'', True)) example_serverEntry False 0 0)
         = Return dp"
    and tp: "TunnelProtocol dp = ''UNFRONTED-MEEK-HTTPS-OSSH''"
    by (auto simp: example_run_def mapResult_def split: result.splits)
  from MeekSNIServerName_not_IP_literal_for_meek [OF dp] m tp
  have "\<not> isIPLiteral example_world (MeekSNIServerName dp)" by simp
  with r m dp show ?thesis
    by (simp add: example_run_def mapResult_def)
qed

subsection \<open>Skipping a candidate without a QUIC version\<close>

text \<open>
  Claim C8. When the composition reaches the QUIC version selection of line 748 for a QUIC
  tunnel protocol, composing fresh parameters (or with \<open>ReplayQUICVersion\<close> off), and
  \<^verbatim>\<open>selectQUICVersion\<close> returns the empty string, \<^verbatim>\<open>MakeDialParameters\<close> returns
  \<open>(nil, nil)\<close>: the candidate is skipped with no error.
\<close>

theorem MakeDialParameters_skips_without_QUIC_version:
  assumes "beforeQUIC W D config sp serverEntry cn etc
             (snd (replayArbitration W config canReplay serverEntry))
             = Return (p, isReplay, usingTLS, d)"
    and "\<not> isReplay \<or> \<not> p_Bool (Get config) ''ReplayQUICVersion''"
    and "TunnelProtocolUsesQUIC (protocol W) (TunnelProtocol d)"
    and "selectQUICVersion (protocol W) (d_choiceQUICVersion D)
           (TunnelProtocolUsesFrontedMeekQUIC (protocol W) (TunnelProtocol d)) serverEntry p = []"
  shows "snd (MakeDialParameters W D config cb canReplay sp serverEntry isTactics cn etc) = Skip"
proof -
  have q: "selectQUICVersionStep W D config p serverEntry isReplay d = Skip"
    using assms(2,3,4) by (auto simp: selectQUICVersionStep_def Let_def)
  show ?thesis
    by (simp add: MakeDialParameters_eq compose_via_beforeQUIC assms(1) q andThen_def)
qed

theorem MakeDialParameters_skips_without_QUIC_version_witness:
  "mapResult (\<lambda>(p, isReplay, usingTLS, d).
       \<not> isReplay \<and> TunnelProtocolUsesQUIC (protocol example_world) (TunnelProtocol d)
       \<and> selectQUICVersion (protocol example_world) (d_choiceQUICVersion example_draws)
           (TunnelProtocolUsesFrontedMeekQUIC (protocol example_world) (TunnelProtocol d))
           example_serverEntry_noQUIC p = [])
     (beforeQUIC example_world example_draws example_config (\<lambda>serverEntry. (''QUIC-OSSH'', True))
        example_serverEntry_noQUIC 0 0
        (snd (replayArbitration example_world example_config
                (\<lambda>serverEntry replayProtocol. True) example_serverEntry_noQUIC))) = Return True
   \<and> example_run example_world example_draws example_config example_serverEntry_noQUIC
       ''QUIC-OSSH'' = ([], Skip)"
proof -
  have b: "mapResult (\<lambda>(p, isReplay, usingTLS, d).
       \<not> isReplay \<and> TunnelProtocolUsesQUIC (protocol example_world) (TunnelProtocol d)
       \<and> selectQUICVersion (protocol example_world) (d_choiceQUICVersion example_draws)
           (TunnelProtocolUsesFrontedMeekQUIC (protocol example_world) (TunnelProtocol d))
           example_serverEntry_noQUIC p = [])
     (beforeQUIC example_world example_draws example_config (\<lambda>serverEntry. (''QUIC-OSSH'', True))
        example_serverEntry_noQUIC 0 0
        (snd (replayArbitration example_world example_config
                (\<lambda>serverEntry replayProtocol. True) example_serverEntry_noQUIC))) = Return True"
    by code_simp
  then obtain p usingTLS d where
    h: "beforeQUIC example_world example_draws example_config
          (\<lambda>serverEntry. (''QUIC-OSSH'', True)) example_serverEntry_noQUIC 0 0
          (snd (replayArbitration example_world example_config
                  (\<lambda>serverEntry replayProtocol. True) example_serverEntry_noQUIC))
        = Return (p, False, usingTLS, d)"
    and q: "TunnelProtocolUsesQUIC (protocol example_world) (TunnelProtocol d)"
    and v: "selectQUICVersion (protocol example_world) (d_choiceQUICVersion example_draws)
           (TunnelProtocolUsesFrontedMeekQUIC (protocol example_world) (TunnelProtocol d))
           example_serverEntry_noQUIC p = []"
    by (auto simp: mapResult_def split: result.splits)
  have c: "fst (example_run example_world example_draws example_config
                  example_serverEntry_noQUIC ''QUIC-OSSH'') = []"
    by code_simp
  from MakeDialParameters_skips_without_QUIC_version [OF h _ q v, of None False]
  have "snd (example_run example_world example_draws example_config
               example_serverEntry_noQUIC ''QUIC-OSSH'') = Skip"
    by (simp add: example_run_def)
  with b c show ?thesis by (simp add: prod_eq_iff)
qed

subsection \<open>Custom headers\<close>

text \<open>
  Claim C10 says that in the combined custom headers of \<open>DialConfig.CustomHeaders\<close> a name
  present in one source only keeps that source's value. On a replay the composer keeps the
  stored \<open>SelectedUserAgent\<close> and sets the stored \<open>UserAgent\<close> over whatever the sources
  give (lines 1073 to 1079). In the example a first composition selects a User-Agent and
  is persisted; the tactics then add a User-Agent to \<open>AdditionalCustomHeaders\<close> (and ignore
  config state changes); the replay thirty minutes later returns the stored User-Agent, not
  the one of the tactics.
\<close>

theorem CustomHeaders_replayed_UserAgent_overrides_tactics:
  "mapResult SelectedUserAgent example_first_run = Return True
   \<and> mapResult IsReplay
       (snd (example_run example_later_world example_draws example_config_userAgent
               example_serverEntry ''OSSH'')) = Return True
   \<and> makeDialCustomHeaders example_config_userAgent example_params_userAgent
       = [(''User-Agent'', [''UA-tactics''])]
   \<and> CustomHeaders example_config_userAgent = []
   \<and> mapResult customHeadersOf
       (snd (example_run example_later_world example_draws example_config_userAgent
               example_serverEntry ''OSSH'')) = Return [(''User-Agent'', [''Mozilla/5.0''])]"
  by code_simp

text \<open>
  Claim C10, amended. In \<open>DialConfig.CustomHeaders\<close> of every returned record, each header
  name has the tactics value when \<open>AdditionalCustomHeaders\<close> has the name and the value of
  \<open>config.CustomHeaders\<close> otherwise (tactics entries take precedence on key collision, names
  present in only one source keep that source's value), except for \<open>User-Agent\<close> when the
  record carries a selected User-Agent (\<open>userAgentSet\<close>): then it is the record's
  \<open>UserAgent\<close>. Each source has one entry per name, as a Go map does.
\<close>

theorem CustomHeaders_tactics_override_except_UserAgent:
  assumes "snd (MakeDialParameters W D config cb canReplay sp serverEntry isTactics cn etc)
             = Return dp"
    and "distinct (map fst (CustomHeaders config))"
    and "distinct (map fst (p_HTTPHeaders (GetCustom config (NetworkLatencyMultiplier dp))
                              ''AdditionalCustomHeaders''))"
  shows "dialConfig dp \<noteq> None
         \<and> map_of (customHeadersOf dp) k =
             (if userAgentSet W dp \<and> k = ''User-Agent'' then Some [UserAgent dp]
              else overrideHeaders (CustomHeaders config)
                     (p_HTTPHeaders (GetCustom config (NetworkLatencyMultiplier dp))
                        ''AdditionalCustomHeaders'') k)"
proof -
  from assms(1) have c: "compose W D config cb sp serverEntry isTactics cn etc
      (snd (replayArbitration W config canReplay serverEntry)) = Return dp"
    by (simp add: MakeDialParameters_eq)
  note h = compose_headers [OF c]
  note m = makeDialCustomHeaders_override [OF assms(2,3)]
  show ?thesis
    using h m by (simp add: update_conv')
qed

theorem CustomHeaders_tactics_override_except_UserAgent_witness:
  "mapResult (\<lambda>dp. map_of (customHeadersOf dp) ''X-Custom'')
     (snd (example_run example_world example_draws
             (example_config_userAgent\<lparr> CustomHeaders := [(''X-Custom'', [''1''])] \<rparr>)
             example_serverEntry ''OSSH'')) = Return (Some [''1''])
   \<and> mapResult (\<lambda>dp. map_of (customHeadersOf dp) ''User-Agent'')
       (snd (example_run example_world example_draws
               (example_config_userAgent\<lparr> CustomHeaders := [(''User-Agent'', [''UA-config''])] \<rparr>)
               example_serverEntry ''OSSH'')) = Return (Some [''UA-tactics''])"
proof -
  let ?c1 = "example_config_userAgent\<lparr> CustomHeaders := [(''X-Custom'', [''1''])] \<rparr>"
  let ?c2 = "example_config_userAgent\<lparr> CustomHeaders := [(''User-Agent'', [''UA-config''])] \<rparr>"
  have r: "mapResult (\<lambda>dp. userAgentSet example_world dp)
     (snd (example_run example_world example_draws ?c1 example_serverEntry ''OSSH''))
       = Return False"
     "mapResult (\<lambda>dp. userAgentSet example_world dp)
     (snd (example_run example_world example_draws ?c2 example_serverEntry ''OSSH''))
       = Return False"
    by code_simp+
  from r(1) obtain dp1 where
    d1: "snd (MakeDialParameters example_world example_draws ?c1 None
           (\<lambda>serverEntry replayProtocol. True) (\<lambda>serverEntry. (''OSSH'', True))
           example_serverEntry False 0 0) = Return dp1"
    and u1: "\<not> userAgentSet example_world dp1"
    by (auto simp: example_run_def mapResult_def split: result.splits)
  from r(2) obtain dp2 where
    d2: "snd (MakeDialParameters example_world example_draws ?c2 None
           (\<lambda>serverEntry replayProtocol. True) (\<lambda>serverEntry. (''OSSH'', True))
           example_serverEntry False 0 0) = Return dp2"
    and u2: "\<not> userAgentSet example_world dp2"
    by (auto simp: example_run_def mapResult_def split: result.splits)
  have a: "p_HTTPHeaders (GetCustom example_config_userAgent m) ''AdditionalCustomHeaders''
             = [(''User-Agent'', [''UA-tactics''])]" for m
    by (simp add: example_config_userAgent_def example_params_userAgent_def)
  have "map_of (customHeadersOf dp1) ''X-Custom'' = Some [''1'']"
    using CustomHeaders_tactics_override_except_UserAgent [OF d1, of "''X-Custom''"] u1
    by (simp add: a overrideHeaders_def)
  moreover have "map_of (customHeadersOf dp2) ''User-Agent'' = Some [''UA-tactics'']"
    using CustomHeaders_tactics_override_except_UserAgent [OF d2, of "''User-Agent''"] u2
    by (simp add: a overrideHeaders_def)
  ultimately show ?thesis
    using d1 d2 by (simp add: example_run_def mapResult_def)
qed

subsection \<open>Lifecycle\<close>

text \<open>
  Claim C5. \<^verbatim>\<open>Succeeded\<close> performs no store write when \<open>LastUsedTimestamp\<close> is zero, and
  otherwise persists the entire record with \<^verbatim>\<open>SetDialParameters\<close> under the key
  \<open>(ServerEntry.IpAddress, NetworkID)\<close>: that single call, carrying the record itself.
\<close>

theorem Succeeded_persists_unless_zero:
  "(IsZero (LastUsedTimestamp dialParams) \<longrightarrow> Succeeded dialParams = Some [])
   \<and> (\<not> IsZero (LastUsedTimestamp dialParams) \<longrightarrow> ServerEntry dialParams = Some se \<longrightarrow>
        Succeeded dialParams
          = Some [SetDialParameters (IpAddress se) (NetworkID dialParams) dialParams])"
  by (simp add: Succeeded_def)

theorem Succeeded_persists_unless_zero_witness:
  "Succeeded DialParameters_zero = Some []
   \<and> Succeeded (example_stored\<lparr> ServerEntry := Some example_serverEntry,
                                 NetworkID := ''WIFI-home'' \<rparr>)
       = Some [SetDialParameters ''192.0.2.10'' ''WIFI-home''
                 (example_stored\<lparr> ServerEntry := Some example_serverEntry,
                                   NetworkID := ''WIFI-home'' \<rparr>)]"
proof -
  have z: "IsZero (LastUsedTimestamp DialParameters_zero)"
    by (simp add: IsZero_def DialParameters_zero_def)
  have n: "\<not> IsZero (LastUsedTimestamp (example_stored\<lparr> ServerEntry := Some example_serverEntry,
                                 NetworkID := ''WIFI-home'' \<rparr>))"
    by (simp add: IsZero_def example_stored_def)
  have s: "ServerEntry (example_stored\<lparr> ServerEntry := Some example_serverEntry,
                                 NetworkID := ''WIFI-home'' \<rparr>) = Some example_serverEntry"
    by simp
  show ?thesis
    using z n s
      Succeeded_persists_unless_zero [of DialParameters_zero example_serverEntry]
      Succeeded_persists_unless_zero [of "example_stored\<lparr> ServerEntry := Some example_serverEntry,
                                 NetworkID := ''WIFI-home'' \<rparr>" example_serverEntry]
    by (simp add: example_serverEntry_def)
qed

text \<open>
  Claim C6. \<^verbatim>\<open>Failed\<close> calls \<^verbatim>\<open>DeleteDialParameters\<close> for
  \<open>(ServerEntry.IpAddress, NetworkID)\<close> if and only if \<open>IsReplay\<close> is true and the coin
  flip with probability \<open>ReplayRetainFailedProbability\<close> comes up false, and it makes no
  other store call; when \<open>IsReplay\<close> is false it makes no store call at all. (That the flip
  comes up false with probability one minus \<open>ReplayRetainFailedProbability\<close> is the
  contract of \<^verbatim>\<open>WeightedCoinFlip\<close>.)
\<close>

theorem Failed_deletes_iff_replay_not_retained:
  "(\<not> IsReplay dialParams \<longrightarrow> Failed coinRetain dialParams = Some [])
   \<and> (ServerEntry dialParams = Some se \<longrightarrow>
        (\<exists>calls. Failed coinRetain dialParams = Some calls
           \<and> (DeleteDialParameters (IpAddress se) (NetworkID dialParams) \<in> set calls
                \<longleftrightarrow> IsReplay dialParams \<and> \<not> coinRetain)
           \<and> set calls \<subseteq> {DeleteDialParameters (IpAddress se) (NetworkID dialParams)}))"
  by (simp add: Failed_def)

theorem Failed_deletes_iff_replay_not_retained_witness:
  "Failed False (example_stored\<lparr> ServerEntry := Some example_serverEntry,
                                  NetworkID := ''WIFI-home'', IsReplay := True \<rparr>)
     = Some [DeleteDialParameters ''192.0.2.10'' ''WIFI-home'']
   \<and> Failed True (example_stored\<lparr> ServerEntry := Some example_serverEntry,
                                   NetworkID := ''WIFI-home'', IsReplay := True \<rparr>) = Some []
   \<and> Failed False DialParameters_zero = Some []"
proof -
  let ?dp = "example_stored\<lparr> ServerEntry := Some example_serverEntry,
                             NetworkID := ''WIFI-home'', IsReplay := True \<rparr>"
  have s: "ServerEntry ?dp = Some example_serverEntry" and r: "IsReplay ?dp"
    and k: "IpAddress example_serverEntry = ''192.0.2.10''" "NetworkID ?dp = ''WIFI-home''"
    by (simp_all add: example_serverEntry_def)
  have z: "\<not> IsReplay DialParameters_zero" by (simp add: DialParameters_zero_def)
  from Failed_deletes_iff_replay_not_retained [of ?dp False example_serverEntry] s r k
  have a: "Failed False ?dp = Some [DeleteDialParameters ''192.0.2.10'' ''WIFI-home'']"
    by (auto simp: Failed_def)
  from Failed_deletes_iff_replay_not_retained [of ?dp True example_serverEntry] s r k
  have b: "Failed True ?dp = Some []"
    by (auto simp: Failed_def)
  from Failed_deletes_iff_replay_not_retained [of DialParameters_zero False] z
  have c: "Failed False DialParameters_zero = Some []"
    by simp
  from a b c show ?thesis by simp
qed

subsection \<open>QUIC version selection\<close>

text \<open>
  Claim C7. \<^verbatim>\<open>selectQUICVersion\<close> returns a member of exactly the set of versions that
  survive the filters (\<open>quicVersionSurvivors\<close>: the supported versions, the v1 ones for a
  v1-only server entry; in the tactics \<open>LimitQUICVersions\<close> when set; in the server entry's
  \<open>LimitQUICVersions\<close> when set; when fronted, not obfuscated and not in the disable set):
  the result is always a survivor, every survivor is the result of some draw, and the result
  is the empty string when no version survives.
\<close>

theorem selectQUICVersion_exactly_survivors:
  "(quicVersionSurvivors P isFronted serverEntry p = []
      \<longrightarrow> selectQUICVersion P r isFronted serverEntry p = [])
   \<and> (quicVersionSurvivors P isFronted serverEntry p \<noteq> []
      \<longrightarrow> selectQUICVersion P r isFronted serverEntry p
            \<in> set (quicVersionSurvivors P isFronted serverEntry p))
   \<and> (\<forall>v \<in> set (quicVersionSurvivors P isFronted serverEntry p).
        \<exists>r'. selectQUICVersion P r' isFronted serverEntry p = v)"
proof (intro conjI impI ballI)
  assume "quicVersionSurvivors P isFronted serverEntry p = []"
  then show "selectQUICVersion P r isFronted serverEntry p = []"
    by (simp add: selectQUICVersion_survivors)
next
  assume ne: "quicVersionSurvivors P isFronted serverEntry p \<noteq> []"
  then have "r mod length (quicVersionSurvivors P isFronted serverEntry p)
               < length (quicVersionSurvivors P isFronted serverEntry p)"
    by simp
  with ne show "selectQUICVersion P r isFronted serverEntry p
            \<in> set (quicVersionSurvivors P isFronted serverEntry p)"
    by (simp add: selectQUICVersion_survivors)
next
  fix v assume v: "v \<in> set (quicVersionSurvivors P isFronted serverEntry p)"
  then obtain i where i: "i < length (quicVersionSurvivors P isFronted serverEntry p)"
      and vi: "quicVersionSurvivors P isFronted serverEntry p ! i = v"
    by (auto simp: in_set_conv_nth)
  from i have "quicVersionSurvivors P isFronted serverEntry p \<noteq> []" by auto
  with i vi have "selectQUICVersion P i isFronted serverEntry p = v"
    by (simp add: selectQUICVersion_survivors)
  then show "\<exists>r'. selectQUICVersion P r' isFronted serverEntry p = v" ..
qed

theorem selectQUICVersion_exactly_survivors_witness:
  "quicVersionSurvivors example_protocol True example_serverEntry example_params
     = [''gQUICv39'', ''gQUICv43'', ''gQUICv44'']
   \<and> selectQUICVersion example_protocol 5 True example_serverEntry example_params
       \<in> set [''gQUICv39'', ''gQUICv43'', ''gQUICv44'']
   \<and> (\<exists>r'. selectQUICVersion example_protocol r' True example_serverEntry example_params
              = ''gQUICv43'')
   \<and> selectQUICVersion example_protocol 5 False example_serverEntry_noQUIC example_params = []"
proof -
  have s: "quicVersionSurvivors example_protocol True example_serverEntry example_params
     = [''gQUICv39'', ''gQUICv43'', ''gQUICv44'']"
    by code_simp
  have e: "quicVersionSurvivors example_protocol False example_serverEntry_noQUIC example_params
     = []"
    by code_simp
  from selectQUICVersion_exactly_survivors
         [of example_protocol True example_serverEntry example_params 5]
       selectQUICVersion_exactly_survivors
         [of example_protocol False example_serverEntry_noQUIC example_params 5]
  show ?thesis unfolding s e by simp
qed

end
